theory Spec2Isabelle
  imports Complex_Main "HOL-Library.AList"
begin

section \<open>Data model\<close>

text \<open>
  Python values are embedded as follows. A \<^verbatim>\<open>str\<close> is a \<^typ>\<open>string\<close>; a
  \<^verbatim>\<open>float\<close> is a \<^typ>\<open>real\<close>, so arithmetic on confidences and similarities is
  exact (rounding is written out in one place, the cosine similarity, where it decides a
  bound); a \<^verbatim>\<open>dict\<close> whose
  iteration order is observable is an association list in insertion order
  (\<^const>\<open>AList.update\<close> overwrites in place and appends a new key, as Python does), and a
  \<^verbatim>\<open>defaultdict(set)\<close> is a function into sets. A raised exception is the left
  summand of a sum type; where the object has been mutated before the raise, the mutated
  state is returned next to the error.
\<close>

datatype py_error =
  ValueError | IndexError | TypeError | ZeroDivisionError | AttributeError | KeyError

text \<open>
  Property values (\<^verbatim>\<open>Dict[str, Any]\<close>): the kinds the code branches on, namely
  strings, numbers (\<^verbatim>\<open>int\<close> and \<^verbatim>\<open>float\<close>), booleans, \<^verbatim>\<open>None\<close> and lists of
  such scalars. Python compares and hashes \<^verbatim>\<open>True\<close> as \<^verbatim>\<open>1\<close> and \<^verbatim>\<open>False\<close> as
  \<^verbatim>\<open>0\<close>; \<open>norm_scalar\<close> picks the number as the representative.
\<close>

datatype scalar = SStr string | SNum real | SBool bool | SNone

datatype pval = PStr string | PNum real | PBool bool | PNone | PList "scalar list"

fun norm_scalar :: "scalar \<Rightarrow> scalar" where
  "norm_scalar (SBool b) = SNum (if b then 1 else 0)"
| "norm_scalar x = x"

fun py_eq :: "pval \<Rightarrow> pval \<Rightarrow> bool" where
  "py_eq (PStr a) (PStr b) = (a = b)"
| "py_eq (PNum a) (PNum b) = (a = b)"
| "py_eq (PNum a) (PBool b) = (a = (if b then 1 else 0))"
| "py_eq (PBool a) (PNum b) = ((if a then 1 else 0) = b)"
| "py_eq (PBool a) (PBool b) = (a = b)"
| "py_eq PNone PNone = True"
| "py_eq (PList a) (PList b) = (map norm_scalar a = map norm_scalar b)"
| "py_eq _ _ = False"

type_synonym props = "(string \<times> pval) list"

text \<open>\<^verbatim>\<open>entity_types.Entity\<close> and \<^verbatim>\<open>relation_types.Relation\<close> (dataclasses).\<close>

record entity =
  e_id :: string
  e_name :: string
  e_type :: string
  e_properties :: props
  e_aliases :: "string list"

record relation =
  r_id :: string
  r_type :: string
  head_entity_id :: string
  tail_entity_id :: string
  r_properties :: props
  confidence :: real

section \<open>The graph store (\<^verbatim>\<open>knowledge_graph.KnowledgeGraph\<close>)\<close>

text \<open>
  The \<^verbatim>\<open>networkx.MultiDiGraph\<close>: a node carries the attributes given to
  \<^verbatim>\<open>add_node\<close>; \<^verbatim>\<open>add_edge\<close> always appends a new parallel edge and creates a
  missing endpoint with no attributes.
\<close>

datatype node_attrs = NoAttrs | NodeAttrs string string props

record edge =
  edge_head :: string
  edge_tail :: string
  edge_relation_id :: string
  edge_relation_type :: string
  edge_properties :: props
  edge_confidence :: real

record multi_digraph =
  nodes :: "string \<rightharpoonup> node_attrs"
  edges :: "edge list"

definition graph_empty :: multi_digraph where
  "graph_empty = \<lparr>nodes = Map.empty, edges = []\<rparr>"

definition add_node :: "multi_digraph \<Rightarrow> string \<Rightarrow> node_attrs \<Rightarrow> multi_digraph" where
  "add_node g n a = g\<lparr>nodes := (nodes g)(n \<mapsto> a)\<rparr>"

definition touch_node :: "multi_digraph \<Rightarrow> string \<Rightarrow> multi_digraph" where
  "touch_node g n = (case nodes g n of None \<Rightarrow> g\<lparr>nodes := (nodes g)(n \<mapsto> NoAttrs)\<rparr> | Some _ \<Rightarrow> g)"

definition add_edge :: "multi_digraph \<Rightarrow> edge \<Rightarrow> multi_digraph" where
  "add_edge g e =
     (let g1 = touch_node (touch_node g (edge_head e)) (edge_tail e)
      in g1\<lparr>edges := edges g1 @ [e]\<rparr>)"

record knowledge_graph =
  entities :: "(string \<times> entity) list"
  relations :: "(string \<times> relation) list"
  graph :: multi_digraph
  entity_type_index :: "string \<Rightarrow> string set"
  relation_type_index :: "string \<Rightarrow> string set"
  entity_name_index :: "string \<rightharpoonup> string"

text \<open>\<^verbatim>\<open>KnowledgeGraph.__init__\<close>: every container empty.\<close>

definition kg_init :: knowledge_graph where
  "kg_init = \<lparr>entities = [], relations = [], graph = graph_empty,
     entity_type_index = (\<lambda>_. {}), relation_type_index = (\<lambda>_. {}),
     entity_name_index = Map.empty\<rparr>"

definition has_entity :: "knowledge_graph \<Rightarrow> string \<Rightarrow> bool" where
  "has_entity kg i = (map_of (entities kg) i \<noteq> None)"

definition add_entity :: "knowledge_graph \<Rightarrow> entity \<Rightarrow> knowledge_graph" where
  "add_entity kg e =
     (let kg1 = kg\<lparr>entities := AList.update (e_id e) e (entities kg)\<rparr>;
          kg2 = kg1\<lparr>graph := add_node (graph kg1) (e_id e)
                   (NodeAttrs (e_name e) (e_type e) (e_properties e))\<rparr>;
          kg3 = kg2\<lparr>entity_type_index := (entity_type_index kg2)
                   (e_type e := insert (e_id e) (entity_type_index kg2 (e_type e)))\<rparr>;
          kg4 = kg3\<lparr>entity_name_index := (entity_name_index kg3)(e_name e \<mapsto> e_id e)\<rparr>
      in kg4\<lparr>entity_name_index :=
            fold (\<lambda>alias idx. idx(alias \<mapsto> e_id e)) (e_aliases e) (entity_name_index kg4)\<rparr>)"

definition edge_of :: "relation \<Rightarrow> edge" where
  "edge_of r = \<lparr>edge_head = head_entity_id r, edge_tail = tail_entity_id r,
     edge_relation_id = r_id r, edge_relation_type = r_type r,
     edge_properties = r_properties r, edge_confidence = confidence r\<rparr>"

text \<open>
  \<^verbatim>\<open>add_relation\<close> stores the relation under its id first, then checks the endpoints and
  raises \<^verbatim>\<open>ValueError\<close>; only a relation that passes the check reaches the graph and the
  type index. The state at the raise is returned with the error.
\<close>

definition add_relation ::
  "knowledge_graph \<Rightarrow> relation \<Rightarrow> (py_error + unit) \<times> knowledge_graph" where
  "add_relation kg r =
     (let kg1 = kg\<lparr>relations := AList.update (r_id r) r (relations kg)\<rparr>
      in if \<not> has_entity kg1 (head_entity_id r) \<or> \<not> has_entity kg1 (tail_entity_id r)
         then (Inl ValueError, kg1)
         else
           (let kg2 = kg1\<lparr>graph := add_edge (graph kg1) (edge_of r)\<rparr>
            in (Inr (), kg2\<lparr>relation_type_index := (relation_type_index kg2)
                   (r_type r := insert (r_id r) (relation_type_index kg2 (r_type r)))\<rparr>)))"

definition batch_add_entities :: "knowledge_graph \<Rightarrow> entity list \<Rightarrow> knowledge_graph" where
  "batch_add_entities kg es = fold (\<lambda>e k. add_entity k e) es kg"

text \<open>\<^verbatim>\<open>batch_add_relations\<close> catches the \<^verbatim>\<open>ValueError\<close>, prints it and continues.\<close>

definition batch_add_relations :: "knowledge_graph \<Rightarrow> relation list \<Rightarrow> knowledge_graph" where
  "batch_add_relations kg rs = fold (\<lambda>r k. snd (add_relation k r)) rs kg"

definition clear :: "knowledge_graph \<Rightarrow> knowledge_graph" where
  "clear kg = kg\<lparr>entities := [], relations := [], graph := graph_empty,
     entity_type_index := (\<lambda>_. {}), relation_type_index := (\<lambda>_. {}),
     entity_name_index := Map.empty\<rparr>"

text \<open>The orphan check of \<^verbatim>\<open>validate_knowledge_graph\<close>: ids of relations with a missing endpoint.\<close>

definition orphaned_relations :: "knowledge_graph \<Rightarrow> string list" where
  "orphaned_relations kg =
     map fst (filter (\<lambda>(i, r). \<not> has_entity kg (head_entity_id r) \<or> \<not> has_entity kg (tail_entity_id r))
       (relations kg))"

text \<open>
  The two look-ups through the indices. \<^verbatim>\<open>get_entity_by_name\<close> reads the id under the
  name and then the entity under the id; an empty id counts as no id. \<^verbatim>\<open>get_entities_by_type\<close>
  reads the entity under every id that the type index holds for the type and raises
  \<^verbatim>\<open>KeyError\<close> at an id with no entity; its list is in the iteration order of a Python
  set, so the result is given as a set.
\<close>

definition get_entity_by_name :: "knowledge_graph \<Rightarrow> string \<Rightarrow> entity option" where
  "get_entity_by_name kg name =
     (case entity_name_index kg name of
        None \<Rightarrow> None
      | Some entity_id \<Rightarrow> if entity_id \<noteq> [] then map_of (entities kg) entity_id else None)"

definition get_entities_by_type :: "knowledge_graph \<Rightarrow> string \<Rightarrow> py_error + entity set" where
  "get_entities_by_type kg entity_type =
     (let entity_ids = entity_type_index kg entity_type
      in if entity_ids \<subseteq> dom (map_of (entities kg))
         then Inr ((\<lambda>eid. the (map_of (entities kg) eid)) ` entity_ids)
         else Inl KeyError)"

section \<open>String similarity (\<^verbatim>\<open>similarity_calculator.SimilarityCalculator\<close>)\<close>

text \<open>
  \<^verbatim>\<open>Levenshtein.distance\<close> of the third-party package: the edit distance with unit costs
  for insertion, deletion and substitution.
\<close>

fun levenshtein_distance :: "'a list \<Rightarrow> 'a list \<Rightarrow> nat" where
  "levenshtein_distance [] ys = length ys"
| "levenshtein_distance (x # xs) [] = Suc (length xs)"
| "levenshtein_distance (x # xs) (y # ys) =
     min (Suc (levenshtein_distance xs (y # ys)))
       (min (Suc (levenshtein_distance (x # xs) ys))
            (levenshtein_distance xs ys + (if x = y then 0 else 1)))"

definition levenshtein_similarity :: "string \<Rightarrow> string \<Rightarrow> real" where
  "levenshtein_similarity str1 str2 =
     (let max_len = max (length str1) (length str2)
      in if max_len = 0 then 1
         else 1 - real (levenshtein_distance str1 str2) / real max_len)"

text \<open>
  \<^verbatim>\<open>str.lower\<close> on the 8-bit characters of \<^typ>\<open>string\<close>: ASCII letters are mapped.
  Strings are thereby restricted to ASCII text; the lower-casing of other letters, and
  characters beyond 8 bits, are outside the model.
\<close>

definition lower_char :: "char \<Rightarrow> char" where
  "lower_char c =
     (let n = (of_char c :: nat) in if 65 \<le> n \<and> n \<le> 90 then char_of (n + 32) else c)"

definition lower :: "string \<Rightarrow> string" where
  "lower s = map lower_char s"

definition get_ngrams :: "string \<Rightarrow> nat \<Rightarrow> string set" where
  "get_ngrams text n =
     (if length text < n then {text}
      else set (map (\<lambda>i. take n (drop i text)) [0 ..< length text - n + 1]))"

definition jaccard_similarity_n :: "string \<Rightarrow> string \<Rightarrow> nat \<Rightarrow> real" where
  "jaccard_similarity_n str1 str2 n_gram =
     (let ngrams1 = get_ngrams (lower str1) n_gram;
          ngrams2 = get_ngrams (lower str2) n_gram;
          intersection = card (ngrams1 \<inter> ngrams2);
          union = card (ngrams1 \<union> ngrams2)
      in if union > 0 then real intersection / real union else 0)"

definition jaccard_similarity :: "string \<Rightarrow> string \<Rightarrow> real" where
  "jaccard_similarity str1 str2 = jaccard_similarity_n str1 str2 2"

text \<open>
  \<^verbatim>\<open>Counter(text.lower())\<close>: the keys are the distinct characters, the value of a key is
  its number of occurrences.
\<close>

definition dot_product :: "string \<Rightarrow> string \<Rightarrow> nat" where
  "dot_product l1 l2 =
     sum_list (map (\<lambda>c. count_list l1 c * count_list l2 c)
       (filter (\<lambda>c. c \<in> set l2) (remdups l1)))"

definition norm_sq :: "string \<Rightarrow> nat" where
  "norm_sq l = sum_list (map (\<lambda>c. count_list l c * count_list l c) (remdups l))"

definition cosine_similarity :: "string \<Rightarrow> string \<Rightarrow> real" where
  "cosine_similarity str1 str2 =
     (let l1 = lower str1; l2 = lower str2;
          norm1 = sqrt (real (norm_sq l1));
          norm2 = sqrt (real (norm_sq l2))
      in if norm1 = 0 \<or> norm2 = 0 then 0
         else real (dot_product l1 l2) / (norm1 * norm2))"

text \<open>
  The same function in double precision. \<open>binary64 x\<close> is the double nearest to
  \<open>x\<close>, ties to the even significand, for \<open>x\<close> in the normal range (no overflow, no
  subnormal numbers): the significand has 53 bits, so the spacing of the doubles around
  \<open>x\<close> is \<open>2\<close> to the power \<open>\<lfloor>log 2 \<bar>x\<bar>\<rfloor> - 52\<close>. The two sums of
  \<^verbatim>\<open>_cosine_similarity\<close> are sums of Python integers and are exact; \<^verbatim>\<open>math.sqrt\<close>
  converts its argument to a double and rounds the root, the product of the two norms is
  rounded, and the division converts the integer dot product and rounds the quotient.
\<close>

definition round_half_even :: "real \<Rightarrow> int" where
  "round_half_even x =
     (let f = \<lfloor>x\<rfloor>; d = x - of_int f
      in if d < 1 / 2 then f else if 1 / 2 < d then f + 1 else if even f then f else f + 1)"

definition binary64 :: "real \<Rightarrow> real" where
  "binary64 x =
     (if x = 0 then 0
      else let u = 2 powi (\<lfloor>log 2 \<bar>x\<bar>\<rfloor> - 52) in of_int (round_half_even (x / u)) * u)"

definition cosine_similarity_binary64 :: "string \<Rightarrow> string \<Rightarrow> real" where
  "cosine_similarity_binary64 str1 str2 =
     (let l1 = lower str1; l2 = lower str2;
          norm1 = binary64 (sqrt (binary64 (real (norm_sq l1))));
          norm2 = binary64 (sqrt (binary64 (real (norm_sq l2))))
      in if norm1 = 0 \<or> norm2 = 0 then 0
         else binary64 (binary64 (real (dot_product l1 l2)) / binary64 (norm1 * norm2)))"

text \<open>
  The table \<^verbatim>\<open>dp\<close> of \<^verbatim>\<open>lcs_length\<close>: \<open>lcs_dp s1 s2 i j\<close> is the entry
  \<^verbatim>\<open>dp[i][j]\<close> once the two loops have filled it.
\<close>

fun lcs_dp :: "'a list \<Rightarrow> 'a list \<Rightarrow> nat \<Rightarrow> nat \<Rightarrow> nat" where
  "lcs_dp s1 s2 0 j = 0"
| "lcs_dp s1 s2 (Suc i) 0 = 0"
| "lcs_dp s1 s2 (Suc i) (Suc j) =
     (if s1 ! i = s2 ! j then lcs_dp s1 s2 i j + 1
      else max (lcs_dp s1 s2 i (Suc j)) (lcs_dp s1 s2 (Suc i) j))"

definition lcs_length :: "'a list \<Rightarrow> 'a list \<Rightarrow> nat" where
  "lcs_length s1 s2 = lcs_dp s1 s2 (length s1) (length s2)"

definition lcs_similarity :: "string \<Rightarrow> string \<Rightarrow> real" where
  "lcs_similarity str1 str2 =
     (if length str1 + length str2 > 0
      then (2 * real (lcs_length str1 str2)) / real (length str1 + length str2)
      else 0)"

definition combined_string_similarity :: "string \<Rightarrow> string \<Rightarrow> real" where
  "combined_string_similarity str1 str2 =
     levenshtein_similarity str1 str2 * (3 / 10) + jaccard_similarity str1 str2 * (3 / 10)
       + cosine_similarity str1 str2 * (2 / 10) + lcs_similarity str1 str2 * (2 / 10)"

text \<open>
  \<^verbatim>\<open>string_similarity(str1, str2, method)\<close>: the empty check comes first, then equality,
  then the dispatch on the method name, which raises \<^verbatim>\<open>ValueError\<close> on an unknown name.
\<close>

definition string_similarity :: "string \<Rightarrow> string \<Rightarrow> string \<Rightarrow> py_error + real" where
  "string_similarity str1 str2 method =
     (if str1 = [] \<or> str2 = [] then Inr 0
      else if str1 = str2 then Inr 1
      else if method = ''levenshtein'' then Inr (levenshtein_similarity str1 str2)
      else if method = ''jaccard'' then Inr (jaccard_similarity str1 str2)
      else if method = ''cosine'' then Inr (cosine_similarity str1 str2)
      else if method = ''lcs'' then Inr (lcs_similarity str1 str2)
      else if method = ''combined'' then Inr (combined_string_similarity str1 str2)
      else Inl ValueError)"

text \<open>The call with the default method, \<^verbatim>\<open>string_similarity(a, b)\<close>; it cannot raise.\<close>

definition string_similarity_default :: "string \<Rightarrow> string \<Rightarrow> real" where
  "string_similarity_default str1 str2 =
     (if str1 = [] \<or> str2 = [] then 0
      else if str1 = str2 then 1
      else combined_string_similarity str1 str2)"

text \<open>\<^verbatim>\<open>_list_similarity\<close>: Jaccard index of the two lists taken as sets.\<close>

definition list_similarity :: "scalar list \<Rightarrow> scalar list \<Rightarrow> real" where
  "list_similarity list1 list2 =
     (if list1 = [] \<and> list2 = [] then 1
      else if list1 = [] \<or> list2 = [] then 0
      else (let set1 = set (map norm_scalar list1); set2 = set (map norm_scalar list2);
                intersection = card (set1 \<inter> set2); union = card (set1 \<union> set2)
            in if union > 0 then real intersection / real union else 0))"

definition value_similarity :: "pval \<Rightarrow> pval \<Rightarrow> real" where
  "value_similarity val1 val2 =
     (case (val1, val2) of
        (PStr a, PStr b) \<Rightarrow> string_similarity_default a b
      | (PList a, PList b) \<Rightarrow> list_similarity a b
      | _ \<Rightarrow> if py_eq val1 val2 then 1 else 0)"

text \<open>
  \<^verbatim>\<open>structural_similarity\<close> on two property dicts. The common keys are visited in the
  order of the first dict; the source iterates a set, and the sum does not depend on the order.
\<close>

definition structural_similarity :: "props \<Rightarrow> props \<Rightarrow> real" where
  "structural_similarity structure1 structure2 =
     (if structure1 = [] \<and> structure2 = [] then 1
      else if structure1 = [] \<or> structure2 = [] then 0
      else
        (let keys1 = set (map fst structure1); keys2 = set (map fst structure2);
             key_intersection = card (keys1 \<inter> keys2);
             key_union = card (keys1 \<union> keys2);
             key_similarity = (if key_union > 0 then real key_intersection / real key_union else 0);
             common_keys = filter (\<lambda>k. k \<in> keys2) (remdups (map fst structure1));
             value_similarities =
               map (\<lambda>k. value_similarity (the (map_of structure1 k)) (the (map_of structure2 k)))
                 common_keys;
             avg_value_similarity =
               (if value_similarities \<noteq> []
                then sum_list value_similarities / real (length value_similarities) else 0)
         in key_similarity * (5 / 10) + avg_value_similarity * (5 / 10)))"

text \<open>
  \<^verbatim>\<open>entity_similarity\<close>, applied to the dicts that the fusion engine builds from an
  entity's name, type, properties and aliases. The weighted sum is exact here; in doubles a
  sum that is exactly equal to a threshold may fall one rounding step below it.
\<close>

definition entity_similarity :: "entity \<Rightarrow> entity \<Rightarrow> real" where
  "entity_similarity entity1 entity2 =
     (let name_sim = string_similarity_default (e_name entity1) (e_name entity2);
          type_sim = (if e_type entity1 = e_type entity2 then 1 else 0);
          props_sim = structural_similarity (e_properties entity1) (e_properties entity2);
          aliases1 = set (e_aliases entity1); aliases2 = set (e_aliases entity2);
          aliases_sim = (if aliases1 \<union> aliases2 \<noteq> {}
                         then real (card (aliases1 \<inter> aliases2)) / real (card (aliases1 \<union> aliases2))
                         else 0)
      in name_sim * (4 / 10) + type_sim * (3 / 10) + props_sim * (2 / 10) + aliases_sim * (1 / 10))"

text \<open>
  \<^verbatim>\<open>batch_similarity_matrix\<close> with the default method: entry \<open>(i, j)\<close> of the matrix.
  The loop writes \<open>(i, j)\<close> and \<open>(j, i)\<close> for \<open>i \<le> j\<close> from the pair \<open>(items[i], items[j])\<close>.
\<close>

definition similarity_matrix :: "string list \<Rightarrow> nat \<Rightarrow> nat \<Rightarrow> real" where
  "similarity_matrix items i j =
     (if i = j then 1
      else string_similarity_default (items ! min i j) (items ! max i j))"

text \<open>
  \<^verbatim>\<open>clustering_by_similarity\<close>: depth-first search over the graph of pairs at or above the
  threshold. \<open>dfs\<close> is the nested function: its state is the visited set and the cluster
  under construction; the inner loop over \<open>neighbor\<close> is \<open>dfs_neighbors\<close>. The recursion
  depth is bounded by fuel, and running out of fuel is the result \<open>None\<close>.
\<close>

fun dfs :: "nat \<Rightarrow> (nat \<Rightarrow> nat \<Rightarrow> bool) \<Rightarrow> nat \<Rightarrow> nat \<Rightarrow> nat list \<times> nat list
    \<Rightarrow> (nat list \<times> nat list) option"
  and dfs_neighbors :: "nat \<Rightarrow> (nat \<Rightarrow> nat \<Rightarrow> bool) \<Rightarrow> nat \<Rightarrow> nat \<Rightarrow> nat list
    \<Rightarrow> nat list \<times> nat list \<Rightarrow> (nat list \<times> nat list) option"
  where
  "dfs 0 adj n node (visited, cluster) = None"
| "dfs (Suc fuel) adj n node (visited, cluster) =
     dfs_neighbors fuel adj n node [0 ..< n] (visited @ [node], cluster @ [node])"
| "dfs_neighbors fuel adj n node [] st = Some st"
| "dfs_neighbors fuel adj n node (neighbor # rest) (visited, cluster) =
     (if neighbor \<notin> set visited \<and> adj node neighbor
      then (case dfs fuel adj n neighbor (visited, cluster) of
              None \<Rightarrow> None
            | Some st \<Rightarrow> dfs_neighbors fuel adj n node rest st)
      else dfs_neighbors fuel adj n node rest (visited, cluster))"

fun clustering_loop :: "nat \<Rightarrow> (nat \<Rightarrow> nat \<Rightarrow> bool) \<Rightarrow> nat \<Rightarrow> nat list
    \<Rightarrow> nat list \<times> nat list list \<Rightarrow> nat list list option" where
  "clustering_loop fuel adj n [] (visited, clusters) = Some clusters"
| "clustering_loop fuel adj n (i # rest) (visited, clusters) =
     (if i \<notin> set visited
      then (case dfs fuel adj n i (visited, []) of
              None \<Rightarrow> None
            | Some (visited', cluster) \<Rightarrow>
                clustering_loop fuel adj n rest (visited', clusters @ [cluster]))
      else clustering_loop fuel adj n rest (visited, clusters))"

definition clustering_by_similarity :: "nat \<Rightarrow> string list \<Rightarrow> real \<Rightarrow> nat list list option" where
  "clustering_by_similarity fuel items threshold =
     (let n = length items
      in clustering_loop fuel (\<lambda>i j. similarity_matrix items i j \<ge> threshold) n [0 ..< n] ([], []))"

section \<open>Entity fusion (\<^verbatim>\<open>entity_fusion.EntityFusion\<close>)\<close>

record entity_cluster =
  ec_cluster_id :: string
  ec_entities :: "entity list"
  ec_representative_entity :: "entity option"
  ec_confidence :: real
  ec_fusion_method :: string

text \<open>The \<^verbatim>\<open>fusion_evidence\<close> dict: the method tag with its source count and cluster confidence.\<close>

datatype fusion_evidence = No_fusion_needed | Multi_fusion nat real

record fusion_result =
  fused_entity :: entity
  source_entities :: "entity list"
  fr_confidence :: real
  fr_fusion_evidence :: fusion_evidence

text \<open>
  The inner loop of \<^verbatim>\<open>identify_duplicate_entities\<close> for seed \<open>i\<close>: every later index
  that is not yet visited and is similar enough to the seed is appended to the group and marked.
\<close>

definition scan_later ::
  "(nat \<Rightarrow> bool) \<Rightarrow> nat list \<Rightarrow> nat list \<times> nat set \<Rightarrow> nat list \<times> nat set" where
  "scan_later similar js st =
     fold (\<lambda>j (duplicate_group, visited).
             if j \<in> visited then (duplicate_group, visited)
             else if similar j then (duplicate_group @ [j], insert j visited)
             else (duplicate_group, visited)) js st"

definition identify_duplicate_entities :: "real \<Rightarrow> entity list \<Rightarrow> nat list list" where
  "identify_duplicate_entities similarity_threshold entities' =
     (if length entities' \<le> 1 then []
      else fst (fold (\<lambda>i (duplicates, visited).
                  if i \<in> visited then (duplicates, visited)
                  else
                    (let (duplicate_group, visited') =
                           scan_later
                             (\<lambda>j. entity_similarity (entities' ! i) (entities' ! j) \<ge> similarity_threshold)
                             [i + 1 ..< length entities'] ([i], visited)
                     in (if length duplicate_group > 1 then duplicates @ [duplicate_group]
                         else duplicates,
                         insert i visited')))
                [0 ..< length entities'] ([], {})))"

text \<open>All pairs \<open>(i, j)\<close> with \<open>i < j\<close>, in the order of the two nested loops.\<close>

definition index_pairs :: "nat \<Rightarrow> (nat \<times> nat) list" where
  "index_pairs n = concat (map (\<lambda>i. map (\<lambda>j. (i, j)) [i + 1 ..< n]) [0 ..< n])"

definition entity_cluster_confidence :: "entity list \<Rightarrow> real" where
  "entity_cluster_confidence es =
     (if length es = 1 then 1
      else
        (let sims = map (\<lambda>(i, j). entity_similarity (es ! i) (es ! j)) (index_pairs (length es));
             total_similarity = sum_list sims;
             comparisons = length sims
         in if comparisons > 0 then total_similarity / real comparisons else 0))"

text \<open>
  \<^verbatim>\<open>float(x)\<close> on a property value; \<open>float_of_str\<close> is Python's parser for strings
  (\<open>None\<close> where it raises \<^verbatim>\<open>ValueError\<close>). Numbers are taken within the range of a
  double: the \<^verbatim>\<open>OverflowError\<close> of \<^verbatim>\<open>float\<close> on a Python integer beyond that range is
  not modelled.
\<close>

fun py_float :: "(string \<Rightarrow> real option) \<Rightarrow> pval \<Rightarrow> py_error + real" where
  "py_float float_of_str (PNum x) = Inr x"
| "py_float float_of_str (PBool b) = Inr (if b then 1 else 0)"
| "py_float float_of_str (PStr s) = (case float_of_str s of None \<Rightarrow> Inl ValueError | Some x \<Rightarrow> Inr x)"
| "py_float float_of_str _ = Inl TypeError"

text \<open>\<^verbatim>\<open>max(scores, key=...)\<close>: the first item whose score is maximal.\<close>

fun max_first :: "('a \<times> real) \<Rightarrow> ('a \<times> real) list \<Rightarrow> 'a \<times> real" where
  "max_first best [] = best"
| "max_first best (x # xs) = max_first (if snd x > snd best then x else best) xs"

definition entity_score :: "(string \<Rightarrow> real option) \<Rightarrow> entity \<Rightarrow> py_error + real" where
  "entity_score float_of_str e =
     (let s1 = real (length (e_name e)) * (1 / 10);
          s2 = (if e_properties e \<noteq> [] then s1 + real (length (e_properties e)) * (2 / 10) else s1);
          s3 = (if e_aliases e \<noteq> [] then s2 + real (length (e_aliases e)) * (1 / 10) else s2)
      in case map_of (e_properties e) ''confidence'' of
           None \<Rightarrow> Inr s3
         | Some v \<Rightarrow> (case py_float float_of_str v of
                        Inl err \<Rightarrow> Inl err
                      | Inr c \<Rightarrow> Inr (s3 + c * (5 / 10))))"

text \<open>The loop that collects \<open>(item, score)\<close> pairs and stops at the first raise.\<close>

fun collect_scores :: "('a \<Rightarrow> py_error + real) \<Rightarrow> 'a list \<Rightarrow> py_error + ('a \<times> real) list" where
  "collect_scores score [] = Inr []"
| "collect_scores score (x # xs) =
     (case score x of
        Inl err \<Rightarrow> Inl err
      | Inr v \<Rightarrow> (case collect_scores score xs of
                    Inl err \<Rightarrow> Inl err
                  | Inr rest \<Rightarrow> Inr ((x, v) # rest)))"

definition select_representative_entity ::
  "(string \<Rightarrow> real option) \<Rightarrow> entity list \<Rightarrow> py_error + entity" where
  "select_representative_entity float_of_str es =
     (if length es = 1 then Inr (hd es)
      else case collect_scores (entity_score float_of_str) es of
             Inl err \<Rightarrow> Inl err
           | Inr [] \<Rightarrow> Inl ValueError
           | Inr (x # xs) \<Rightarrow> Inr (fst (max_first x xs)))"

text \<open>
  \<^verbatim>\<open>_calculate_fusion_confidence(source_entities, fused_entity)\<close>. The booleans
  \<^verbatim>\<open>name_consistency\<close> and \<^verbatim>\<open>type_consistency\<close> are added as 0 or 1.
\<close>

definition entity_fusion_confidence :: "entity list \<Rightarrow> entity \<Rightarrow> real" where
  "entity_fusion_confidence source_entities' fused =
     (if length source_entities' = 1 then 1
      else
        (let source_factor = min 1 (real (length source_entities') / 5);
             total_props = sum_list (map (\<lambda>e. length (e_properties e)) source_entities');
             fused_props = length (e_properties fused);
             completeness_factor =
               (if total_props > 0 then real fused_props / real total_props else 5 / 10);
             name_consistency = (card (set (map e_name source_entities')) = 1);
             type_consistency = (card (set (map e_type source_entities')) = 1);
             consistency_factor =
               ((if name_consistency then 1 else 0) + (if type_consistency then 1 else 0)) / 2;
             weighted_sum = source_factor * (3 / 10) + completeness_factor * (4 / 10)
                            + consistency_factor * (3 / 10)
         in min weighted_sum 1))"

text \<open>
  \<^verbatim>\<open>fuse_entity_cluster\<close>. The merged entity of a cluster with several members is built
  by \<^verbatim>\<open>_create_fused_entity\<close>, whose id is a fresh \<^verbatim>\<open>uuid4\<close> and whose name, alias and
  property order follow Python's set iteration; it is the argument \<open>create_fused_entity\<close>.
\<close>

definition fuse_entity_cluster :: "(entity list \<Rightarrow> entity) \<Rightarrow> entity_cluster \<Rightarrow> fusion_result" where
  "fuse_entity_cluster create_fused_entity cluster =
     (if length (ec_entities cluster) = 1
      then \<lparr>fused_entity = hd (ec_entities cluster), source_entities = ec_entities cluster,
            fr_confidence = 1, fr_fusion_evidence = No_fusion_needed\<rparr>
      else
        (let fused = create_fused_entity (ec_entities cluster)
         in \<lparr>fused_entity = fused, source_entities = ec_entities cluster,
              fr_confidence = entity_fusion_confidence (ec_entities cluster) fused,
              fr_fusion_evidence =
                Multi_fusion (length (ec_entities cluster)) (ec_confidence cluster)\<rparr>))"

text \<open>
  \<^verbatim>\<open>cluster_entities\<close>: one cluster per duplicate group, then one singleton cluster per
  index outside every group. \<open>uuid4 k\<close> is the id drawn for the \<open>k\<close>-th cluster.
\<close>

fun group_clusters ::
  "(string \<Rightarrow> real option) \<Rightarrow> (nat \<Rightarrow> string) \<Rightarrow> entity list \<Rightarrow> nat \<Rightarrow> nat list list
     \<Rightarrow> py_error + entity_cluster list" where
  "group_clusters float_of_str uuid4 es k [] = Inr []"
| "group_clusters float_of_str uuid4 es k (group_indices # rest) =
     (let group_entities = map (\<lambda>i. es ! i) group_indices
      in case select_representative_entity float_of_str group_entities of
           Inl err \<Rightarrow> Inl err
         | Inr rep \<Rightarrow>
             (case group_clusters float_of_str uuid4 es (Suc k) rest of
                Inl err \<Rightarrow> Inl err
              | Inr cs \<Rightarrow>
                  Inr (\<lparr>ec_cluster_id = uuid4 k, ec_entities = group_entities,
                        ec_representative_entity = Some rep,
                        ec_confidence = entity_cluster_confidence group_entities,
                        ec_fusion_method = ''similarity_based''\<rparr> # cs)))"

definition single_clusters ::
  "(nat \<Rightarrow> string) \<Rightarrow> entity list \<Rightarrow> nat \<Rightarrow> nat list list \<Rightarrow> entity_cluster list" where
  "single_clusters uuid4 es k duplicate_groups =
     map (\<lambda>(m, i). \<lparr>ec_cluster_id = uuid4 (k + m), ec_entities = [es ! i],
                     ec_representative_entity = Some (es ! i),
                     ec_confidence = 1, ec_fusion_method = ''single_entity''\<rparr>)
       (enumerate 0 (filter (\<lambda>i. i \<notin> set (concat duplicate_groups)) [0 ..< length es]))"

definition cluster_entities ::
  "(string \<Rightarrow> real option) \<Rightarrow> (nat \<Rightarrow> string) \<Rightarrow> real \<Rightarrow> entity list
     \<Rightarrow> py_error + entity_cluster list" where
  "cluster_entities float_of_str uuid4 similarity_threshold es =
     (let duplicate_groups = identify_duplicate_entities similarity_threshold es
      in case group_clusters float_of_str uuid4 es 0 duplicate_groups of
           Inl err \<Rightarrow> Inl err
         | Inr clusters \<Rightarrow>
             Inr (clusters @ single_clusters uuid4 es (length clusters) duplicate_groups))"

definition batch_fuse_entities ::
  "(string \<Rightarrow> real option) \<Rightarrow> (nat \<Rightarrow> string) \<Rightarrow> (entity list \<Rightarrow> entity) \<Rightarrow> real \<Rightarrow> entity list
     \<Rightarrow> py_error + fusion_result list" where
  "batch_fuse_entities float_of_str uuid4 create_fused_entity similarity_threshold es =
     (case cluster_entities float_of_str uuid4 similarity_threshold es of
        Inl err \<Rightarrow> Inl err
      | Inr clusters \<Rightarrow> Inr (map (fuse_entity_cluster create_fused_entity) clusters))"

text \<open>
  The dedup pass in the specification's words: take the first unclustered index as the seed,
  put every later unclustered index that is similar to the seed into its cluster, and go on
  with the indices that are left.
\<close>

fun seed_clusters :: "(nat \<Rightarrow> nat \<Rightarrow> bool) \<Rightarrow> nat list \<Rightarrow> nat list list" where
  "seed_clusters similar [] = []"
| "seed_clusters similar (i # rest) =
     (i # filter (similar i) rest) # seed_clusters similar (filter (\<lambda>j. \<not> similar i j) rest)"

text \<open>The index groups of all clusters that \<^verbatim>\<open>cluster_entities\<close> builds, in its order.\<close>

definition cluster_index_groups :: "real \<Rightarrow> entity list \<Rightarrow> nat list list" where
  "cluster_index_groups similarity_threshold es =
     (let duplicate_groups = identify_duplicate_entities similarity_threshold es
      in duplicate_groups
         @ map (\<lambda>i. [i]) (filter (\<lambda>i. i \<notin> set (concat duplicate_groups)) [0 ..< length es]))"

text \<open>
  The property type under which the representative selection of the entity engine raises
  nothing: a \<^verbatim>\<open>confidence\<close> property, if present, is a number.
\<close>

definition well_typed_entity :: "entity \<Rightarrow> bool" where
  "well_typed_entity e =
     (case map_of (e_properties e) ''confidence'' of
        None \<Rightarrow> True | Some (PNum _) \<Rightarrow> True | Some (PBool _) \<Rightarrow> True | Some _ \<Rightarrow> False)"

section \<open>Relation fusion (\<^verbatim>\<open>relation_fusion.RelationFusion\<close>)\<close>

record relation_cluster =
  rc_cluster_id :: string
  rc_relations :: "relation list"
  rc_representative_relation :: "relation option"
  rc_confidence :: real
  rc_fusion_method :: string

record relation_fusion_result =
  fused_relation :: relation
  source_relations :: "relation list"
  rfr_confidence :: real
  rfr_fusion_evidence :: fusion_evidence

text \<open>The constructor defaults: threshold 0.8 and the \<^verbatim>\<open>weighted_average\<close> strategy.\<close>

definition default_similarity_threshold :: real where
  "default_similarity_threshold = 8 / 10"

definition default_confidence_strategy :: string where
  "default_confidence_strategy = ''weighted_average''"

text \<open>
  \<^verbatim>\<open>context_similarity\<close>: Jaccard index of the keyword sets. The keywords of a text come
  from the third-party tokenizer \<^verbatim>\<open>jieba\<close> and the stop-word filter; \<open>keywords\<close> is that
  function (\<^verbatim>\<open>extract_keywords\<close>), an argument of the model.
\<close>

definition context_similarity :: "(string \<Rightarrow> string list) \<Rightarrow> string \<Rightarrow> string \<Rightarrow> real" where
  "context_similarity keywords context1 context2 =
     (let keywords1 = set (keywords context1); keywords2 = set (keywords context2)
      in if keywords1 = {} \<and> keywords2 = {} then 1
         else if keywords1 = {} \<or> keywords2 = {} then 0
         else (let intersection = card (keywords1 \<inter> keywords2);
                   union = card (keywords1 \<union> keywords2)
               in if union > 0 then real intersection / real union else 0))"

text \<open>
  \<^verbatim>\<open>_calculate_relation_similarity\<close>. A \<^verbatim>\<open>context\<close> property that is not a string
  has no \<^verbatim>\<open>lower\<close> method, so the call raises \<^verbatim>\<open>AttributeError\<close>.
\<close>

definition relation_context_similarity ::
  "(string \<Rightarrow> string list) \<Rightarrow> relation \<Rightarrow> relation \<Rightarrow> py_error + real" where
  "relation_context_similarity keywords relation1 relation2 =
     (if r_properties relation1 \<noteq> [] \<and> r_properties relation2 \<noteq> []
         \<and> map_of (r_properties relation1) ''context'' \<noteq> None
         \<and> map_of (r_properties relation2) ''context'' \<noteq> None
      then (case (the (map_of (r_properties relation1) ''context''),
                  the (map_of (r_properties relation2) ''context'')) of
              (PStr c1, PStr c2) \<Rightarrow> Inr (context_similarity keywords c1 c2)
            | _ \<Rightarrow> Inl AttributeError)
      else Inr 0)"

definition relation_type_similarity :: "relation \<Rightarrow> relation \<Rightarrow> real" where
  "relation_type_similarity relation1 relation2 =
     (if r_type relation1 = r_type relation2 then 1 else 0)"

definition relation_entity_similarity :: "relation \<Rightarrow> relation \<Rightarrow> real" where
  "relation_entity_similarity relation1 relation2 =
     (if head_entity_id relation1 = head_entity_id relation2
         \<and> tail_entity_id relation1 = tail_entity_id relation2 then 1
      else if head_entity_id relation1 = tail_entity_id relation2
         \<and> tail_entity_id relation1 = head_entity_id relation2 then 8 / 10
      else 0)"

definition calculate_relation_similarity ::
  "(string \<Rightarrow> string list) \<Rightarrow> relation \<Rightarrow> relation \<Rightarrow> py_error + real" where
  "calculate_relation_similarity keywords relation1 relation2 =
     (let type_sim = relation_type_similarity relation1 relation2;
          entity_sim = relation_entity_similarity relation1 relation2
      in case relation_context_similarity keywords relation1 relation2 of
           Inl err \<Rightarrow> Inl err
         | Inr context_sim \<Rightarrow>
             (let total_weight = 6 / 10 + 8 / 10 + 4 / 10 :: real;
                  weighted_sum = type_sim * (6 / 10) + entity_sim * (8 / 10)
                                 + context_sim * (4 / 10)
              in Inr (if total_weight > 0 then weighted_sum / total_weight else 0)))"

definition are_duplicate_relations ::
  "real \<Rightarrow> (string \<Rightarrow> string list) \<Rightarrow> relation \<Rightarrow> relation \<Rightarrow> py_error + bool" where
  "are_duplicate_relations similarity_threshold keywords relation1 relation2 =
     (if r_type relation1 = r_type relation2
         \<and> head_entity_id relation1 = head_entity_id relation2
         \<and> tail_entity_id relation1 = tail_entity_id relation2
      then Inr True
      else case calculate_relation_similarity keywords relation1 relation2 of
             Inl err \<Rightarrow> Inl err
           | Inr similarity \<Rightarrow> Inr (similarity \<ge> similarity_threshold))"

text \<open>
  The two loops of \<^verbatim>\<open>identify_duplicate_relations\<close>; a raise of the duplicate test ends
  both.
\<close>

fun scan_later_relations ::
  "(nat \<Rightarrow> py_error + bool) \<Rightarrow> nat list \<Rightarrow> nat list \<times> nat set \<Rightarrow> py_error + (nat list \<times> nat set)" where
  "scan_later_relations dup [] st = Inr st"
| "scan_later_relations dup (j # js) (duplicate_group, visited) =
     (if j \<in> visited then scan_later_relations dup js (duplicate_group, visited)
      else case dup j of
             Inl err \<Rightarrow> Inl err
           | Inr d \<Rightarrow>
               (if d then scan_later_relations dup js (duplicate_group @ [j], insert j visited)
                else scan_later_relations dup js (duplicate_group, visited)))"

fun identify_relations_loop ::
  "(nat \<Rightarrow> nat \<Rightarrow> py_error + bool) \<Rightarrow> nat \<Rightarrow> nat list \<Rightarrow> nat list list \<times> nat set
     \<Rightarrow> py_error + nat list list" where
  "identify_relations_loop dup n [] (duplicates, visited) = Inr duplicates"
| "identify_relations_loop dup n (i # rest) (duplicates, visited) =
     (if i \<in> visited then identify_relations_loop dup n rest (duplicates, visited)
      else case scan_later_relations (dup i) [i + 1 ..< n] ([i], visited) of
             Inl err \<Rightarrow> Inl err
           | Inr (duplicate_group, visited') \<Rightarrow>
               identify_relations_loop dup n rest
                 (if length duplicate_group > 1 then duplicates @ [duplicate_group] else duplicates,
                  insert i visited'))"

definition identify_duplicate_relations ::
  "real \<Rightarrow> (string \<Rightarrow> string list) \<Rightarrow> relation list \<Rightarrow> py_error + nat list list" where
  "identify_duplicate_relations similarity_threshold keywords rs =
     (if length rs \<le> 1 then Inr []
      else identify_relations_loop
             (\<lambda>i j. are_duplicate_relations similarity_threshold keywords (rs ! i) (rs ! j))
             (length rs) [0 ..< length rs] ([], {}))"

text \<open>Collecting the results of a loop body that may raise.\<close>

fun collect :: "('a \<Rightarrow> py_error + 'b) \<Rightarrow> 'a list \<Rightarrow> py_error + 'b list" where
  "collect f [] = Inr []"
| "collect f (x # xs) =
     (case f x of
        Inl err \<Rightarrow> Inl err
      | Inr v \<Rightarrow> (case collect f xs of Inl err \<Rightarrow> Inl err | Inr rest \<Rightarrow> Inr (v # rest)))"

text \<open>
  \<^verbatim>\<open>_calculate_cluster_confidence\<close> of the relation engine. On the empty list the average
  of the individual confidences divides by zero.
\<close>

definition relation_cluster_confidence ::
  "(string \<Rightarrow> string list) \<Rightarrow> relation list \<Rightarrow> py_error + real" where
  "relation_cluster_confidence keywords rs =
     (if length rs = 1 then Inr (confidence (hd rs))
      else case collect (\<lambda>(i, j). calculate_relation_similarity keywords (rs ! i) (rs ! j))
                  (index_pairs (length rs)) of
             Inl err \<Rightarrow> Inl err
           | Inr sims \<Rightarrow>
               (let avg_similarity =
                      (if length sims > 0 then sum_list sims / real (length sims) else 0)
                in if rs = [] then Inl ZeroDivisionError
                   else
                     (let avg_individual_confidence =
                            sum_list (map confidence rs) / real (length rs)
                      in Inr (avg_similarity * (6 / 10) + avg_individual_confidence * (4 / 10)))))"

text \<open>
  \<^verbatim>\<open>x * 0.3\<close> for a property value \<open>x\<close>: numbers and booleans multiply, the rest raise.
  As for \<open>py_float\<close>, the \<^verbatim>\<open>OverflowError\<close> of an integer beyond the range of a double
  is not modelled.
\<close>

fun py_times :: "pval \<Rightarrow> real \<Rightarrow> py_error + real" where
  "py_times (PNum x) c = Inr (x * c)"
| "py_times (PBool b) c = Inr ((if b then 1 else 0) * c)"
| "py_times _ c = Inl TypeError"

definition relation_score :: "relation \<Rightarrow> py_error + real" where
  "relation_score r =
     (let s1 = confidence r * (5 / 10);
          s2 = (if r_properties r \<noteq> [] then s1 + real (length (r_properties r)) * (1 / 10) else s1)
      in case (if r_properties r \<noteq> [] then map_of (r_properties r) ''source_quality'' else None) of
           None \<Rightarrow>
             Inr (if r_properties r \<noteq> [] \<and> map_of (r_properties r) ''timestamp'' \<noteq> None
                  then s2 + 1 / 10 else s2)
         | Some q \<Rightarrow>
             (case py_times q (3 / 10) of
                Inl err \<Rightarrow> Inl err
              | Inr v \<Rightarrow>
                  Inr (if map_of (r_properties r) ''timestamp'' \<noteq> None
                       then s2 + v + 1 / 10 else s2 + v)))"

definition select_representative_relation :: "relation list \<Rightarrow> py_error + relation" where
  "select_representative_relation rs =
     (if length rs = 1 then Inr (hd rs)
      else case collect_scores relation_score rs of
             Inl err \<Rightarrow> Inl err
           | Inr [] \<Rightarrow> Inl ValueError
           | Inr (x # xs) \<Rightarrow> Inr (fst (max_first x xs)))"

text \<open>
  \<^verbatim>\<open>_calculate_fusion_confidence\<close> under the configured strategy. \<^verbatim>\<open>max\<close> of an empty
  list raises \<^verbatim>\<open>ValueError\<close>, the averages divide by zero.
\<close>

definition average :: "real list \<Rightarrow> py_error + real" where
  "average xs = (if xs = [] then Inl ZeroDivisionError else Inr (sum_list xs / real (length xs)))"

definition relation_fusion_confidence :: "string \<Rightarrow> relation list \<Rightarrow> py_error + real" where
  "relation_fusion_confidence strategy rs =
     (let confidences = map confidence rs
      in if strategy = ''max''
         then (if confidences = [] then Inl ValueError else Inr (Max (set confidences)))
         else if strategy = ''average'' then average confidences
         else if strategy = ''weighted_average''
         then (let source_weight = min 1 (real (length rs) / 5)
               in case average confidences of
                    Inl err \<Rightarrow> Inl err
                  | Inr avg_confidence \<Rightarrow>
                      Inr (min 1 (avg_confidence * (1 + source_weight * (2 / 10)))))
         else average confidences)"

text \<open>
  \<^verbatim>\<open>_create_fused_relation\<close>. The id of the fused relation is a fresh \<^verbatim>\<open>uuid4\<close>, and
  its property dict (the merged source properties, built in the iteration order of a Python
  set, plus the \<^verbatim>\<open>fusion_info\<close> entry) is \<open>fuse_properties\<close> of the sources; both are
  arguments of the model.
\<close>

definition create_fused_relation ::
  "string \<Rightarrow> string \<Rightarrow> (relation list \<Rightarrow> props) \<Rightarrow> relation list \<Rightarrow> py_error + relation" where
  "create_fused_relation strategy fused_id fuse_properties rs =
     (case select_representative_relation rs of
        Inl err \<Rightarrow> Inl err
      | Inr representative \<Rightarrow>
          (case relation_fusion_confidence strategy rs of
             Inl err \<Rightarrow> Inl err
           | Inr fused_confidence \<Rightarrow>
               Inr \<lparr>r_id = fused_id, r_type = r_type representative,
                    head_entity_id = head_entity_id representative,
                    tail_entity_id = tail_entity_id representative,
                    r_properties = fuse_properties rs, confidence = fused_confidence\<rparr>))"

definition fuse_relation_cluster ::
  "string \<Rightarrow> string \<Rightarrow> (relation list \<Rightarrow> props) \<Rightarrow> relation_cluster
     \<Rightarrow> py_error + relation_fusion_result" where
  "fuse_relation_cluster strategy fused_id fuse_properties cluster =
     (if length (rc_relations cluster) = 1
      then Inr \<lparr>fused_relation = hd (rc_relations cluster),
                source_relations = rc_relations cluster,
                rfr_confidence = rc_confidence cluster,
                rfr_fusion_evidence = No_fusion_needed\<rparr>
      else case create_fused_relation strategy fused_id fuse_properties (rc_relations cluster) of
             Inl err \<Rightarrow> Inl err
           | Inr fused \<Rightarrow>
               (case relation_fusion_confidence strategy (rc_relations cluster) of
                  Inl err \<Rightarrow> Inl err
                | Inr fusion_confidence \<Rightarrow>
                    Inr \<lparr>fused_relation = fused, source_relations = rc_relations cluster,
                         rfr_confidence = fusion_confidence,
                         rfr_fusion_evidence =
                           Multi_fusion (length (rc_relations cluster)) (rc_confidence cluster)\<rparr>))"

fun group_relation_clusters ::
  "(string \<Rightarrow> string list) \<Rightarrow> (nat \<Rightarrow> string) \<Rightarrow> relation list \<Rightarrow> nat \<Rightarrow> nat list list
     \<Rightarrow> py_error + relation_cluster list" where
  "group_relation_clusters keywords uuid4 rs k [] = Inr []"
| "group_relation_clusters keywords uuid4 rs k (group_indices # rest) =
     (let group_relations = map (\<lambda>i. rs ! i) group_indices
      in case relation_cluster_confidence keywords group_relations of
           Inl err \<Rightarrow> Inl err
         | Inr conf \<Rightarrow>
             (case select_representative_relation group_relations of
                Inl err \<Rightarrow> Inl err
              | Inr rep \<Rightarrow>
                  (case group_relation_clusters keywords uuid4 rs (Suc k) rest of
                     Inl err \<Rightarrow> Inl err
                   | Inr cs \<Rightarrow>
                       Inr (\<lparr>rc_cluster_id = uuid4 k, rc_relations = group_relations,
                             rc_representative_relation = Some rep, rc_confidence = conf,
                             rc_fusion_method = ''similarity_based''\<rparr> # cs))))"

definition single_relation_clusters ::
  "(nat \<Rightarrow> string) \<Rightarrow> relation list \<Rightarrow> nat \<Rightarrow> nat list list \<Rightarrow> relation_cluster list" where
  "single_relation_clusters uuid4 rs k duplicate_groups =
     map (\<lambda>(m, i). \<lparr>rc_cluster_id = uuid4 (k + m), rc_relations = [rs ! i],
                     rc_representative_relation = Some (rs ! i),
                     rc_confidence = 1, rc_fusion_method = ''single_relation''\<rparr>)
       (enumerate 0 (filter (\<lambda>i. i \<notin> set (concat duplicate_groups)) [0 ..< length rs]))"

definition cluster_relations ::
  "real \<Rightarrow> (string \<Rightarrow> string list) \<Rightarrow> (nat \<Rightarrow> string) \<Rightarrow> relation list
     \<Rightarrow> py_error + relation_cluster list" where
  "cluster_relations similarity_threshold keywords uuid4 rs =
     (case identify_duplicate_relations similarity_threshold keywords rs of
        Inl err \<Rightarrow> Inl err
      | Inr duplicate_groups \<Rightarrow>
          (case group_relation_clusters keywords uuid4 rs 0 duplicate_groups of
             Inl err \<Rightarrow> Inl err
           | Inr clusters \<Rightarrow>
               Inr (clusters @ single_relation_clusters uuid4 rs (length clusters) duplicate_groups)))"

text \<open>\<^verbatim>\<open>batch_fuse_relations\<close>; \<open>fused_id k\<close> is the id drawn for the \<open>k\<close>-th fused relation.\<close>

definition batch_fuse_relations ::
  "string \<Rightarrow> real \<Rightarrow> (string \<Rightarrow> string list) \<Rightarrow> (nat \<Rightarrow> string) \<Rightarrow> (nat \<Rightarrow> string)
     \<Rightarrow> (relation list \<Rightarrow> props) \<Rightarrow> relation list \<Rightarrow> py_error + relation_fusion_result list" where
  "batch_fuse_relations strategy similarity_threshold keywords uuid4 fused_id fuse_properties rs =
     (case cluster_relations similarity_threshold keywords uuid4 rs of
        Inl err \<Rightarrow> Inl err
      | Inr clusters \<Rightarrow>
          collect (\<lambda>(k, cluster). fuse_relation_cluster strategy (fused_id k) fuse_properties cluster)
            (enumerate 0 clusters))"

section \<open>Merging two stores (\<^verbatim>\<open>KnowledgeGraph.merge_knowledge_graph\<close>)\<close>

text \<open>The loop \<^verbatim>\<open>for result in relation_fusion_results: self.add_relation(...)\<close>; a raise ends it.\<close>

fun add_relations ::
  "knowledge_graph \<Rightarrow> relation list \<Rightarrow> (py_error + unit) \<times> knowledge_graph" where
  "add_relations kg [] = (Inr (), kg)"
| "add_relations kg (r # rs) =
     (case add_relation kg r of
        (Inl err, kg') \<Rightarrow> (Inl err, kg')
      | (Inr u, kg') \<Rightarrow> add_relations kg' rs)"

text \<open>The loop that adds the fused entities and records the id mapping of their sources.\<close>

definition add_fused_entities ::
  "knowledge_graph \<Rightarrow> fusion_result list \<Rightarrow> knowledge_graph \<times> (string \<rightharpoonup> string)" where
  "add_fused_entities kg results =
     fold (\<lambda>result (k, entity_id_mapping).
             (add_entity k (fused_entity result),
              fold (\<lambda>source_entity m. m(e_id source_entity \<mapsto> e_id (fused_entity result)))
                (source_entities result) entity_id_mapping))
       results (kg, Map.empty)"

definition remap_relations ::
  "knowledge_graph \<Rightarrow> (string \<rightharpoonup> string) \<Rightarrow> relation list \<Rightarrow> relation list" where
  "remap_relations kg entity_id_mapping all_relations =
     concat (map (\<lambda>r.
       (let new_head_id = (case entity_id_mapping (head_entity_id r) of
                             None \<Rightarrow> head_entity_id r | Some i \<Rightarrow> i);
            new_tail_id = (case entity_id_mapping (tail_entity_id r) of
                             None \<Rightarrow> tail_entity_id r | Some i \<Rightarrow> i)
        in if has_entity kg new_head_id \<and> has_entity kg new_tail_id
           then [r\<lparr>head_entity_id := new_head_id, tail_entity_id := new_tail_id\<rparr>]
           else [])) all_relations)"

text \<open>
  \<^verbatim>\<open>merge_knowledge_graph\<close>. The two fusion engines of the store are the arguments
  \<open>fuse_entities\<close> (\<^verbatim>\<open>self.entity_fusion.batch_fuse_entities\<close>) and \<open>fuse_relations\<close>
  (\<^verbatim>\<open>self.relation_fusion.batch_fuse_relations\<close>).
\<close>

definition merge_knowledge_graph ::
  "(entity list \<Rightarrow> py_error + fusion_result list)
     \<Rightarrow> (relation list \<Rightarrow> py_error + relation_fusion_result list)
     \<Rightarrow> knowledge_graph \<Rightarrow> knowledge_graph \<Rightarrow> (py_error + unit) \<times> knowledge_graph" where
  "merge_knowledge_graph fuse_entities fuse_relations kg other_kg =
     (let all_entities = map snd (entities kg) @ map snd (entities other_kg)
      in case fuse_entities all_entities of
           Inl err \<Rightarrow> (Inl err, kg)
         | Inr entity_fusion_results \<Rightarrow>
             (let kg1 = kg\<lparr>entities := [], entity_type_index := (\<lambda>_. {}),
                            entity_name_index := Map.empty\<rparr>;
                  (kg2, entity_id_mapping) = add_fused_entities kg1 entity_fusion_results;
                  all_relations = map snd (relations kg2) @ map snd (relations other_kg);
                  updated_relations = remap_relations kg2 entity_id_mapping all_relations
              in case fuse_relations updated_relations of
                   Inl err \<Rightarrow> (Inl err, kg2)
                 | Inr relation_fusion_results \<Rightarrow>
                     (let kg3 = kg2\<lparr>relations := [], relation_type_index := (\<lambda>_. {}),
                                     graph := graph_empty\<rparr>;
                          kg4 = fold (\<lambda>(i, e) k. k\<lparr>graph := add_node (graph k) (e_id e)
                                         (NodeAttrs (e_name e) (e_type e) (e_properties e))\<rparr>)
                                  (entities kg3) kg3
                      in add_relations kg4 (map fused_relation relation_fusion_results))))"

section \<open>Conflict detection and resolution (\<^verbatim>\<open>conflict_resolution.ConflictResolver\<close>)\<close>

datatype conflict_type =
    ENTITY_NAME_CONFLICT | ENTITY_TYPE_CONFLICT | PROPERTY_VALUE_CONFLICT
  | RELATION_TYPE_CONFLICT | TEMPORAL_CONFLICT | CONTRADICTORY_RELATIONS

text \<open>
  A conflicting item (\<^verbatim>\<open>List[Any]\<close>) is a name, a type name or a property value, or a whole
  relation. The description is one of the five message templates with its entity ids (and
  property key) filled in.
\<close>

datatype item = Val pval | Rel relation

datatype description =
    Several_names_of string | Several_types_of string | Conflicting_values_of string string
  | Contradictory_between string string | Several_types_between string string

record conflict =
  conflict_id :: string
  conflict_type :: conflict_type
  conflict_description :: description
  conflicting_items :: "item list"
  confidence_scores :: "real list"
  resolution_strategy :: "string option"
  resolved_value :: "item option"
  resolution_confidence :: real

text \<open>The first strategy of each list of \<^verbatim>\<open>_build_resolution_strategies\<close>.\<close>

fun first_strategy :: "conflict_type \<Rightarrow> string" where
  "first_strategy ENTITY_NAME_CONFLICT = ''highest_confidence''"
| "first_strategy ENTITY_TYPE_CONFLICT = ''most_specific_type''"
| "first_strategy PROPERTY_VALUE_CONFLICT = ''highest_confidence''"
| "first_strategy RELATION_TYPE_CONFLICT = ''highest_confidence''"
| "first_strategy TEMPORAL_CONFLICT = ''most_recent''"
| "first_strategy CONTRADICTORY_RELATIONS = ''highest_confidence''"

text \<open>
  Grouping by \<open>(head, tail)\<close> in a \<^verbatim>\<open>defaultdict(list)\<close>: a new key goes to the end, a known
  key keeps its place and its list grows.
\<close>

definition relation_key :: "relation \<Rightarrow> string \<times> string" where
  "relation_key r = (head_entity_id r, tail_entity_id r)"

definition group_by_pair :: "relation list \<Rightarrow> ((string \<times> string) \<times> relation list) list" where
  "group_by_pair rs =
     fold (\<lambda>r groups.
             case map_of groups (relation_key r) of
               None \<Rightarrow> groups @ [(relation_key r, [r])]
             | Some g \<Rightarrow> AList.update (relation_key r) (g @ [r]) groups) rs []"

definition contradictory_pairs :: "(string \<times> string) list" where
  "contradictory_pairs =
     [(''parent_of'', ''child_of''), (''spouse_of'', ''sibling_of''),
      (''works_for'', ''competes_with''), (''located_in'', ''not_located_in'')]"

text \<open>\<^verbatim>\<open>_are_contradictory_relations\<close>: the loop over the pairs with its two tests.\<close>

fun contradictory_loop :: "(string \<times> string) list \<Rightarrow> string set \<Rightarrow> bool" where
  "contradictory_loop [] type_set = False"
| "contradictory_loop (pair # rest) type_set =
     (if fst pair \<in> type_set \<and> snd pair \<in> type_set then True
      else if snd pair \<in> type_set \<and> fst pair \<in> type_set then True
      else contradictory_loop rest type_set)"

definition are_contradictory_relations :: "string list \<Rightarrow> bool" where
  "are_contradictory_relations relation_types =
     contradictory_loop contradictory_pairs (set relation_types)"

text \<open>The body of the loop over the groups: the conflicts that one group emits.\<close>

definition conflicts_of_group :: "(string \<times> string) \<times> relation list \<Rightarrow> conflict list" where
  "conflicts_of_group kg =
     (let head_id = fst (fst kg); tail_id = snd (fst kg); group = snd kg
      in if length group \<le> 1 then []
         else
           (let types = map r_type group
            in if card (set types) > 1
               then
                 (if are_contradictory_relations types
                  then [\<lparr>conflict_id = ''contradictory_relations_'' @ head_id @ ''_'' @ tail_id,
                         conflict_type = CONTRADICTORY_RELATIONS,
                         conflict_description = Contradictory_between head_id tail_id,
                         conflicting_items = map Rel group,
                         confidence_scores = map confidence group,
                         resolution_strategy = None, resolved_value = None,
                         resolution_confidence = 0\<rparr>]
                  else [\<lparr>conflict_id = ''relation_type_conflict_'' @ head_id @ ''_'' @ tail_id,
                         conflict_type = RELATION_TYPE_CONFLICT,
                         conflict_description = Several_types_between head_id tail_id,
                         conflicting_items = map (\<lambda>t. Val (PStr t)) types,
                         confidence_scores = map confidence group,
                         resolution_strategy = None, resolved_value = None,
                         resolution_confidence = 0\<rparr>])
               else []))"

definition detect_relation_conflicts :: "relation list \<Rightarrow> conflict list" where
  "detect_relation_conflicts rs = concat (map conflicts_of_group (group_by_pair rs))"

text \<open>
  The claim's wording, for comparison: the pairs in order of first occurrence, the relations
  of a pair, and one conflict kind for every pair with at least two distinct types.
\<close>

definition pairs_in_order :: "relation list \<Rightarrow> (string \<times> string) list" where
  "pairs_in_order rs = rev (remdups (rev (map relation_key rs)))"

definition types_between :: "relation list \<Rightarrow> string \<times> string \<Rightarrow> string set" where
  "types_between rs k = r_type ` {r \<in> set rs. relation_key r = k}"

definition has_contradictory_pair :: "string set \<Rightarrow> bool" where
  "has_contradictory_pair ts =
     ((''parent_of'' \<in> ts \<and> ''child_of'' \<in> ts) \<or> (''spouse_of'' \<in> ts \<and> ''sibling_of'' \<in> ts)
      \<or> (''works_for'' \<in> ts \<and> ''competes_with'' \<in> ts)
      \<or> (''located_in'' \<in> ts \<and> ''not_located_in'' \<in> ts))"

definition expected_relation_conflicts ::
  "relation list \<Rightarrow> ((string \<times> string) \<times> conflict_type) list" where
  "expected_relation_conflicts rs =
     map (\<lambda>k. (k, if has_contradictory_pair (types_between rs k)
                   then CONTRADICTORY_RELATIONS else RELATION_TYPE_CONFLICT))
       (filter (\<lambda>k. 2 \<le> card (types_between rs k)) (pairs_in_order rs))"

definition conflict_pair :: "conflict \<Rightarrow> string \<times> string" where
  "conflict_pair c =
     (case conflict_description c of
        Contradictory_between h t \<Rightarrow> (h, t)
      | Several_types_between h t \<Rightarrow> (h, t)
      | Several_names_of e \<Rightarrow> (e, e)
      | Several_types_of e \<Rightarrow> (e, e)
      | Conflicting_values_of e k \<Rightarrow> (e, e))"

text \<open>
  The parts of the Python runtime that the resolution strategies call and the model leaves
  open: \<^verbatim>\<open>str(x)\<close> of an item, the string parser of \<^verbatim>\<open>float(x)\<close>, and the order in which
  \<^verbatim>\<open>list(set(xs))\<close> lists the distinct elements of \<open>xs\<close>.
\<close>

record py_runtime =
  py_str :: "item \<Rightarrow> string"
  float_of_str :: "string \<Rightarrow> real option"
  list_of_set :: "scalar list \<Rightarrow> scalar list"

text \<open>\<^verbatim>\<open>xs.index(x)\<close> for an element that occurs, and \<^verbatim>\<open>xs[i]\<close> with its \<^verbatim>\<open>IndexError\<close>.\<close>

fun first_index :: "'a \<Rightarrow> 'a list \<Rightarrow> nat" where
  "first_index x [] = 0"
| "first_index x (y # ys) = (if x = y then 0 else Suc (first_index x ys))"

definition nth_item :: "'a list \<Rightarrow> nat \<Rightarrow> py_error + 'a" where
  "nth_item xs i = (if i < length xs then Inr (xs ! i) else Inl IndexError)"

text \<open>\<^verbatim>\<open>confidences.index(max(confidences))\<close>; \<^verbatim>\<open>max\<close> of an empty list raises \<^verbatim>\<open>ValueError\<close>.\<close>

definition max_index :: "real list \<Rightarrow> py_error + nat" where
  "max_index confidences =
     (if confidences = [] then Inl ValueError
      else Inr (first_index (Max (set confidences)) confidences))"

text \<open>The branch \<^verbatim>\<open>highest_confidence\<close>, written out in five of the strategy functions.\<close>

definition pick_highest_confidence :: "conflict \<Rightarrow> py_error + conflict" where
  "pick_highest_confidence c =
     (case max_index (confidence_scores c) of
        Inl err \<Rightarrow> Inl err
      | Inr max_idx \<Rightarrow>
          (case nth_item (conflicting_items c) max_idx of
             Inl err \<Rightarrow> Inl err
           | Inr v \<Rightarrow> Inr (c\<lparr>resolved_value := Some v,
                               resolution_confidence := confidence_scores c ! max_idx\<rparr>)))"

text \<open>The default branch: \<^verbatim>\<open>items[0]\<close> with a fixed confidence.\<close>

definition pick_first :: "conflict \<Rightarrow> real \<Rightarrow> py_error + conflict" where
  "pick_first c conf =
     (case conflicting_items c of
        [] \<Rightarrow> Inl IndexError
      | x # _ \<Rightarrow> Inr (c\<lparr>resolved_value := Some x, resolution_confidence := conf\<rparr>))"

text \<open>
  \<^verbatim>\<open>Counter(items).most_common(1)[0]\<close>. Lists and relations (a dataclass with
  \<^verbatim>\<open>eq\<close> and without \<^verbatim>\<open>frozen\<close>) are unhashable, so counting them raises
  \<^verbatim>\<open>TypeError\<close>. Keys are compared as Python does (\<^verbatim>\<open>True == 1\<close>); the key object is the
  first one inserted, and of several keys with the highest count the first inserted wins.
\<close>

fun hashable :: "item \<Rightarrow> bool" where
  "hashable (Val (PList _)) = False"
| "hashable (Rel _) = False"
| "hashable _ = True"

fun key_of :: "item \<Rightarrow> item" where
  "key_of (Val (PBool b)) = Val (PNum (if b then 1 else 0))"
| "key_of x = x"

fun counter_keys :: "item list \<Rightarrow> item list" where
  "counter_keys [] = []"
| "counter_keys (x # xs) = x # filter (\<lambda>y. key_of y \<noteq> key_of x) (counter_keys xs)"

definition counter_count :: "item list \<Rightarrow> item \<Rightarrow> nat" where
  "counter_count xs k = length (filter (\<lambda>y. key_of y = key_of k) xs)"

definition most_common1 :: "item list \<Rightarrow> py_error + (item \<times> nat)" where
  "most_common1 xs =
     (if list_ex (\<lambda>x. \<not> hashable x) xs then Inl TypeError
      else case map (\<lambda>k. (k, real (counter_count xs k))) (counter_keys xs) of
             [] \<Rightarrow> Inl IndexError
           | p # ps \<Rightarrow> (let best = fst (max_first p ps) in Inr (best, counter_count xs best)))"

text \<open>\<^verbatim>\<open>max(items, key=len)\<close>: numbers, booleans, \<^verbatim>\<open>None\<close> and relations have no length.\<close>

fun py_len :: "item \<Rightarrow> py_error + real" where
  "py_len (Val (PStr s)) = Inr (real (length s))"
| "py_len (Val (PList l)) = Inr (real (length l))"
| "py_len _ = Inl TypeError"

definition longest_item :: "item list \<Rightarrow> py_error + item" where
  "longest_item xs =
     (if xs = [] then Inl ValueError
      else case collect_scores py_len xs of
             Inl err \<Rightarrow> Inl err
           | Inr [] \<Rightarrow> Inl ValueError
           | Inr (p # ps) \<Rightarrow> Inr (fst (max_first p ps)))"

definition resolve_name_conflict :: "conflict \<Rightarrow> string \<Rightarrow> py_error + conflict" where
  "resolve_name_conflict c strategy =
     (if strategy = ''highest_confidence'' then pick_highest_confidence c
      else if strategy = ''most_frequent''
      then (case most_common1 (conflicting_items c) of
              Inl err \<Rightarrow> Inl err
            | Inr (k, n) \<Rightarrow>
                Inr (c\<lparr>resolved_value := Some k,
                       resolution_confidence := real n / real (length (conflicting_items c))\<rparr>))
      else if strategy = ''longest_name''
      then (case longest_item (conflicting_items c) of
              Inl err \<Rightarrow> Inl err
            | Inr v \<Rightarrow> Inr (c\<lparr>resolved_value := Some v, resolution_confidence := 7 / 10\<rparr>))
      else pick_first c (5 / 10))"

definition resolve_type_conflict :: "conflict \<Rightarrow> string \<Rightarrow> py_error + conflict" where
  "resolve_type_conflict c strategy =
     (if strategy = ''highest_confidence'' then pick_highest_confidence c
      else if strategy = ''most_specific_type''
      then (case longest_item (conflicting_items c) of
              Inl err \<Rightarrow> Inl err
            | Inr v \<Rightarrow> Inr (c\<lparr>resolved_value := Some v, resolution_confidence := 8 / 10\<rparr>))
      else if strategy = ''vote''
      then (case most_common1 (conflicting_items c) of
              Inl err \<Rightarrow> Inl err
            | Inr (k, n) \<Rightarrow>
                Inr (c\<lparr>resolved_value := Some k,
                       resolution_confidence := real n / real (length (conflicting_items c))\<rparr>))
      else pick_first c (5 / 10))"

text \<open>
  The \<^verbatim>\<open>vote\<close> branch of \<^verbatim>\<open>_resolve_property_conflict\<close>: the most common \<^verbatim>\<open>str(v)\<close>,
  then the first value with that string.
\<close>

definition vote_by_str :: "py_runtime \<Rightarrow> conflict \<Rightarrow> py_error + conflict" where
  "vote_by_str py c =
     (let values = conflicting_items c;
          strs = map (\<lambda>v. Val (PStr (py_str py v))) values
      in case most_common1 strs of
           Inl err \<Rightarrow> Inl err
         | Inr (k, n) \<Rightarrow>
             (case filter (\<lambda>v. Val (PStr (py_str py v)) = k) values of
                [] \<Rightarrow> Inr (c\<lparr>resolution_confidence := real n / real (length values)\<rparr>)
              | v # _ \<Rightarrow> Inr (c\<lparr>resolved_value := Some v,
                                  resolution_confidence := real n / real (length values)\<rparr>)))"

fun float_of_item :: "py_runtime \<Rightarrow> item \<Rightarrow> py_error + real" where
  "float_of_item py (Val v) = py_float (float_of_str py) v"
| "float_of_item py (Rel _) = Inl TypeError"

fun list_of_item :: "item \<Rightarrow> scalar list option" where
  "list_of_item (Val (PList l)) = Some l"
| "list_of_item _ = None"

definition resolve_property_conflict :: "py_runtime \<Rightarrow> conflict \<Rightarrow> string \<Rightarrow> py_error + conflict" where
  "resolve_property_conflict py c strategy =
     (let values = conflicting_items c
      in if strategy = ''highest_confidence'' then pick_highest_confidence c
         else if strategy = ''vote'' then vote_by_str py c
         else if strategy = ''average_numeric''
         then (case collect (float_of_item py) values of
                 Inl err \<Rightarrow> vote_by_str py c
               | Inr numeric_values \<Rightarrow>
                   (if numeric_values = [] then Inl ZeroDivisionError
                    else Inr (c\<lparr>resolved_value :=
                                  Some (Val (PNum (sum_list numeric_values
                                                   / real (length numeric_values)))),
                                resolution_confidence := 8 / 10\<rparr>)))
         else if strategy = ''union_lists''
         then (if list_all (\<lambda>v. list_of_item v \<noteq> None) values
               then Inr (c\<lparr>resolved_value :=
                             Some (Val (PList (list_of_set py
                                (concat (map (\<lambda>v. the (list_of_item v)) values))))),
                           resolution_confidence := 9 / 10\<rparr>)
               else vote_by_str py c)
         else pick_first c (5 / 10))"

definition resolve_relation_type_conflict :: "conflict \<Rightarrow> string \<Rightarrow> py_error + conflict" where
  "resolve_relation_type_conflict c strategy =
     (if strategy = ''highest_confidence'' then pick_highest_confidence c
      else if strategy = ''most_frequent''
      then (case most_common1 (conflicting_items c) of
              Inl err \<Rightarrow> Inl err
            | Inr (k, n) \<Rightarrow>
                Inr (c\<lparr>resolved_value := Some k,
                       resolution_confidence := real n / real (length (conflicting_items c))\<rparr>))
      else pick_first c (5 / 10))"

definition resolve_contradictory_relations :: "conflict \<Rightarrow> string \<Rightarrow> py_error + conflict" where
  "resolve_contradictory_relations c strategy =
     (if strategy = ''highest_confidence'' then pick_highest_confidence c
      else if strategy = ''source_authority'' then pick_first c (6 / 10)
      else pick_first c (5 / 10))"

text \<open>\<^verbatim>\<open>_resolve_by_highest_confidence\<close>, which guards the empty lists.\<close>

definition resolve_by_highest_confidence :: "conflict \<Rightarrow> py_error + conflict" where
  "resolve_by_highest_confidence c =
     (if confidence_scores c = []
      then Inr (c\<lparr>resolved_value := (case conflicting_items c of [] \<Rightarrow> None | x # _ \<Rightarrow> Some x),
                  resolution_confidence := 5 / 10\<rparr>)
      else pick_highest_confidence c)"

text \<open>The dispatch inside the \<^verbatim>\<open>try\<close> block of \<^verbatim>\<open>resolve_conflict\<close>.\<close>

definition resolve_by_type :: "py_runtime \<Rightarrow> conflict \<Rightarrow> string \<Rightarrow> py_error + conflict" where
  "resolve_by_type py c strategy =
     (case conflict_type c of
        ENTITY_NAME_CONFLICT \<Rightarrow> resolve_name_conflict c strategy
      | ENTITY_TYPE_CONFLICT \<Rightarrow> resolve_type_conflict c strategy
      | PROPERTY_VALUE_CONFLICT \<Rightarrow> resolve_property_conflict py c strategy
      | RELATION_TYPE_CONFLICT \<Rightarrow> resolve_relation_type_conflict c strategy
      | CONTRADICTORY_RELATIONS \<Rightarrow> resolve_contradictory_relations c strategy
      | TEMPORAL_CONFLICT \<Rightarrow> resolve_by_highest_confidence c)"

text \<open>
  \<^verbatim>\<open>resolve_conflict\<close>, with the history log as state. A missing or empty strategy is
  replaced by the first strategy of the conflict's kind. A resolved conflict is appended to
  the history. Any exception of the dispatch is caught; the handler then reads
  \<^verbatim>\<open>conflict.conflicting_items[0]\<close>, which itself raises \<^verbatim>\<open>IndexError\<close> on an empty list,
  and that exception leaves \<^verbatim>\<open>resolve_conflict\<close>.
\<close>

definition chosen_strategy :: "conflict \<Rightarrow> string option \<Rightarrow> string" where
  "chosen_strategy c strategy =
     (case strategy of
        None \<Rightarrow> first_strategy (conflict_type c)
      | Some s \<Rightarrow> if s = [] then first_strategy (conflict_type c) else s)"

definition resolve_conflict ::
  "py_runtime \<Rightarrow> conflict list \<Rightarrow> conflict \<Rightarrow> string option
     \<Rightarrow> (py_error + conflict) \<times> conflict list" where
  "resolve_conflict py history c strategy =
     (let c1 = c\<lparr>resolution_strategy := Some (chosen_strategy c strategy)\<rparr>
      in case resolve_by_type py c1 (chosen_strategy c strategy) of
           Inr c2 \<Rightarrow> (Inr c2, history @ [c2])
         | Inl err \<Rightarrow>
             (case conflicting_items c1 of
                [] \<Rightarrow> (Inl IndexError, history)
              | x # _ \<Rightarrow> (Inr (c1\<lparr>resolved_value := Some x, resolution_confidence := 1 / 10\<rparr>),
                          history)))"

text \<open>\<^verbatim>\<open>batch_resolve_conflicts\<close>: an exception that leaves \<^verbatim>\<open>resolve_conflict\<close> ends the loop.\<close>

fun batch_resolve_conflicts ::
  "py_runtime \<Rightarrow> (conflict_type \<rightharpoonup> string) \<Rightarrow> conflict list \<Rightarrow> conflict list
     \<Rightarrow> (py_error + conflict list) \<times> conflict list" where
  "batch_resolve_conflicts py strategy_mapping history [] = (Inr [], history)"
| "batch_resolve_conflicts py strategy_mapping history (c # cs) =
     (case resolve_conflict py history c (strategy_mapping (conflict_type c)) of
        (Inl err, history') \<Rightarrow> (Inl err, history')
      | (Inr resolved_conflict, history') \<Rightarrow>
          (case batch_resolve_conflicts py strategy_mapping history' cs of
             (Inl err, history'') \<Rightarrow> (Inl err, history'')
           | (Inr resolved_conflicts, history'') \<Rightarrow>
               (Inr (resolved_conflict # resolved_conflicts), history'')))"

text \<open>
  The property types under which relation fusion raises no \<^verbatim>\<open>AttributeError\<close> or
  \<^verbatim>\<open>TypeError\<close>: a \<^verbatim>\<open>context\<close>, if present, is a string, and a
  \<^verbatim>\<open>source_quality\<close>, if present, is a number.
\<close>

definition well_typed_relation :: "relation \<Rightarrow> bool" where
  "well_typed_relation r =
     ((case map_of (r_properties r) ''context'' of
         None \<Rightarrow> True | Some (PStr _) \<Rightarrow> True | Some _ \<Rightarrow> False)
      \<and> (case map_of (r_properties r) ''source_quality'' of
            None \<Rightarrow> True | Some (PNum _) \<Rightarrow> True | Some (PBool _) \<Rightarrow> True | Some _ \<Rightarrow> False))"

section \<open>Example inputs\<close>

text \<open>The two relations of scenario B.\<close>

definition rel_a :: relation where
  "rel_a = \<lparr>r_id = ''ra'', r_type = ''founder_of'', head_entity_id = ''h'',
     tail_entity_id = ''t'', r_properties = [], confidence = 9 / 10\<rparr>"

definition rel_b :: relation where
  "rel_b = \<lparr>r_id = ''rb'', r_type = ''founder_of'', head_entity_id = ''h'',
     tail_entity_id = ''t'', r_properties = [], confidence = 95 / 100\<rparr>"

text \<open>A one-element relation cluster whose confidence field is 0.5, and a one-element entity cluster.\<close>

definition cluster_half :: relation_cluster where
  "cluster_half = \<lparr>rc_cluster_id = ''c1'', rc_relations = [rel_a],
     rc_representative_relation = Some rel_a, rc_confidence = 1 / 2,
     rc_fusion_method = ''single_relation''\<rparr>"

definition ent_x :: entity where
  "ent_x = \<lparr>e_id = ''e1'', e_name = ''Tencent'', e_type = ''Organization'',
     e_properties = [(''city'', PStr ''Shenzhen'')], e_aliases = [''TX'']\<rparr>"

definition cluster_x :: entity_cluster where
  "cluster_x = \<lparr>ec_cluster_id = ''c2'', ec_entities = [ent_x],
     ec_representative_entity = Some ent_x, ec_confidence = 1,
     ec_fusion_method = ''single_entity''\<rparr>"

text \<open>A relation between two entities that nobody has added.\<close>

definition rel0 :: relation where
  "rel0 = \<lparr>r_id = ''r1'', r_type = ''works_for'', head_entity_id = ''a'',
     tail_entity_id = ''b'', r_properties = [], confidence = 1\<rparr>"

text \<open>
  A name conflict with no items and no scores, a well-formed one, one whose scores are missing,
  and a runtime for the examples.
\<close>

definition empty_conflict :: conflict where
  "empty_conflict = \<lparr>conflict_id = ''name_conflict_e0'', conflict_type = ENTITY_NAME_CONFLICT,
     conflict_description = Several_names_of ''e0'',
     conflicting_items = [], confidence_scores = [],
     resolution_strategy = None, resolved_value = None, resolution_confidence = 0\<rparr>"

definition name_conflict :: conflict where
  "name_conflict = \<lparr>conflict_id = ''name_conflict_e1'', conflict_type = ENTITY_NAME_CONFLICT,
     conflict_description = Several_names_of ''e1'',
     conflicting_items = [Val (PStr ''Tencent''), Val (PStr ''Tencent Inc'')],
     confidence_scores = [1, 1],
     resolution_strategy = None, resolved_value = None, resolution_confidence = 0\<rparr>"

definition unscored_conflict :: conflict where
  "unscored_conflict = name_conflict\<lparr>conflict_id := ''name_conflict_e2'', confidence_scores := []\<rparr>"

definition example_runtime :: py_runtime where
  "example_runtime = \<lparr>py_str = (\<lambda>_. []), float_of_str = (\<lambda>_. None), list_of_set = remdups\<rparr>"

text \<open>Relations between three pairs of entities.\<close>

definition example_relations :: "relation list" where
  "example_relations =
     [rel0\<lparr>r_id := ''1'', r_type := ''parent_of''\<rparr>,
      rel0\<lparr>r_id := ''2'', r_type := ''works_for'', head_entity_id := ''c''\<rparr>,
      rel0\<lparr>r_id := ''3'', r_type := ''child_of''\<rparr>,
      rel0\<lparr>r_id := ''4'', r_type := ''located_in'', head_entity_id := ''c''\<rparr>,
      rel0\<lparr>r_id := ''5'', r_type := ''works_for'', tail_entity_id := ''d''\<rparr>,
      rel0\<lparr>r_id := ''6'', r_type := ''works_for'', tail_entity_id := ''d''\<rparr>]"

text \<open>Two entities with the same id: the second replaces the first under a new name and type.\<close>

definition ent_old :: entity where
  "ent_old = \<lparr>e_id = ''e1'', e_name = ''Apple'', e_type = ''Fruit'',
     e_properties = [], e_aliases = []\<rparr>"

definition ent_new :: entity where
  "ent_new = \<lparr>e_id = ''e1'', e_name = ''Apple Inc'', e_type = ''Company'',
     e_properties = [], e_aliases = [''AAPL'']\<rparr>"

definition kg_overwritten :: knowledge_graph where
  "kg_overwritten = add_entity (add_entity kg_init ent_old) ent_new"

text \<open>
  Three entities of one type with the same alias and no properties, whose names form a chain:
  the first and the second are similar, the second and the third are similar, the first and
  the third are not. And the same three with the middle one first.
\<close>

definition named :: "string \<Rightarrow> entity" where
  "named n = \<lparr>e_id = n, e_name = n, e_type = ''Company'', e_properties = [], e_aliases = [''x'']\<rparr>"

definition chain_entities :: "entity list" where
  "chain_entities = [named ''abce'', named ''abcd'', named ''xbcd'']"

definition star_entities :: "entity list" where
  "star_entities = [named ''abcd'', named ''abce'', named ''xbcd'']"

section \<open>Verified properties: refused relations\<close>

text \<open>
  C1. A relation with a missing endpoint is refused with \<^verbatim>\<open>ValueError\<close>, and the entities,
  the graph and all three indices are as before the call; the relations map, however, already
  holds the refused relation (written before the check), so the store then has an orphan.
\<close>

theorem add_relation_refused_state:
  assumes "\<not> has_entity kg (head_entity_id r) \<or> \<not> has_entity kg (tail_entity_id r)"
  shows "add_relation kg r =
           (Inl ValueError, kg\<lparr>relations := AList.update (r_id r) r (relations kg)\<rparr>)"
  using assms by (simp add: add_relation_def has_entity_def Let_def)

theorem add_relation_refused_state_witness:
  "\<not> (has_entity kg_init (head_entity_id rel0) \<and> has_entity kg_init (tail_entity_id rel0))
   \<and> fst (add_relation kg_init rel0) = Inl ValueError
   \<and> relations (snd (add_relation kg_init rel0)) = [(''r1'', rel0)]
   \<and> relations (snd (add_relation kg_init rel0)) \<noteq> relations kg_init
   \<and> orphaned_relations (batch_add_relations kg_init [rel0]) = [''r1'']"
proof -
  have h: "\<not> has_entity kg_init (head_entity_id rel0) \<or> \<not> has_entity kg_init (tail_entity_id rel0)"
    by (simp add: has_entity_def kg_init_def)
  have a: "add_relation kg_init rel0 =
      (Inl ValueError, kg_init\<lparr>relations := AList.update (r_id rel0) rel0 (relations kg_init)\<rparr>)"
    using add_relation_refused_state [OF h] .
  have r: "relations (snd (add_relation kg_init rel0)) = [(''r1'', rel0)]"
    by (simp add: a) (simp add: kg_init_def rel0_def)
  have o: "orphaned_relations (batch_add_relations kg_init [rel0]) = [''r1'']"
    by (simp add: batch_add_relations_def orphaned_relations_def a has_entity_def)
       (simp add: kg_init_def rel0_def)
  show ?thesis using h a r o by (simp add: kg_init_def)
qed

section \<open>Verified properties: string similarity\<close>

lemma levenshtein_distance_sym: "levenshtein_distance a b = levenshtein_distance b a"
proof (induction a b rule: levenshtein_distance.induct)
  case (1 ys)
  then show ?case by (cases ys) simp_all
next
  case (2 x xs)
  then show ?case by simp
next
  case (3 x xs y ys)
  then show ?case by (simp add: min.commute min.left_commute eq_commute)
qed

lemma levenshtein_distance_le: "levenshtein_distance a b \<le> max (length a) (length b)"
  by (induction a b rule: levenshtein_distance.induct) auto

lemma lcs_dp_sym: "lcs_dp a b i j = lcs_dp b a j i"
proof (induction a b i j rule: lcs_dp.induct)
  case (1 s1 s2 j)
  then show ?case by (cases j) simp_all
next
  case (2 s1 s2 i)
  then show ?case by simp
next
  case (3 s1 s2 i j)
  then show ?case by (simp add: max.commute eq_commute)
qed

lemma lcs_dp_le: "lcs_dp a b i j \<le> min i j"
  by (induction a b i j rule: lcs_dp.induct) auto

lemma dot_product_sum: "dot_product l1 l2 = (\<Sum>c\<in>set l1 \<inter> set l2. count_list l1 c * count_list l2 c)"
proof -
  have d: "distinct (filter (\<lambda>c. c \<in> set l2) (remdups l1))" by simp
  have s: "set (filter (\<lambda>c. c \<in> set l2) (remdups l1)) = set l1 \<inter> set l2" by auto
  show ?thesis unfolding dot_product_def
    using sum_list_distinct_conv_sum_set [OF d, of "\<lambda>c. count_list l1 c * count_list l2 c"] s by simp
qed

lemma norm_sq_sum: "norm_sq l = (\<Sum>c\<in>set l. count_list l c * count_list l c)"
  unfolding norm_sq_def
  using sum_list_distinct_conv_sum_set [of "remdups l" "\<lambda>c. count_list l c * count_list l c"] by simp

lemma dot_product_sym: "dot_product l1 l2 = dot_product l2 l1"
  by (simp add: dot_product_sum Int_commute mult.commute)

lemma cauchy_step:
  fixes p q x y :: real
  assumes "0 \<le> p" "0 \<le> q" "0 \<le> x" "0 \<le> y"
  shows "sqrt p * sqrt q + x * y \<le> sqrt (p + x\<^sup>2) * sqrt (q + y\<^sup>2)"
proof -
  define u where "u = sqrt p"
  define v where "v = sqrt q"
  have u: "0 \<le> u" "u\<^sup>2 = p" using assms by (simp_all add: u_def)
  have v: "0 \<le> v" "v\<^sup>2 = q" using assms by (simp_all add: v_def)
  have "0 \<le> (u * y - v * x)\<^sup>2" by simp
  then have "(u * v + x * y)\<^sup>2 \<le> (u\<^sup>2 + x\<^sup>2) * (v\<^sup>2 + y\<^sup>2)"
    by (simp add: power2_eq_square algebra_simps)
  then have "u * v + x * y \<le> sqrt ((u\<^sup>2 + x\<^sup>2) * (v\<^sup>2 + y\<^sup>2))"
    by (rule real_le_rsqrt)
  then show ?thesis using u v by (simp add: real_sqrt_mult u_def v_def)
qed

lemma cauchy_schwarz_sum:
  fixes a b :: "'a \<Rightarrow> real"
  assumes "finite S" "\<And>i. 0 \<le> a i" "\<And>i. 0 \<le> b i"
  shows "(\<Sum>i\<in>S. a i * b i) \<le> sqrt (\<Sum>i\<in>S. (a i)\<^sup>2) * sqrt (\<Sum>i\<in>S. (b i)\<^sup>2)"
  using assms(1)
proof (induction S rule: finite_induct)
  case empty
  then show ?case by simp
next
  case (insert x F)
  have "(\<Sum>i\<in>insert x F. a i * b i) = (\<Sum>i\<in>F. a i * b i) + a x * b x"
    using insert by simp
  also have "\<dots> \<le> sqrt (\<Sum>i\<in>F. (a i)\<^sup>2) * sqrt (\<Sum>i\<in>F. (b i)\<^sup>2) + a x * b x"
    using insert by simp
  also have "\<dots> \<le> sqrt ((\<Sum>i\<in>F. (a i)\<^sup>2) + (a x)\<^sup>2) * sqrt ((\<Sum>i\<in>F. (b i)\<^sup>2) + (b x)\<^sup>2)"
    by (rule cauchy_step) (simp_all add: assms sum_nonneg)
  finally show ?case using insert by (simp add: add.commute)
qed

lemma dot_product_le:
  "real (dot_product l1 l2) \<le> sqrt (real (norm_sq l1)) * sqrt (real (norm_sq l2))"
proof -
  let ?S = "set l1 \<union> set l2"
  have d: "dot_product l1 l2 = (\<Sum>c\<in>?S. count_list l1 c * count_list l2 c)"
    unfolding dot_product_sum
    by (rule sum.mono_neutral_left) (auto simp: count_list_0_iff)
  have n1: "norm_sq l1 = (\<Sum>c\<in>?S. count_list l1 c * count_list l1 c)"
    unfolding norm_sq_sum by (rule sum.mono_neutral_left) (auto simp: count_list_0_iff)
  have n2: "norm_sq l2 = (\<Sum>c\<in>?S. count_list l2 c * count_list l2 c)"
    unfolding norm_sq_sum by (rule sum.mono_neutral_left) (auto simp: count_list_0_iff)
  have "(\<Sum>c\<in>?S. real (count_list l1 c) * real (count_list l2 c))
      \<le> sqrt (\<Sum>c\<in>?S. (real (count_list l1 c))\<^sup>2) * sqrt (\<Sum>c\<in>?S. (real (count_list l2 c))\<^sup>2)"
    by (rule cauchy_schwarz_sum) simp_all
  then show ?thesis by (simp add: d n1 n2 power2_eq_square)
qed

lemma cosine_similarity_bounds: "0 \<le> cosine_similarity a b \<and> cosine_similarity a b \<le> 1"
proof (cases "norm_sq (lower a) = 0 \<or> norm_sq (lower b) = 0")
  case True
  then show ?thesis by (auto simp add: cosine_similarity_def Let_def)
next
  case False
  let ?n1 = "sqrt (real (norm_sq (lower a)))" and ?n2 = "sqrt (real (norm_sq (lower b)))"
  from False have "0 < ?n1" "0 < ?n2" by simp_all
  then have pos: "0 < ?n1 * ?n2" by (rule mult_pos_pos)
  have le: "real (dot_product (lower a) (lower b)) / (?n1 * ?n2) \<le> 1"
    using dot_product_le [of "lower a" "lower b"] pos by (simp only: divide_le_eq_1_pos)
  have ge: "0 \<le> real (dot_product (lower a) (lower b)) / (?n1 * ?n2)"
    using pos by (intro divide_nonneg_pos) simp_all
  from False have "cosine_similarity a b = real (dot_product (lower a) (lower b)) / (?n1 * ?n2)"
    by (simp add: cosine_similarity_def Let_def)
  with le ge show ?thesis by simp
qed

lemma cosine_similarity_sym: "cosine_similarity a b = cosine_similarity b a"
proof -
  have d: "dot_product (lower a) (lower b) = dot_product (lower b) (lower a)"
    by (rule dot_product_sym)
  show ?thesis unfolding cosine_similarity_def Let_def d
    by (simp add: mult.commute disj_commute)
qed

lemma finite_get_ngrams: "finite (get_ngrams t n)"
  by (simp add: get_ngrams_def)

lemma jaccard_similarity_n_bounds: "0 \<le> jaccard_similarity_n a b n \<and> jaccard_similarity_n a b n \<le> 1"
proof -
  have "card (get_ngrams (lower a) n \<inter> get_ngrams (lower b) n) \<le> card (get_ngrams (lower a) n \<union> get_ngrams (lower b) n)"
    by (rule card_mono) (auto simp: finite_get_ngrams)
  then show ?thesis by (simp add: jaccard_similarity_n_def Let_def divide_le_eq)
qed

lemma jaccard_similarity_n_sym: "jaccard_similarity_n a b n = jaccard_similarity_n b a n"
  by (simp add: jaccard_similarity_n_def Let_def Int_commute Un_commute)

lemma levenshtein_similarity_bounds: "0 \<le> levenshtein_similarity a b \<and> levenshtein_similarity a b \<le> 1"
  using levenshtein_distance_le [of a b]
  by (auto simp add: levenshtein_similarity_def Let_def divide_le_eq)

lemma levenshtein_similarity_sym: "levenshtein_similarity a b = levenshtein_similarity b a"
  by (simp add: levenshtein_similarity_def Let_def levenshtein_distance_sym [of a b] max.commute)

lemma lcs_similarity_bounds: "0 \<le> lcs_similarity a b \<and> lcs_similarity a b \<le> 1"
proof -
  have "lcs_length a b \<le> min (length a) (length b)"
    unfolding lcs_length_def by (rule lcs_dp_le)
  then have "2 * real (lcs_length a b) \<le> real (length a + length b)" by linarith
  then show ?thesis by (auto simp add: lcs_similarity_def divide_le_eq)
qed

lemma lcs_similarity_sym: "lcs_similarity a b = lcs_similarity b a"
  by (simp add: lcs_similarity_def lcs_length_def lcs_dp_sym [of a b] add.commute)

lemma combined_string_similarity_bounds:
  "0 \<le> combined_string_similarity a b \<and> combined_string_similarity a b \<le> 1"
  using levenshtein_similarity_bounds [of a b] jaccard_similarity_n_bounds [of a b 2]
    cosine_similarity_bounds [of a b] lcs_similarity_bounds [of a b]
  by (simp add: combined_string_similarity_def jaccard_similarity_def)

lemma combined_string_similarity_sym: "combined_string_similarity a b = combined_string_similarity b a"
  by (simp add: combined_string_similarity_def jaccard_similarity_def
      levenshtein_similarity_sym [of a b] jaccard_similarity_n_sym [of a b]
      cosine_similarity_sym [of a b] lcs_similarity_sym [of a b])

text \<open>
  C9. Every string-similarity function is symmetric: for all strings \<open>a\<close>, \<open>b\<close> and every
  method name \<open>m\<close> (\<^verbatim>\<open>levenshtein\<close>, \<^verbatim>\<open>jaccard\<close>, \<^verbatim>\<open>cosine\<close>, \<^verbatim>\<open>lcs\<close>,
  \<^verbatim>\<open>combined\<close>; an unknown name raises on both sides),
  \<^verbatim>\<open>string_similarity(a, b, m)\<close> equals \<^verbatim>\<open>string_similarity(b, a, m)\<close>.
\<close>

theorem string_similarity_symmetric: "string_similarity a b m = string_similarity b a m"
  by (auto simp add: string_similarity_def
      levenshtein_similarity_sym [of a b] jaccard_similarity_def jaccard_similarity_n_sym [of a b]
      cosine_similarity_sym [of a b] lcs_similarity_sym [of a b] combined_string_similarity_sym [of a b])

text \<open>
  C10. The either-empty check of \<^verbatim>\<open>string_similarity\<close> comes before the equality
  short-circuit: for every method the result is 0.0 whenever either argument is the empty
  string, also when both are empty (and so equal); equal non-empty strings give 1.0.
\<close>

theorem string_similarity_empty_first:
  "(a = [] \<or> b = [] \<longrightarrow> string_similarity a b m = Inr 0)
   \<and> (a = b \<and> a \<noteq> [] \<longrightarrow> string_similarity a b m = Inr 1)"
  by (simp add: string_similarity_def)

theorem string_similarity_empty_first_witness:
  "string_similarity [] [] ''combined'' = Inr 0
   \<and> string_similarity ''ab'' [] ''cosine'' = Inr 0
   \<and> string_similarity [] ''ab'' ''no such method'' = Inr 0
   \<and> string_similarity ''ab'' ''ab'' ''lcs'' = Inr 1"
  using string_similarity_empty_first [of "[]" "[]" "''combined''"]
    string_similarity_empty_first [of "''ab''" "[]" "''cosine''"]
    string_similarity_empty_first [of "[]" "''ab''" "''no such method''"]
    string_similarity_empty_first [of "''ab''" "''ab''" "''lcs''"]
  by simp

section \<open>Verified properties: relation fusion of exact duplicates\<close>

lemma index_pairs_2: "index_pairs (Suc (Suc 0)) = [(0, Suc 0)]"
  by (simp add: index_pairs_def)

lemma upt_0_2: "[0 ..< 2] = [0, Suc 0]"
  by (simp add: numeral_2_eq_2)

lemma identify_two_exact:
  assumes "r_type r1 = r_type r2" "head_entity_id r1 = head_entity_id r2"
    "tail_entity_id r1 = tail_entity_id r2"
  shows "identify_duplicate_relations thr kw [r1, r2] = Inr [[0, 1]]"
  using assms
  by (simp add: identify_duplicate_relations_def upt_0_2 are_duplicate_relations_def)

lemma well_typed_context:
  assumes "well_typed_relation r" "map_of (r_properties r) ''context'' = Some v"
  shows "\<exists>c. v = PStr c"
  using assms by (cases v) (simp_all add: well_typed_relation_def)

lemma well_typed_source_quality:
  assumes "well_typed_relation r" "map_of (r_properties r) ''source_quality'' = Some q"
  shows "\<not> isl (py_times q c)"
  using assms by (cases q) (simp_all add: well_typed_relation_def)

lemma relation_context_similarity_well_typed:
  assumes "well_typed_relation r1" "well_typed_relation r2"
  shows "\<not> isl (relation_context_similarity kw r1 r2)"
proof (cases "r_properties r1 \<noteq> [] \<and> r_properties r2 \<noteq> []
    \<and> map_of (r_properties r1) ''context'' \<noteq> None \<and> map_of (r_properties r2) ''context'' \<noteq> None")
  case True
  then obtain v1 v2 where v: "map_of (r_properties r1) ''context'' = Some v1"
    "map_of (r_properties r2) ''context'' = Some v2" by blast
  obtain c1 where c1: "v1 = PStr c1" using well_typed_context [OF assms(1) v(1)] by blast
  obtain c2 where c2: "v2 = PStr c2" using well_typed_context [OF assms(2) v(2)] by blast
  from True v c1 c2 show ?thesis by (simp add: relation_context_similarity_def)
next
  case False
  then have "relation_context_similarity kw r1 r2 = Inr 0"
    unfolding relation_context_similarity_def by (rule if_not_P)
  then show ?thesis by simp
qed

lemma relation_similarity_well_typed:
  assumes "well_typed_relation r1" "well_typed_relation r2"
  shows "\<not> isl (calculate_relation_similarity kw r1 r2)"
  using relation_context_similarity_well_typed [OF assms, of kw]
  by (cases "relation_context_similarity kw r1 r2")
     (simp_all add: calculate_relation_similarity_def Let_def)

lemma relation_score_well_typed:
  assumes "well_typed_relation r"
  shows "\<not> isl (relation_score r)"
proof (cases "if r_properties r \<noteq> [] then map_of (r_properties r) ''source_quality'' else None")
  case None
  then show ?thesis by (simp add: relation_score_def Let_def)
next
  case (Some q)
  then have "map_of (r_properties r) ''source_quality'' = Some q" by (simp split: if_splits)
  with assms have "\<not> isl (py_times q (3 / 10))" by (rule well_typed_source_quality)
  then obtain v where "py_times q (3 / 10) = Inr v" by (cases "py_times q (3 / 10)") auto
  with Some show ?thesis by (simp add: relation_score_def Let_def)
qed

lemma select_two_well_typed:
  assumes "well_typed_relation r1" "well_typed_relation r2"
  shows "\<not> isl (select_representative_relation [r1, r2])"
proof -
  obtain x where x: "relation_score r1 = Inr x"
    using relation_score_well_typed [OF assms(1)] by (cases "relation_score r1") auto
  obtain y where y: "relation_score r2 = Inr y"
    using relation_score_well_typed [OF assms(2)] by (cases "relation_score r2") auto
  show ?thesis by (simp add: select_representative_relation_def x y)
qed

lemma fusion_confidence_two:
  assumes "confidence r1 = 9 / 10" "confidence r2 = 95 / 100"
  shows "relation_fusion_confidence default_confidence_strategy [r1, r2] = Inr (999 / 1000)"
  using assms
  by (simp add: relation_fusion_confidence_def default_confidence_strategy_def average_def)

lemma two_exact_duplicates_fusion:
  assumes "r_type r1 = r_type r2" "head_entity_id r1 = head_entity_id r2"
    "tail_entity_id r1 = tail_entity_id r2"
    "confidence r1 = 9 / 10" "confidence r2 = 95 / 100"
    "well_typed_relation r1" "well_typed_relation r2"
  shows "\<exists>cl res.
      cluster_relations thr kw uuid4 [r1, r2] = Inr [cl] \<and> rc_relations cl = [r1, r2]
    \<and> batch_fuse_relations default_confidence_strategy thr kw uuid4 fused_id fuse_properties [r1, r2]
        = Inr [res]
    \<and> source_relations res = [r1, r2]
    \<and> confidence (fused_relation res)
        = min 1 (((9 / 10 + 95 / 100) / 2) * (1 + min 1 (2 / 5) * (2 / 10)))
    \<and> confidence (fused_relation res) = 999 / 1000
    \<and> rfr_confidence res = 999 / 1000"
proof -
  obtain x where x: "calculate_relation_similarity kw r1 r2 = Inr x"
    using relation_similarity_well_typed [OF assms(6,7), of kw]
    by (cases "calculate_relation_similarity kw r1 r2") auto
  obtain rep where rep: "select_representative_relation [r1, r2] = Inr rep"
    using select_two_well_typed [OF assms(6,7)]
    by (cases "select_representative_relation [r1, r2]") auto
  obtain c where c: "relation_cluster_confidence kw [r1, r2] = Inr c"
    by (simp add: relation_cluster_confidence_def index_pairs_2 x Let_def)
  have cl: "cluster_relations thr kw uuid4 [r1, r2] =
      Inr [\<lparr>rc_cluster_id = uuid4 0, rc_relations = [r1, r2],
            rc_representative_relation = Some rep, rc_confidence = c,
            rc_fusion_method = ''similarity_based''\<rparr>]"
    by (simp add: cluster_relations_def identify_two_exact [OF assms(1-3)] c rep
        single_relation_clusters_def upt_0_2)
  have fc: "relation_fusion_confidence default_confidence_strategy [r1, r2] = Inr (999 / 1000)"
    by (rule fusion_confidence_two [OF assms(4,5)])
  show ?thesis
    by (simp add: batch_fuse_relations_def cl fuse_relation_cluster_def create_fused_relation_def
        rep fc)
qed


text \<open>
  C3 (amended). Two relations with identical type, head and tail and confidences 0.90 and 0.95
  (whose properties are well typed, so that nothing raises) form one cluster, and under the
  default \<^verbatim>\<open>weighted_average\<close> strategy the fused relation's confidence is
  \<open>avg(0.90, 0.95) \<times> (1 + min(1, 2/5) \<times> 0.2)\<close> capped at 1.0, which is 0.999.
\<close>

theorem scenario_b_fusion:
  assumes "r_type r1 = r_type r2" "head_entity_id r1 = head_entity_id r2"
    "tail_entity_id r1 = tail_entity_id r2"
    "confidence r1 = 9 / 10" "confidence r2 = 95 / 100"
    "well_typed_relation r1" "well_typed_relation r2"
  shows "\<exists>cl res.
      cluster_relations thr kw uuid4 [r1, r2] = Inr [cl] \<and> rc_relations cl = [r1, r2]
    \<and> batch_fuse_relations default_confidence_strategy thr kw uuid4 fused_id fuse_properties [r1, r2]
        = Inr [res]
    \<and> source_relations res = [r1, r2]
    \<and> confidence (fused_relation res)
        = min 1 (((9 / 10 + 95 / 100) / 2) * (1 + min 1 (2 / 5) * (2 / 10)))
    \<and> confidence (fused_relation res) = 999 / 1000
    \<and> rfr_confidence res = 999 / 1000"
  using assms by (rule two_exact_duplicates_fusion)

lemma well_typed_rel_a: "well_typed_relation rel_a"
  by (simp add: well_typed_relation_def rel_a_def)

lemma well_typed_rel_b: "well_typed_relation rel_b"
  by (simp add: well_typed_relation_def rel_b_def)

theorem scenario_b_fusion_witness:
  "r_type rel_a = r_type rel_b \<and> head_entity_id rel_a = head_entity_id rel_b
   \<and> tail_entity_id rel_a = tail_entity_id rel_b
   \<and> confidence rel_a = 9 / 10 \<and> confidence rel_b = 95 / 100
   \<and> well_typed_relation rel_a \<and> well_typed_relation rel_b
   \<and> (\<exists>cl res.
        cluster_relations default_similarity_threshold (\<lambda>_. []) (\<lambda>_. ''c'') [rel_a, rel_b] = Inr [cl]
      \<and> rc_relations cl = [rel_a, rel_b]
      \<and> batch_fuse_relations default_confidence_strategy default_similarity_threshold
           (\<lambda>_. []) (\<lambda>_. ''c'') (\<lambda>_. ''f'') (\<lambda>_. []) [rel_a, rel_b] = Inr [res]
      \<and> source_relations res = [rel_a, rel_b]
      \<and> confidence (fused_relation res)
          = min 1 (((9 / 10 + 95 / 100) / 2) * (1 + min 1 (2 / 5) * (2 / 10)))
      \<and> confidence (fused_relation res) = 999 / 1000
      \<and> rfr_confidence res = 999 / 1000)"
proof -
  have h: "r_type rel_a = r_type rel_b" "head_entity_id rel_a = head_entity_id rel_b"
    "tail_entity_id rel_a = tail_entity_id rel_b"
    "confidence rel_a = 9 / 10" "confidence rel_b = 95 / 100"
    by (simp_all add: rel_a_def rel_b_def)
  from scenario_b_fusion [OF h well_typed_rel_a well_typed_rel_b,
      of default_similarity_threshold "\<lambda>_. []" "\<lambda>_. ''c''" "\<lambda>_. ''f''" "\<lambda>_. []"]
  show ?thesis using h well_typed_rel_a well_typed_rel_b by simp
qed

text \<open>The fused confidence of scenario B is not within 0.01 of 0.963.\<close>

theorem scenario_b_not_0963:
  "\<not> (\<exists>res. batch_fuse_relations default_confidence_strategy default_similarity_threshold
           (\<lambda>_. []) (\<lambda>_. ''c'') (\<lambda>_. ''f'') (\<lambda>_. []) [rel_a, rel_b] = Inr [res]
        \<and> \<bar>confidence (fused_relation res) - 963 / 1000\<bar> \<le> 1 / 100)"
proof -
  have h: "r_type rel_a = r_type rel_b" "head_entity_id rel_a = head_entity_id rel_b"
    "tail_entity_id rel_a = tail_entity_id rel_b"
    "confidence rel_a = 9 / 10" "confidence rel_b = 95 / 100"
    by (simp_all add: rel_a_def rel_b_def)
  from two_exact_duplicates_fusion [OF h well_typed_rel_a well_typed_rel_b,
      of default_similarity_threshold "\<lambda>_. []" "\<lambda>_. ''c''" "\<lambda>_. ''f''" "\<lambda>_. []"]
  obtain res where r: "batch_fuse_relations default_confidence_strategy default_similarity_threshold
           (\<lambda>_. []) (\<lambda>_. ''c'') (\<lambda>_. ''f'') (\<lambda>_. []) [rel_a, rel_b] = Inr [res]"
    and c: "confidence (fused_relation res) = 999 / 1000" by blast
  show ?thesis
  proof
    assume "\<exists>res'. batch_fuse_relations default_confidence_strategy default_similarity_threshold
           (\<lambda>_. []) (\<lambda>_. ''c'') (\<lambda>_. ''f'') (\<lambda>_. []) [rel_a, rel_b] = Inr [res']
        \<and> \<bar>confidence (fused_relation res') - 963 / 1000\<bar> \<le> 1 / 100"
    then obtain res' where r': "batch_fuse_relations default_confidence_strategy
           default_similarity_threshold
           (\<lambda>_. []) (\<lambda>_. ''c'') (\<lambda>_. ''f'') (\<lambda>_. []) [rel_a, rel_b] = Inr [res']"
      and c': "\<bar>confidence (fused_relation res') - 963 / 1000\<bar> \<le> 1 / 100" by blast
    from r r' have "res' = res" by simp
    with c c' show False by simp
  qed
qed

section \<open>Verified properties: fusion of one-element clusters\<close>

lemma scan_later_relations_group:
  "scan_later_relations dup js (g, v) = Inr (g', v') \<Longrightarrow> length g \<le> length g'"
proof (induction js arbitrary: g v)
  case Nil
  then show ?case by simp
next
  case (Cons j js)
  show ?case
  proof (cases "j \<in> v")
    case True
    with Cons show ?thesis by simp
  next
    case False
    show ?thesis
    proof (cases "dup j")
      case (Inl e)
      with False Cons.prems show ?thesis by simp
    next
      case (Inr d)
      show ?thesis
      proof (cases d)
        case True
        with False Inr Cons.prems
        have "scan_later_relations dup js (g @ [j], insert j v) = Inr (g', v')" by simp
        from Cons.IH [OF this] show ?thesis by simp
      next
        case d: False
        with False Inr Cons.prems
        have "scan_later_relations dup js (g, v) = Inr (g', v')" by simp
        from Cons.IH [OF this] show ?thesis .
      qed
    qed
  qed
qed

lemma identify_relations_loop_groups:
  "identify_relations_loop dup n is (dups, v) = Inr G \<Longrightarrow> \<forall>g\<in>set dups. 1 < length g
    \<Longrightarrow> \<forall>g\<in>set G. 1 < length g"
proof (induction "is" arbitrary: dups v)
  case Nil
  then show ?case by simp
next
  case (Cons i rest)
  show ?case
  proof (cases "i \<in> v")
    case True
    with Cons.prems have "identify_relations_loop dup n rest (dups, v) = Inr G" by simp
    from Cons.IH [OF this Cons.prems(2)] show ?thesis .
  next
    case False
    show ?thesis
    proof (cases "scan_later_relations (dup i) [i + 1 ..< n] ([i], v)")
      case (Inl e)
      with False Cons.prems show ?thesis by simp
    next
      case (Inr st)
      obtain g v' where st: "st = (g, v')" by (cases st)
      let ?dups = "if 1 < length g then dups @ [g] else dups"
      from False Inr st Cons.prems
      have l: "identify_relations_loop dup n rest (?dups, insert i v') = Inr G" by simp
      have "\<forall>g\<in>set ?dups. 1 < length g" using Cons.prems(2) by simp
      from Cons.IH [OF l this] show ?thesis .
    qed
  qed
qed

lemma identify_duplicate_relations_groups:
  assumes "identify_duplicate_relations thr kw rs = Inr G"
  shows "\<forall>g\<in>set G. 1 < length g"
proof (cases "length rs \<le> 1")
  case True
  with assms show ?thesis by (simp add: identify_duplicate_relations_def)
next
  case False
  with assms have "identify_relations_loop
      (\<lambda>i j. are_duplicate_relations thr kw (rs ! i) (rs ! j)) (length rs) [0 ..< length rs] ([], {})
      = Inr G" by (simp add: identify_duplicate_relations_def)
  from identify_relations_loop_groups [OF this] show ?thesis by simp
qed

lemma group_relation_clusters_members:
  "group_relation_clusters kw uuid4 rs k G = Inr cs
    \<Longrightarrow> map rc_relations cs = map (map (\<lambda>i. rs ! i)) G"
proof (induction G arbitrary: k cs)
  case Nil
  then show ?case by simp
next
  case (Cons g G)
  from Cons.prems obtain conf rep cs' where
    "group_relation_clusters kw uuid4 rs (Suc k) G = Inr cs'"
    and cs: "cs = \<lparr>rc_cluster_id = uuid4 k, rc_relations = map (\<lambda>i. rs ! i) g,
                  rc_representative_relation = Some rep, rc_confidence = conf,
                  rc_fusion_method = ''similarity_based''\<rparr> # cs'"
    by (auto simp add: Let_def split: sum.splits)
  from Cons.IH [OF this(1)] cs show ?case by simp
qed

lemma cluster_relations_singleton_confidence:
  assumes "cluster_relations thr kw uuid4 rs = Inr cs" "c \<in> set cs" "length (rc_relations c) = 1"
  shows "rc_confidence c = 1"
proof -
  from assms(1) obtain G gcs where G: "identify_duplicate_relations thr kw rs = Inr G"
    and gcs: "group_relation_clusters kw uuid4 rs 0 G = Inr gcs"
    and cs: "cs = gcs @ single_relation_clusters uuid4 rs (length gcs) G"
    by (auto simp add: cluster_relations_def split: sum.splits)
  have long: "\<forall>c\<in>set gcs. 1 < length (rc_relations c)"
  proof
    fix c' assume "c' \<in> set gcs"
    then have "rc_relations c' \<in> set (map rc_relations gcs)" by simp
    then have "rc_relations c' \<in> set (map (map (\<lambda>i. rs ! i)) G)"
      by (simp only: group_relation_clusters_members [OF gcs])
    then obtain g where "g \<in> set G" "rc_relations c' = map (\<lambda>i. rs ! i) g" by auto
    with identify_duplicate_relations_groups [OF G] show "1 < length (rc_relations c')" by simp
  qed
  with assms(2,3) cs have "c \<in> set (single_relation_clusters uuid4 rs (length gcs) G)" by auto
  then show ?thesis by (auto simp add: single_relation_clusters_def)
qed

lemma collect_mem:
  "collect f xs = Inr ys \<Longrightarrow> y \<in> set ys \<Longrightarrow> \<exists>x\<in>set xs. f x = Inr y"
proof (induction xs arbitrary: ys)
  case Nil
  then show ?case by simp
next
  case (Cons x xs)
  from Cons.prems(1) obtain v rest where v: "f x = Inr v" and rest: "collect f xs = Inr rest"
    and ys: "ys = v # rest" by (auto split: sum.splits)
  show ?case
  proof (cases "y = v")
    case True
    with v show ?thesis by simp
  next
    case False
    with Cons.prems(2) ys have "y \<in> set rest" by simp
    from Cons.IH [OF rest this] show ?thesis by auto
  qed
qed

lemma fuse_relation_cluster_sources:
  "fuse_relation_cluster s fid fp c = Inr res \<Longrightarrow> source_relations res = rc_relations c"
  by (auto simp add: fuse_relation_cluster_def split: if_splits sum.splits)

text \<open>
  C4 (amended). For a one-element cluster, \<^verbatim>\<open>fuse_entity_cluster\<close> returns the single member
  unchanged with confidence 1.0, and \<^verbatim>\<open>fuse_relation_cluster\<close> returns the single member
  unchanged with the confidence stored in the cluster; that stored confidence is 1.0 for every
  one-element cluster built by \<^verbatim>\<open>cluster_relations\<close>, so every one-source result of
  \<^verbatim>\<open>batch_fuse_relations\<close> is its source, with confidence 1.0.
\<close>

theorem singleton_fusion_identity:
  "(ec_entities c = [e] \<longrightarrow>
      fuse_entity_cluster create_fused_entity c =
        \<lparr>fused_entity = e, source_entities = [e], fr_confidence = 1,
         fr_fusion_evidence = No_fusion_needed\<rparr>)
   \<and> (rc_relations rc = [r] \<longrightarrow>
      fuse_relation_cluster strategy fid fuse_properties rc =
        Inr \<lparr>fused_relation = r, source_relations = [r], rfr_confidence = rc_confidence rc,
             rfr_fusion_evidence = No_fusion_needed\<rparr>)
   \<and> (cluster_relations thr kw uuid4 rs = Inr cs \<and> rc' \<in> set cs \<and> rc_relations rc' = [r']
        \<longrightarrow> rc_confidence rc' = 1)
   \<and> (batch_fuse_relations strategy thr kw uuid4 fused_id fuse_properties rs = Inr results
        \<and> res \<in> set results \<and> source_relations res = [r']
        \<longrightarrow> fused_relation res = r' \<and> rfr_confidence res = 1)"
proof (intro conjI impI)
  assume "ec_entities c = [e]"
  then show "fuse_entity_cluster create_fused_entity c =
        \<lparr>fused_entity = e, source_entities = [e], fr_confidence = 1,
         fr_fusion_evidence = No_fusion_needed\<rparr>"
    by (simp add: fuse_entity_cluster_def)
next
  assume "rc_relations rc = [r]"
  then show "fuse_relation_cluster strategy fid fuse_properties rc =
        Inr \<lparr>fused_relation = r, source_relations = [r], rfr_confidence = rc_confidence rc,
             rfr_fusion_evidence = No_fusion_needed\<rparr>"
    by (simp add: fuse_relation_cluster_def)
next
  assume "cluster_relations thr kw uuid4 rs = Inr cs \<and> rc' \<in> set cs \<and> rc_relations rc' = [r']"
  then show "rc_confidence rc' = 1"
    using cluster_relations_singleton_confidence [of thr kw uuid4 rs cs rc'] by simp
next
  assume a: "batch_fuse_relations strategy thr kw uuid4 fused_id fuse_properties rs = Inr results
        \<and> res \<in> set results \<and> source_relations res = [r']"
  then obtain cs where cs: "cluster_relations thr kw uuid4 rs = Inr cs"
    and col: "collect (\<lambda>(k, cluster). fuse_relation_cluster strategy (fused_id k) fuse_properties cluster)
            (enumerate 0 cs) = Inr results"
    by (auto simp add: batch_fuse_relations_def split: sum.splits)
  from a have "res \<in> set results" by simp
  from collect_mem [OF col this] obtain x where x: "x \<in> set (enumerate 0 cs)"
    and fx: "(case x of (k, cluster) \<Rightarrow>
        fuse_relation_cluster strategy (fused_id k) fuse_properties cluster) = Inr res" by blast
  obtain k cl where xk: "x = (k, cl)" by (cases x)
  from x xk have kc: "(k, cl) \<in> set (enumerate 0 cs)" by simp
  from fx xk have f: "fuse_relation_cluster strategy (fused_id k) fuse_properties cl = Inr res"
    by simp
  from kc have mem: "cl \<in> set cs" by (auto simp add: in_set_enumerate_eq)
  from fuse_relation_cluster_sources [OF f] a have one: "rc_relations cl = [r']" by simp
  then have conf: "rc_confidence cl = 1"
    using cluster_relations_singleton_confidence [OF cs mem] by simp
  from f one conf show "fused_relation res = r'" "rfr_confidence res = 1"
    by (auto simp add: fuse_relation_cluster_def)
qed


theorem singleton_fusion_identity_witness:
  "ec_entities cluster_x = [ent_x]
   \<and> fuse_entity_cluster (\<lambda>_. ent_x) cluster_x =
        \<lparr>fused_entity = ent_x, source_entities = [ent_x], fr_confidence = 1,
         fr_fusion_evidence = No_fusion_needed\<rparr>
   \<and> rc_relations cluster_half = [rel_a]
   \<and> fuse_relation_cluster default_confidence_strategy ''f'' (\<lambda>_. []) cluster_half =
        Inr \<lparr>fused_relation = rel_a, source_relations = [rel_a],
             rfr_confidence = rc_confidence cluster_half,
             rfr_fusion_evidence = No_fusion_needed\<rparr>
   \<and> (\<exists>cl. cluster_relations default_similarity_threshold (\<lambda>_. []) (\<lambda>_. ''c'') [rel_a] = Inr [cl]
        \<and> rc_relations cl = [rel_a] \<and> rc_confidence cl = 1)
   \<and> (\<exists>res. batch_fuse_relations default_confidence_strategy default_similarity_threshold
           (\<lambda>_. []) (\<lambda>_. ''c'') (\<lambda>_. ''f'') (\<lambda>_. []) [rel_a] = Inr [res]
        \<and> source_relations res = [rel_a] \<and> fused_relation res = rel_a \<and> rfr_confidence res = 1)"
proof -
  let ?cl = "\<lparr>rc_cluster_id = ''c'', rc_relations = [rel_a],
     rc_representative_relation = Some rel_a, rc_confidence = 1,
     rc_fusion_method = ''single_relation''\<rparr>"
  let ?res = "\<lparr>fused_relation = rel_a, source_relations = [rel_a], rfr_confidence = 1,
     rfr_fusion_evidence = No_fusion_needed\<rparr>"
  have e: "ec_entities cluster_x = [ent_x]" by (simp add: cluster_x_def)
  have r: "rc_relations cluster_half = [rel_a]" by (simp add: cluster_half_def)
  have cl: "cluster_relations default_similarity_threshold (\<lambda>_. []) (\<lambda>_. ''c'') [rel_a] = Inr [?cl]"
    by (simp add: cluster_relations_def identify_duplicate_relations_def
        single_relation_clusters_def)
  have b: "batch_fuse_relations default_confidence_strategy default_similarity_threshold
           (\<lambda>_. []) (\<lambda>_. ''c'') (\<lambda>_. ''f'') (\<lambda>_. []) [rel_a] = Inr [?res]"
    by (simp add: batch_fuse_relations_def cl fuse_relation_cluster_def)
  from singleton_fusion_identity [where c = cluster_x and e = ent_x
      and create_fused_entity = "\<lambda>_. ent_x" and rc = cluster_half and r = rel_a
      and strategy = default_confidence_strategy and fid = "''f''" and fuse_properties = "\<lambda>_. []"
      and thr = default_similarity_threshold and kw = "\<lambda>_. []" and ?uuid4.0 = "\<lambda>_. ''c''"
      and rs = "[rel_a]" and cs = "[?cl]" and rc' = ?cl and r' = rel_a
      and fused_id = "\<lambda>_. ''f''" and results = "[?res]" and res = ?res]
  show ?thesis using e r cl b by simp
qed

text \<open>A one-element relation cluster with stored confidence 0.5 fuses to a result of confidence 0.5.\<close>

theorem singleton_relation_confidence_half:
  "fuse_relation_cluster default_confidence_strategy ''f'' (\<lambda>_. []) cluster_half =
     Inr \<lparr>fused_relation = rel_a, source_relations = [rel_a], rfr_confidence = 1 / 2,
          rfr_fusion_evidence = No_fusion_needed\<rparr>
   \<and> (1 / 2 :: real) \<noteq> 1"
  by (simp add: fuse_relation_cluster_def cluster_half_def)

section \<open>Verified properties: relation conflicts per entity pair\<close>

lemma pairs_in_order_snoc:
  "pairs_in_order (rs @ [r]) =
     (if relation_key r \<in> relation_key ` set rs then pairs_in_order rs
      else pairs_in_order rs @ [relation_key r])"
  by (simp add: pairs_in_order_def)

lemma set_pairs_in_order: "set (pairs_in_order rs) = relation_key ` set rs"
  by (simp add: pairs_in_order_def)

lemma distinct_pairs_in_order: "distinct (pairs_in_order rs)"
  by (simp add: pairs_in_order_def)

lemma map_of_tabulate:
  "map_of (map (\<lambda>k. (k, f k)) ks) k = (if k \<in> set ks then Some (f k) else None)"
  by (induction ks) auto

lemma update_tabulate:
  "k \<in> set ks \<Longrightarrow> distinct ks \<Longrightarrow>
     AList.update k v (map (\<lambda>k'. (k', f k')) ks) = map (\<lambda>k'. (k', if k' = k then v else f k')) ks"
  by (induction ks) auto

lemma group_by_pair_snoc:
  "group_by_pair (rs @ [r]) =
     (case map_of (group_by_pair rs) (relation_key r) of
        None \<Rightarrow> group_by_pair rs @ [(relation_key r, [r])]
      | Some g \<Rightarrow> AList.update (relation_key r) (g @ [r]) (group_by_pair rs))"
  unfolding group_by_pair_def by simp

lemma group_by_pair_eq:
  "group_by_pair rs =
     map (\<lambda>k. (k, filter (\<lambda>r. relation_key r = k) rs)) (pairs_in_order rs)"
proof (induction rs rule: rev_induct)
  case Nil
  show ?case by (simp add: group_by_pair_def pairs_in_order_def)
next
  case (snoc r rs)
  let ?F = "\<lambda>xs k. filter (\<lambda>r. relation_key r = k) xs"
  show ?case
  proof (cases "relation_key r \<in> relation_key ` set rs")
    case True
    then have mem: "relation_key r \<in> set (pairs_in_order rs)" by (simp add: set_pairs_in_order)
    have "group_by_pair (rs @ [r]) =
        AList.update (relation_key r) (?F rs (relation_key r) @ [r])
          (map (\<lambda>k. (k, ?F rs k)) (pairs_in_order rs))"
      using mem by (simp add: group_by_pair_snoc snoc.IH map_of_tabulate)
    also have "\<dots> = map (\<lambda>k. (k, if k = relation_key r then ?F rs (relation_key r) @ [r] else ?F rs k))
        (pairs_in_order rs)"
      using mem distinct_pairs_in_order by (rule update_tabulate)
    also have "\<dots> = map (\<lambda>k. (k, ?F (rs @ [r]) k)) (pairs_in_order rs)"
      by (rule map_cong) auto
    finally show ?thesis using True by (simp add: pairs_in_order_snoc)
  next
    case False
    then have nmem: "relation_key r \<notin> set (pairs_in_order rs)" by (simp add: set_pairs_in_order)
    have "\<And>x. x \<in> set rs \<Longrightarrow> relation_key x \<noteq> relation_key r"
      using False by (metis imageI)
    then have none: "?F rs (relation_key r) = []"
      by (simp add: filter_empty_conv)
    have "group_by_pair (rs @ [r]) =
        map (\<lambda>k. (k, ?F rs k)) (pairs_in_order rs) @ [(relation_key r, [r])]"
      using nmem by (simp add: group_by_pair_snoc snoc.IH map_of_tabulate)
    also have "map (\<lambda>k. (k, ?F rs k)) (pairs_in_order rs)
        = map (\<lambda>k. (k, ?F (rs @ [r]) k)) (pairs_in_order rs)"
      using nmem by (intro map_cong) auto
    finally show ?thesis using False none by (simp add: pairs_in_order_snoc)
  qed
qed

lemma contradictory_loop_iff:
  "contradictory_loop ps ts = (\<exists>p\<in>set ps. fst p \<in> ts \<and> snd p \<in> ts)"
  by (induction ps) auto

lemma are_contradictory_relations_iff:
  "are_contradictory_relations types = has_contradictory_pair (set types)"
  by (simp add: are_contradictory_relations_def contradictory_loop_iff contradictory_pairs_def
      has_contradictory_pair_def)

lemma types_of_group:
  "set (map r_type (filter (\<lambda>r. relation_key r = k) rs)) = types_between rs k"
  by (auto simp add: types_between_def)

lemma card_types_length:
  assumes "2 \<le> card (types_between rs k)"
  shows "\<not> length (filter (\<lambda>r. relation_key r = k) rs) \<le> 1"
proof -
  have "card (set (map r_type (filter (\<lambda>r. relation_key r = k) rs)))
      \<le> length (map r_type (filter (\<lambda>r. relation_key r = k) rs))"
    by (rule card_length)
  with assms show ?thesis by (simp only: types_of_group length_map)
qed

lemma map_concat_singletons:
  "map f (concat (map (\<lambda>x. if P x then [h x] else []) xs)) = map (\<lambda>x. f (h x)) (filter P xs)"
  by (induction xs) auto

lemma conflicts_of_group_kinds:
  "map (\<lambda>c. (conflict_pair c, conflict_type c))
     (conflicts_of_group (k, filter (\<lambda>r. relation_key r = k) rs))
   = (if 2 \<le> card (types_between rs k)
      then [(k, if has_contradictory_pair (types_between rs k)
                then CONTRADICTORY_RELATIONS else RELATION_TYPE_CONFLICT)]
      else [])"
proof (cases "2 \<le> card (types_between rs k)")
  case True
  note len = card_types_length [OF True]
  from True have c: "1 < card (set (map r_type (filter (\<lambda>r. relation_key r = k) rs)))"
    by (simp only: types_of_group)
  show ?thesis
  proof (cases "has_contradictory_pair (types_between rs k)")
    case h: True
    then have "are_contradictory_relations (map r_type (filter (\<lambda>r. relation_key r = k) rs))"
      by (simp only: are_contradictory_relations_iff types_of_group)
    with True len c h show ?thesis
      by (simp add: conflicts_of_group_def Let_def conflict_pair_def)
  next
    case h: False
    then have "\<not> are_contradictory_relations (map r_type (filter (\<lambda>r. relation_key r = k) rs))"
      by (simp only: are_contradictory_relations_iff types_of_group not_False_eq_True)
    with True len c h show ?thesis
      by (simp add: conflicts_of_group_def Let_def conflict_pair_def)
  qed
next
  case False
  then have c: "\<not> 1 < card (set (map r_type (filter (\<lambda>r. relation_key r = k) rs)))"
    unfolding types_of_group by simp
  with False show ?thesis by (simp add: conflicts_of_group_def Let_def)
qed

lemma map_concat_map:
  "map f (concat (map g xs)) = concat (map (\<lambda>x. map f (g x)) xs)"
  by (induction xs) auto

lemma concat_map_if:
  "concat (map (\<lambda>x. if P x then [h x] else []) xs) = map h (filter P xs)"
  by (induction xs) auto

lemma detect_relation_conflicts_kinds:
  "map (\<lambda>c. (conflict_pair c, conflict_type c)) (detect_relation_conflicts rs)
     = expected_relation_conflicts rs"
  by (simp add: detect_relation_conflicts_def group_by_pair_eq map_concat_map comp_def
      conflicts_of_group_kinds concat_map_if expected_relation_conflicts_def)

lemma detect_relation_conflicts_distinct:
  "distinct (map conflict_pair (detect_relation_conflicts rs))"
proof -
  have "map conflict_pair (detect_relation_conflicts rs)
      = map fst (map (\<lambda>c. (conflict_pair c, conflict_type c)) (detect_relation_conflicts rs))"
    by (simp add: comp_def)
  also have "\<dots> = filter (\<lambda>k. 2 \<le> card (types_between rs k)) (pairs_in_order rs)"
    by (simp only: detect_relation_conflicts_kinds)
       (simp add: expected_relation_conflicts_def comp_def)
  finally show ?thesis by (simp add: distinct_pairs_in_order)
qed

text \<open>
  C6. For every relation list, the conflicts emitted by \<^verbatim>\<open>detect_relation_conflicts\<close> are, in
  order of first occurrence of the \<open>(head, tail)\<close> pair, exactly one per pair whose
  relations carry at least two distinct types: \<^verbatim>\<open>CONTRADICTORY_RELATIONS\<close> if the type set
  contains one of the four known contradictory pairs, \<^verbatim>\<open>RELATION_TYPE_CONFLICT\<close> otherwise.
  A pair with one relation or with a single distinct type emits nothing.
\<close>

theorem detect_relation_conflicts_per_pair:
  "map (\<lambda>c. (conflict_pair c, conflict_type c)) (detect_relation_conflicts rs)
     = expected_relation_conflicts rs
   \<and> distinct (map conflict_pair (detect_relation_conflicts rs))
   \<and> distinct (pairs_in_order rs) \<and> set (pairs_in_order rs) = relation_key ` set rs"
  by (simp add: detect_relation_conflicts_kinds detect_relation_conflicts_distinct
      distinct_pairs_in_order set_pairs_in_order)

lemma example_relations_conflicts:
  "map (\<lambda>c. (conflict_pair c, conflict_type c)) (detect_relation_conflicts example_relations)
     = [((''a'', ''b''), CONTRADICTORY_RELATIONS), ((''c'', ''b''), RELATION_TYPE_CONFLICT)]"
  by code_simp

theorem detect_relation_conflicts_per_pair_witness:
  "expected_relation_conflicts example_relations
     = [((''a'', ''b''), CONTRADICTORY_RELATIONS), ((''c'', ''b''), RELATION_TYPE_CONFLICT)]
   \<and> length (detect_relation_conflicts example_relations) = 2
   \<and> pairs_in_order example_relations = [(''a'', ''b''), (''c'', ''b''), (''a'', ''d'')]"
proof -
  have p: "pairs_in_order example_relations = [(''a'', ''b''), (''c'', ''b''), (''a'', ''d'')]"
    by code_simp
  have "length (map (\<lambda>c. (conflict_pair c, conflict_type c))
      (detect_relation_conflicts example_relations)) = 2"
    by (simp only: example_relations_conflicts) simp
  then have l: "length (detect_relation_conflicts example_relations) = 2" by simp
  from detect_relation_conflicts_per_pair [of example_relations] example_relations_conflicts p l
  show ?thesis by simp
qed

section \<open>Verified properties: the fallback of conflict resolution\<close>

lemma pick_highest_confidence_frame:
  "pick_highest_confidence c = Inr c2 \<Longrightarrow>
     \<exists>v conf. c2 = c\<lparr>resolved_value := v, resolution_confidence := conf\<rparr>"
  by (auto simp add: pick_highest_confidence_def split: sum.splits)

lemma pick_first_frame:
  "pick_first c x = Inr c2 \<Longrightarrow>
     \<exists>v conf. c2 = c\<lparr>resolved_value := v, resolution_confidence := conf\<rparr>"
  by (auto simp add: pick_first_def split: list.splits)

lemma vote_by_str_frame:
  "vote_by_str py c = Inr c2 \<Longrightarrow>
     \<exists>v conf. c2 = c\<lparr>resolved_value := v, resolution_confidence := conf\<rparr>"
proof -
  assume a: "vote_by_str py c = Inr c2"
  have same: "c\<lparr>resolution_confidence := x\<rparr> = c\<lparr>resolved_value := resolved_value c, resolution_confidence := x\<rparr>" for x
    by simp
  from a show ?thesis
    unfolding vote_by_str_def Let_def
    by (auto split: sum.splits list.splits prod.splits intro: same)
qed

lemma resolve_by_type_frame:
  assumes "resolve_by_type py c s = Inr c2"
  shows "\<exists>v conf. c2 = c\<lparr>resolved_value := v, resolution_confidence := conf\<rparr>"
proof (cases "conflict_type c")
  case ENTITY_NAME_CONFLICT
  with assms show ?thesis
    by (auto simp add: resolve_by_type_def resolve_name_conflict_def
        dest: pick_highest_confidence_frame pick_first_frame
        split: if_splits sum.splits prod.splits)
next
  case ENTITY_TYPE_CONFLICT
  with assms show ?thesis
    by (auto simp add: resolve_by_type_def resolve_type_conflict_def
        dest: pick_highest_confidence_frame pick_first_frame
        split: if_splits sum.splits prod.splits)
next
  case PROPERTY_VALUE_CONFLICT
  with assms show ?thesis
    by (auto simp add: resolve_by_type_def resolve_property_conflict_def Let_def
        dest: pick_highest_confidence_frame pick_first_frame vote_by_str_frame
        split: if_splits sum.splits prod.splits)
next
  case RELATION_TYPE_CONFLICT
  with assms show ?thesis
    by (auto simp add: resolve_by_type_def resolve_relation_type_conflict_def
        dest: pick_highest_confidence_frame pick_first_frame
        split: if_splits sum.splits prod.splits)
next
  case TEMPORAL_CONFLICT
  with assms show ?thesis
    by (auto simp add: resolve_by_type_def resolve_by_highest_confidence_def
        dest: pick_highest_confidence_frame
        split: if_splits)
next
  case CONTRADICTORY_RELATIONS
  with assms show ?thesis
    by (auto simp add: resolve_by_type_def resolve_contradictory_relations_def
        dest: pick_highest_confidence_frame pick_first_frame
        split: if_splits)
qed

lemma resolve_conflict_nonempty:
  assumes "conflicting_items c \<noteq> []"
  shows "\<exists>c' h'. resolve_conflict py h c s = (Inr c', h') \<and> conflict_id c' = conflict_id c
     \<and> conflicting_items c' = conflicting_items c"
proof -
  let ?c1 = "c\<lparr>resolution_strategy := Some (chosen_strategy c s)\<rparr>"
  show ?thesis
  proof (cases "resolve_by_type py ?c1 (chosen_strategy c s)")
    case (Inl err)
    from assms obtain x xs where "conflicting_items c = x # xs" by (cases "conflicting_items c") auto
    with Inl show ?thesis by (simp add: resolve_conflict_def)
  next
    case (Inr c2)
    from resolve_by_type_frame [OF Inr] obtain v conf where
      "c2 = ?c1\<lparr>resolved_value := v, resolution_confidence := conf\<rparr>" by blast
    with Inr show ?thesis by (simp add: resolve_conflict_def Let_def)
  qed
qed

lemma batch_resolve_conflicts_total:
  assumes "\<forall>c\<in>set cs. conflicting_items c \<noteq> []"
  shows "\<exists>rs h'. batch_resolve_conflicts py m h cs = (Inr rs, h')
     \<and> map conflict_id rs = map conflict_id cs"
  using assms
proof (induction cs arbitrary: h)
  case Nil
  then show ?case by simp
next
  case (Cons c cs)
  then have "conflicting_items c \<noteq> []" by simp
  from resolve_conflict_nonempty [OF this, of py h "m (conflict_type c)"]
  obtain c' h1 where r: "resolve_conflict py h c (m (conflict_type c)) = (Inr c', h1)"
    and i: "conflict_id c' = conflict_id c" by blast
  from Cons have "\<forall>c\<in>set cs. conflicting_items c \<noteq> []" by simp
  from Cons.IH [OF this, of h1] obtain rs h2 where
    b: "batch_resolve_conflicts py m h1 cs = (Inr rs, h2)"
    and j: "map conflict_id rs = map conflict_id cs" by blast
  from r b i j show ?case by simp
qed

text \<open>
  C7. When the strategy dispatch raises for a conflict, \<^verbatim>\<open>resolve_conflict\<close> catches the
  exception. If the conflict has a first conflicting item, the conflict is returned with that
  item as resolved value and resolution confidence 0.1, and the history is unchanged; if the
  list of conflicting items is empty, the handler itself raises \<^verbatim>\<open>IndexError\<close>. A batch
  whose conflicts all have items is resolved completely; an exception that leaves
  \<^verbatim>\<open>resolve_conflict\<close> ends \<^verbatim>\<open>batch_resolve_conflicts\<close> with that exception.
\<close>

theorem resolve_conflict_fallback:
  "(resolve_by_type py (c\<lparr>resolution_strategy := Some (chosen_strategy c s)\<rparr>) (chosen_strategy c s)
       = Inl err \<and> conflicting_items c = x # xs
     \<longrightarrow> resolve_conflict py h c s =
          (Inr (c\<lparr>resolution_strategy := Some (chosen_strategy c s),
                 resolved_value := Some x, resolution_confidence := 1 / 10\<rparr>), h))
   \<and> (resolve_by_type py (c\<lparr>resolution_strategy := Some (chosen_strategy c s)\<rparr>) (chosen_strategy c s)
       = Inl err \<and> conflicting_items c = []
     \<longrightarrow> resolve_conflict py h c s = (Inl IndexError, h))
   \<and> ((\<forall>c'\<in>set cs. conflicting_items c' \<noteq> [])
     \<longrightarrow> (\<exists>rs h'. batch_resolve_conflicts py m h cs = (Inr rs, h')
            \<and> map conflict_id rs = map conflict_id cs))
   \<and> (resolve_conflict py h c (m (conflict_type c)) = (Inl err, h')
     \<longrightarrow> batch_resolve_conflicts py m h (c # cs) = (Inl err, h'))"
proof (intro conjI impI)
  assume "resolve_by_type py (c\<lparr>resolution_strategy := Some (chosen_strategy c s)\<rparr>) (chosen_strategy c s)
       = Inl err \<and> conflicting_items c = x # xs"
  then show "resolve_conflict py h c s =
          (Inr (c\<lparr>resolution_strategy := Some (chosen_strategy c s),
                 resolved_value := Some x, resolution_confidence := 1 / 10\<rparr>), h)"
    by (simp add: resolve_conflict_def)
next
  assume "resolve_by_type py (c\<lparr>resolution_strategy := Some (chosen_strategy c s)\<rparr>) (chosen_strategy c s)
       = Inl err \<and> conflicting_items c = []"
  then show "resolve_conflict py h c s = (Inl IndexError, h)"
    by (simp add: resolve_conflict_def)
next
  assume "\<forall>c'\<in>set cs. conflicting_items c' \<noteq> []"
  then show "\<exists>rs h'. batch_resolve_conflicts py m h cs = (Inr rs, h')
            \<and> map conflict_id rs = map conflict_id cs"
    by (rule batch_resolve_conflicts_total)
next
  assume "resolve_conflict py h c (m (conflict_type c)) = (Inl err, h')"
  then show "batch_resolve_conflicts py m h (c # cs) = (Inl err, h')" by simp
qed

lemma empty_conflict_raises:
  "resolve_by_type example_runtime
      (empty_conflict\<lparr>resolution_strategy := Some (chosen_strategy empty_conflict None)\<rparr>)
      (chosen_strategy empty_conflict None) = Inl ValueError"
  by (simp add: resolve_by_type_def empty_conflict_def chosen_strategy_def
      resolve_name_conflict_def pick_highest_confidence_def max_index_def)

lemma unscored_conflict_raises:
  "resolve_by_type example_runtime
      (unscored_conflict\<lparr>resolution_strategy := Some (chosen_strategy unscored_conflict None)\<rparr>)
      (chosen_strategy unscored_conflict None) = Inl ValueError"
  by (simp add: resolve_by_type_def unscored_conflict_def name_conflict_def chosen_strategy_def
      resolve_name_conflict_def pick_highest_confidence_def max_index_def)

theorem resolve_conflict_fallback_witness:
  "resolve_conflict example_runtime [] unscored_conflict None =
     (Inr (unscored_conflict\<lparr>resolution_strategy := Some ''highest_confidence'',
            resolved_value := Some (Val (PStr ''Tencent'')), resolution_confidence := 1 / 10\<rparr>), [])
   \<and> resolve_conflict example_runtime [] empty_conflict None = (Inl IndexError, [])
   \<and> (\<exists>rs h'. batch_resolve_conflicts example_runtime Map.empty [] [unscored_conflict, name_conflict]
         = (Inr rs, h') \<and> map conflict_id rs = [''name_conflict_e2'', ''name_conflict_e1''])
   \<and> batch_resolve_conflicts example_runtime Map.empty [] [empty_conflict, name_conflict]
       = (Inl IndexError, [])"
proof -
  have i1: "conflicting_items unscored_conflict = [Val (PStr ''Tencent''), Val (PStr ''Tencent Inc'')]"
    by (simp add: unscored_conflict_def name_conflict_def)
  have i2: "conflicting_items empty_conflict = []" by (simp add: empty_conflict_def)
  have ne: "\<forall>c'\<in>set [unscored_conflict, name_conflict]. conflicting_items c' \<noteq> []"
    by (simp add: unscored_conflict_def name_conflict_def)
  note t = resolve_conflict_fallback [where py = example_runtime and h = "[]" and m = Map.empty]
  have a: "resolve_conflict example_runtime [] unscored_conflict None =
     (Inr (unscored_conflict\<lparr>resolution_strategy := Some (chosen_strategy unscored_conflict None),
            resolved_value := Some (Val (PStr ''Tencent'')), resolution_confidence := 1 / 10\<rparr>), [])"
    using t [where c = unscored_conflict and s = None and err = ValueError
        and x = "Val (PStr ''Tencent'')" and xs = "[Val (PStr ''Tencent Inc'')]"]
      unscored_conflict_raises i1 by simp
  have b: "resolve_conflict example_runtime [] empty_conflict None = (Inl IndexError, [])"
    using t [where c = empty_conflict and s = None and err = ValueError]
      empty_conflict_raises i2 by simp
  have c: "\<exists>rs h'. batch_resolve_conflicts example_runtime Map.empty [] [unscored_conflict, name_conflict]
         = (Inr rs, h') \<and> map conflict_id rs = map conflict_id [unscored_conflict, name_conflict]"
    using t [where cs = "[unscored_conflict, name_conflict]"] ne by blast
  have d: "batch_resolve_conflicts example_runtime Map.empty [] (empty_conflict # [name_conflict])
       = (Inl IndexError, [])"
    using t [where c = empty_conflict and err = IndexError and h' = "[]" and cs = "[name_conflict]"] b
    by simp
  have s: "chosen_strategy unscored_conflict None = ''highest_confidence''"
    by (simp add: chosen_strategy_def unscored_conflict_def name_conflict_def)
  have ids: "map conflict_id [unscored_conflict, name_conflict] = [''name_conflict_e2'', ''name_conflict_e1'']"
    by (simp add: unscored_conflict_def name_conflict_def)
  from a b c d s ids show ?thesis by simp
qed

section \<open>Verified properties: the indices of the store\<close>

lemma fold_name_index:
  "fold (\<lambda>alias idx. idx(alias \<mapsto> v)) as m = (\<lambda>n. if n \<in> set as then Some v else m n)"
  by (induction as arbitrary: m) (auto simp add: fun_eq_iff)

lemma entities_add_entity:
  "map_of (entities (add_entity kg e)) = (map_of (entities kg))(e_id e \<mapsto> e)"
  by (simp add: add_entity_def Let_def update_conv')

lemma entity_type_index_add_entity:
  "entity_type_index (add_entity kg e) t =
     (if t = e_type e then insert (e_id e) (entity_type_index kg t) else entity_type_index kg t)"
  by (simp add: add_entity_def Let_def)

lemma entity_name_index_add_entity:
  "entity_name_index (add_entity kg e) n =
     (if n = e_name e \<or> n \<in> set (e_aliases e) then Some (e_id e) else entity_name_index kg n)"
  by (simp add: add_entity_def Let_def fold_name_index)

lemma kg_overwritten_fields:
  "entities kg_overwritten = [(''e1'', ent_new)]"
  "entity_type_index kg_overwritten ''Fruit'' = {''e1''}"
  "entity_name_index kg_overwritten ''Apple'' = Some ''e1''"
  by (simp_all add: kg_overwritten_def add_entity_def Let_def kg_init_def ent_old_def ent_new_def)

text \<open>
  C2: after each mutating operation every index is in bijection with the live maps, so the
  type index holds under a type exactly the ids of the present entities of that type and the
  name index has no entry for a name of an overwritten entity. \<^verbatim>\<open>add_entity\<close> does not keep
  that: it stores the entity under its id and adds index entries, and it removes none. Every
  id stays under every type it was under, and every name other than the new name and the new
  aliases keeps its entry. So after \<^verbatim>\<open>add_entity\<close> of \<open>e1\<close>, named \<open>Apple\<close> of type
  \<open>Fruit\<close>, and then of \<open>e1\<close>, named \<open>Apple Inc\<close> of type \<open>Company\<close>, on the empty
  store, \<^verbatim>\<open>get_entities_by_type('Fruit')\<close> returns the company and
  \<^verbatim>\<open>get_entity_by_name('Apple')\<close> returns the entity named \<open>Apple Inc\<close>.
\<close>

theorem add_entity_keeps_old_index_entries:
  "entity_type_index kg t \<subseteq> entity_type_index (add_entity kg e) t
   \<and> (n \<noteq> e_name e \<and> n \<notin> set (e_aliases e)
        \<longrightarrow> entity_name_index (add_entity kg e) n = entity_name_index kg n)
   \<and> map_of (entities (add_entity kg e)) (e_id e) = Some e
   \<and> kg_overwritten = add_entity (add_entity kg_init ent_old) ent_new
   \<and> e_id ent_old = e_id ent_new \<and> e_name ent_old = ''Apple'' \<and> e_type ent_old = ''Fruit''
   \<and> e_name ent_new = ''Apple Inc'' \<and> e_type ent_new = ''Company''
   \<and> e_aliases ent_new = [''AAPL'']
   \<and> entities kg_overwritten = [(''e1'', ent_new)]
   \<and> entity_type_index kg_overwritten ''Fruit'' = {''e1''}
   \<and> get_entities_by_type kg_overwritten ''Fruit'' = Inr {ent_new}
   \<and> entity_name_index kg_overwritten ''Apple'' = Some ''e1''
   \<and> get_entity_by_name kg_overwritten ''Apple'' = Some ent_new"
proof -
  have t: "entity_type_index kg t \<subseteq> entity_type_index (add_entity kg e) t"
    by (auto simp add: entity_type_index_add_entity)
  have n: "n \<noteq> e_name e \<and> n \<notin> set (e_aliases e)
      \<longrightarrow> entity_name_index (add_entity kg e) n = entity_name_index kg n"
    by (simp add: entity_name_index_add_entity)
  have m: "map_of (entities (add_entity kg e)) (e_id e) = Some e"
    by (simp add: entities_add_entity)
  have f: "e_id ent_old = e_id ent_new \<and> e_name ent_old = ''Apple'' \<and> e_type ent_old = ''Fruit''
      \<and> e_name ent_new = ''Apple Inc'' \<and> e_type ent_new = ''Company''
      \<and> e_aliases ent_new = [''AAPL'']"
    by (simp add: ent_old_def ent_new_def)
  have g: "get_entities_by_type kg_overwritten ''Fruit'' = Inr {ent_new}"
    by (simp add: get_entities_by_type_def kg_overwritten_fields)
  have h: "get_entity_by_name kg_overwritten ''Apple'' = Some ent_new"
    by (simp add: get_entity_by_name_def kg_overwritten_fields)
  from t n m f g h kg_overwritten_fields kg_overwritten_def show ?thesis by blast
qed

theorem add_entity_keeps_old_index_entries_witness:
  "''e1'' \<in> entity_type_index (add_entity kg_init ent_old) ''Fruit''
   \<and> ''e1'' \<in> entity_type_index (add_entity (add_entity kg_init ent_old) ent_new) ''Fruit''
   \<and> map_of (entities (add_entity (add_entity kg_init ent_old) ent_new)) ''e1'' = Some ent_new
   \<and> e_type ent_new \<noteq> ''Fruit''
   \<and> entity_name_index (add_entity kg_init ent_old) ''Apple'' = Some ''e1''
   \<and> ''Apple'' \<noteq> e_name ent_new \<and> ''Apple'' \<notin> set (e_aliases ent_new)
   \<and> entity_name_index (add_entity (add_entity kg_init ent_old) ent_new) ''Apple'' = Some ''e1''"
proof -
  note t = add_entity_keeps_old_index_entries
    [of "add_entity kg_init ent_old" "''Fruit''" ent_new "''Apple''"]
  have a: "''e1'' \<in> entity_type_index (add_entity kg_init ent_old) ''Fruit''"
    by (simp add: add_entity_def Let_def kg_init_def ent_old_def)
  have b: "entity_name_index (add_entity kg_init ent_old) ''Apple'' = Some ''e1''"
    by (simp add: add_entity_def Let_def kg_init_def ent_old_def)
  have c: "''Apple'' \<noteq> e_name ent_new \<and> ''Apple'' \<notin> set (e_aliases ent_new)"
    by (simp add: ent_new_def)
  have d: "e_type ent_new \<noteq> ''Fruit''" "e_id ent_new = ''e1''" by (simp_all add: ent_new_def)
  have 1: "''e1'' \<in> entity_type_index (add_entity (add_entity kg_init ent_old) ent_new) ''Fruit''"
    using t a by blast
  have 2: "entity_name_index (add_entity (add_entity kg_init ent_old) ent_new) ''Apple'' = Some ''e1''"
    using t b c by metis
  have 3: "map_of (entities (add_entity (add_entity kg_init ent_old) ent_new)) ''e1'' = Some ent_new"
    using t d(2) by metis
  from a b c d(1) 1 2 3 show ?thesis by blast
qed

section \<open>Verified properties: seed-based grouping of entities\<close>

lemma scan_later_eq:
  "distinct js \<Longrightarrow>
     scan_later similar js (g, v) =
       (g @ filter (\<lambda>j. j \<notin> v \<and> similar j) js, v \<union> {j \<in> set js. j \<notin> v \<and> similar j})"
proof (induction js arbitrary: g v)
  case Nil
  then show ?case by (simp add: scan_later_def)
next
  case (Cons j js)
  from Cons.prems have d: "distinct js" and nj: "j \<notin> set js" by simp_all
  have step: "scan_later similar (j # js) (g, v) =
      scan_later similar js
        (if j \<in> v then (g, v) else if similar j then (g @ [j], insert j v) else (g, v))"
    by (simp add: scan_later_def)
  show ?case
  proof (cases "j \<in> v \<or> \<not> similar j")
    case True
    then have "scan_later similar (j # js) (g, v) = scan_later similar js (g, v)"
      unfolding step by auto
    with Cons.IH [OF d, of g v] True show ?thesis by auto
  next
    case False
    then have "scan_later similar (j # js) (g, v) = scan_later similar js (g @ [j], insert j v)"
      unfolding step by auto
    moreover have "filter (\<lambda>k. k \<notin> insert j v \<and> similar k) js = filter (\<lambda>k. k \<notin> v \<and> similar k) js"
      using nj by (intro filter_cong) auto
    ultimately show ?thesis using Cons.IH [OF d, of "g @ [j]" "insert j v"] False nj by auto
  qed
qed

lemma seed_loop:
  "fst (fold (\<lambda>i (duplicates, visited).
                  if i \<in> visited then (duplicates, visited)
                  else
                    (let (duplicate_group, visited') =
                           scan_later (\<lambda>j. similar i j) [i + 1 ..< n] ([i], visited)
                     in (if length duplicate_group > 1 then duplicates @ [duplicate_group]
                         else duplicates,
                         insert i visited')))
          [i ..< n] (dups, v))
   = dups @ filter (\<lambda>g. 1 < length g) (seed_clusters similar (filter (\<lambda>j. j \<notin> v) [i ..< n]))"
  (is "fst (fold ?B [i ..< n] (dups, v)) = _")
proof (induction "n - i" arbitrary: i dups v)
  case 0
  then show ?case by simp
next
  case (Suc k)
  then have lt: "i < n" and k: "k = n - Suc i" by simp_all
  have upt: "[i ..< n] = i # [Suc i ..< n]" using lt by (rule upt_conv_Cons)
  show ?case
  proof (cases "i \<in> v")
    case True
    then have "fst (fold ?B [i ..< n] (dups, v)) = fst (fold ?B [Suc i ..< n] (dups, v))"
      by (simp add: upt)
    also have "\<dots> = dups @ filter (\<lambda>g. 1 < length g)
        (seed_clusters similar (filter (\<lambda>j. j \<notin> v) [Suc i ..< n]))"
      using k by (rule Suc.hyps(1))
    finally show ?thesis using True by (simp add: upt)
  next
    case False
    let ?F = "filter (\<lambda>j. j \<notin> v \<and> similar i j) [Suc i ..< n]"
    let ?R = "filter (\<lambda>j. j \<notin> v) [Suc i ..< n]"
    let ?dups' = "if 1 < length (i # ?F) then dups @ [i # ?F] else dups"
    let ?v' = "insert i (v \<union> {j \<in> set [Suc i ..< n]. j \<notin> v \<and> similar i j})"
    have scan: "scan_later (similar i) [Suc i ..< n] ([i], v)
        = (i # ?F, v \<union> {j \<in> set [Suc i ..< n]. j \<notin> v \<and> similar i j})"
      using scan_later_eq [of "[Suc i ..< n]" "similar i" "[i]" v] by simp
    have B: "?B i (dups, v) = (?dups', ?v')"
      using False by (simp add: scan)
    have "fst (fold ?B [i ..< n] (dups, v)) = fst (fold ?B [Suc i ..< n] (?dups', ?v'))"
      by (simp only: upt fold_Cons comp_apply B)
    also have "\<dots> = ?dups' @ filter (\<lambda>g. 1 < length g)
        (seed_clusters similar (filter (\<lambda>j. j \<notin> ?v') [Suc i ..< n]))"
      using k by (rule Suc.hyps(1))
    also have "filter (\<lambda>j. j \<notin> ?v') [Suc i ..< n] = filter (\<lambda>j. \<not> similar i j) ?R"
      unfolding filter_filter by (rule filter_cong) auto
    finally have l: "fst (fold ?B [i ..< n] (dups, v))
        = ?dups' @ filter (\<lambda>g. 1 < length g) (seed_clusters similar (filter (\<lambda>j. \<not> similar i j) ?R))" .
    have F: "filter (similar i) ?R = ?F"
      unfolding filter_filter by (rule filter_cong) auto
    have "filter (\<lambda>j. j \<notin> v) [i ..< n] = i # ?R" using False by (simp add: upt)
    then have r: "seed_clusters similar (filter (\<lambda>j. j \<notin> v) [i ..< n])
        = (i # ?F) # seed_clusters similar (filter (\<lambda>j. \<not> similar i j) ?R)"
      by (simp add: F)
    show ?thesis unfolding l r by simp
  qed
qed

lemma identify_duplicate_entities_seed:
  "identify_duplicate_entities thr es =
     filter (\<lambda>g. 1 < length g)
       (seed_clusters (\<lambda>i j. thr \<le> entity_similarity (es ! i) (es ! j)) [0 ..< length es])"
proof (cases "length es \<le> 1")
  case True
  then have "length es = 0 \<or> length es = 1" by linarith
  then show ?thesis
  proof
    assume "length es = 0"
    then show ?thesis by (simp add: identify_duplicate_entities_def)
  next
    assume "length es = 1"
    then show ?thesis by (simp add: identify_duplicate_entities_def)
  qed
next
  case False
  then show ?thesis
    unfolding identify_duplicate_entities_def
    using seed_loop [of "\<lambda>i j. thr \<le> entity_similarity (es ! i) (es ! j)" "length es" 0 "[]" "{}"]
    by simp
qed

lemma seed_clusters_set: "set (concat (seed_clusters similar xs)) = set xs"
  by (induction similar xs rule: seed_clusters.induct) auto

lemma seed_clusters_mem:
  "g \<in> set (seed_clusters similar xs) \<Longrightarrow> j \<in> set g \<Longrightarrow> j \<in> set xs"
  using seed_clusters_set [of similar xs] by auto

lemma distinct_concat_filter:
  "distinct (concat xs) \<Longrightarrow> distinct (concat (filter P xs))"
  by (induction xs) auto

lemma seed_clusters_distinct:
  "distinct xs \<Longrightarrow> distinct (concat (seed_clusters similar xs))"
proof (induction similar xs rule: seed_clusters.induct)
  case (1 similar)
  then show ?case by simp
next
  case (2 similar i rest)
  then have "distinct (concat (seed_clusters similar (filter (\<lambda>j. \<not> similar i j) rest)))" by simp
  with 2 show ?case by (auto dest: seed_clusters_mem)
qed

lemma seed_clusters_members:
  "g \<in> set (seed_clusters similar xs) \<Longrightarrow> sorted_wrt (<) xs \<Longrightarrow>
     g \<noteq> [] \<and> (\<forall>j\<in>set (tl g). hd g < j \<and> similar (hd g) j) \<and> set g \<subseteq> set xs"
proof (induction similar xs rule: seed_clusters.induct)
  case (1 similar)
  then show ?case by simp
next
  case (2 similar i rest)
  from 2(3) have s: "sorted_wrt (<) (filter (\<lambda>j. \<not> similar i j) rest)"
    by (simp add: sorted_wrt_filter)
  show ?case
  proof (cases "g = i # filter (similar i) rest")
    case True
    with 2(3) show ?thesis by auto
  next
    case False
    with 2(2) have "g \<in> set (seed_clusters similar (filter (\<lambda>j. \<not> similar i j) rest))" by simp
    from 2(1) [OF this s] show ?thesis by auto
  qed
qed

lemma seed_clusters_earliest:
  "seed_clusters similar xs = pre @ g # post \<Longrightarrow>
     \<forall>g'\<in>set pre. \<forall>j\<in>set g. \<not> similar (hd g') j"
proof (induction similar xs arbitrary: pre rule: seed_clusters.induct)
  case (1 similar)
  then show ?case by simp
next
  case (2 similar i rest)
  show ?case
  proof (cases pre)
    case Nil
    then show ?thesis by simp
  next
    case (Cons g0 pre')
    with 2(2) have g0: "g0 = i # filter (similar i) rest"
      and r: "seed_clusters similar (filter (\<lambda>j. \<not> similar i j) rest) = pre' @ g # post"
      by simp_all
    have "g \<in> set (seed_clusters similar (filter (\<lambda>j. \<not> similar i j) rest))"
      unfolding r by simp
    then have "\<forall>j\<in>set g. \<not> similar i j" by (auto dest: seed_clusters_mem)
    with 2(1) [OF r] g0 Cons show ?thesis by simp
  qed
qed

lemma cluster_index_groups_partition:
  "distinct (concat (cluster_index_groups thr es))
   \<and> set (concat (cluster_index_groups thr es)) = {0 ..< length es}"
proof -
  let ?S = "\<lambda>i j. thr \<le> entity_similarity (es ! i) (es ! j)"
  let ?G = "identify_duplicate_entities thr es"
  let ?rest = "filter (\<lambda>i. i \<notin> set (concat ?G)) [0 ..< length es]"
  have G: "?G = filter (\<lambda>g. 1 < length g) (seed_clusters ?S [0 ..< length es])"
    by (rule identify_duplicate_entities_seed)
  have d: "distinct (concat (seed_clusters ?S [0 ..< length es]))"
    by (rule seed_clusters_distinct) simp
  have dG: "distinct (concat ?G)"
    unfolding G using d by (rule distinct_concat_filter)
  have sG: "set (concat ?G) \<subseteq> {0 ..< length es}"
    unfolding G using seed_clusters_mem [of _ ?S "[0 ..< length es]"] by auto
  have c: "concat (cluster_index_groups thr es) = concat ?G @ ?rest"
    by (simp add: cluster_index_groups_def Let_def concat_map_singleton)
  show ?thesis unfolding c using dG sG by auto
qed

lemma group_clusters_members:
  "group_clusters fos uuid4 es k G = Inr cs \<Longrightarrow> map ec_entities cs = map (map ((!) es)) G"
proof (induction G arbitrary: k cs)
  case Nil
  then show ?case by simp
next
  case (Cons g G)
  from Cons.prems obtain rep cs' where
    "group_clusters fos uuid4 es (Suc k) G = Inr cs'"
    and cs: "cs = \<lparr>ec_cluster_id = uuid4 k, ec_entities = map (\<lambda>i. es ! i) g,
                  ec_representative_entity = Some rep,
                  ec_confidence = entity_cluster_confidence (map (\<lambda>i. es ! i) g),
                  ec_fusion_method = ''similarity_based''\<rparr> # cs'"
    by (auto simp add: Let_def split: sum.splits)
  from Cons.IH [OF this(1)] cs show ?case by simp
qed

lemma map_snd_enumerate_fun: "map (\<lambda>p. f (snd p)) (enumerate n xs) = map f xs"
  by (induction xs arbitrary: n) simp_all

lemma single_clusters_members:
  "map ec_entities (single_clusters uuid4 es k G)
     = map (\<lambda>i. [es ! i]) (filter (\<lambda>i. i \<notin> set (concat G)) [0 ..< length es])"
  by (simp add: single_clusters_def split_def comp_def
      map_snd_enumerate_fun [of "\<lambda>i. [es ! i]"])

lemma cluster_entities_members:
  assumes "cluster_entities fos uuid4 thr es = Inr cs"
  shows "map ec_entities cs = map (map ((!) es)) (cluster_index_groups thr es)"
proof -
  from assms obtain gcs where g: "group_clusters fos uuid4 es 0 (identify_duplicate_entities thr es) = Inr gcs"
    and cs: "cs = gcs @ single_clusters uuid4 es (length gcs) (identify_duplicate_entities thr es)"
    by (auto simp add: cluster_entities_def Let_def split: sum.splits)
  show ?thesis
    unfolding cs
    by (simp add: group_clusters_members [OF g] single_clusters_members cluster_index_groups_def
        Let_def comp_def)
qed

lemma py_float_number:
  "v = PNum x \<or> v = PBool b \<Longrightarrow> \<not> isl (py_float fos v)"
  by auto

lemma entity_score_well_typed:
  assumes "well_typed_entity e"
  shows "\<not> isl (entity_score fos e)"
proof (cases "map_of (e_properties e) ''confidence''")
  case None
  then show ?thesis by (simp add: entity_score_def Let_def)
next
  case (Some v)
  with assms have "\<not> isl (py_float fos v)" by (cases v) (simp_all add: well_typed_entity_def)
  then obtain c where "py_float fos v = Inr c" by (cases "py_float fos v") auto
  with Some show ?thesis by (simp add: entity_score_def Let_def)
qed

lemma collect_scores_total:
  "\<forall>x\<in>set xs. \<not> isl (score x) \<Longrightarrow>
     \<exists>ys. collect_scores score xs = Inr ys \<and> length ys = length xs"
proof (induction xs)
  case Nil
  then show ?case by simp
next
  case (Cons x xs)
  then obtain v where v: "score x = Inr v" by (cases "score x") auto
  from Cons obtain ys where "collect_scores score xs = Inr ys" "length ys = length xs" by auto
  with v show ?case by simp
qed

lemma select_representative_entity_total:
  assumes "\<forall>e\<in>set es. well_typed_entity e" "es \<noteq> []"
  shows "\<not> isl (select_representative_entity fos es)"
proof (cases "length es = 1")
  case True
  then show ?thesis by (simp add: select_representative_entity_def)
next
  case False
  from assms(1) have "\<forall>e\<in>set es. \<not> isl (entity_score fos e)"
    by (simp add: entity_score_well_typed)
  from collect_scores_total [OF this] obtain ys where
    ys: "collect_scores (entity_score fos) es = Inr ys" "length ys = length es" by blast
  with assms(2) obtain y ys' where "ys = y # ys'" by (cases ys) auto
  with ys False show ?thesis by (simp add: select_representative_entity_def)
qed

lemma group_clusters_total:
  assumes "\<forall>g\<in>set G. g \<noteq> [] \<and> (\<forall>i\<in>set g. well_typed_entity (es ! i))"
  shows "\<not> isl (group_clusters fos uuid4 es k G)"
  using assms
proof (induction G arbitrary: k)
  case Nil
  then show ?case by simp
next
  case (Cons g G)
  then have "\<forall>e\<in>set (map (\<lambda>i. es ! i) g). well_typed_entity e" "map (\<lambda>i. es ! i) g \<noteq> []"
    by simp_all
  from select_representative_entity_total [OF this, of fos]
  obtain rep where rep: "select_representative_entity fos (map (\<lambda>i. es ! i) g) = Inr rep"
    by (cases "select_representative_entity fos (map (\<lambda>i. es ! i) g)") auto
  from Cons have "\<not> isl (group_clusters fos uuid4 es (Suc k) G)" by simp
  then obtain cs where "group_clusters fos uuid4 es (Suc k) G = Inr cs"
    by (cases "group_clusters fos uuid4 es (Suc k) G") auto
  with rep show ?case by (simp add: Let_def)
qed

lemma cluster_entities_total:
  assumes "\<forall>e\<in>set es. well_typed_entity e"
  shows "\<exists>cs. cluster_entities fos uuid4 thr es = Inr cs"
proof -
  let ?S = "\<lambda>i j. thr \<le> entity_similarity (es ! i) (es ! j)"
  let ?G = "identify_duplicate_entities thr es"
  have "\<forall>g\<in>set ?G. g \<noteq> [] \<and> (\<forall>i\<in>set g. well_typed_entity (es ! i))"
  proof
    fix g assume "g \<in> set ?G"
    then have g: "g \<in> set (seed_clusters ?S [0 ..< length es])" "1 < length g"
      by (simp_all add: identify_duplicate_entities_seed)
    have "\<forall>i\<in>set g. i < length es" using seed_clusters_mem [OF g(1)] by auto
    with assms g(2) show "g \<noteq> [] \<and> (\<forall>i\<in>set g. well_typed_entity (es ! i))" by auto
  qed
  from group_clusters_total [OF this, of fos uuid4 0]
  obtain gcs where "group_clusters fos uuid4 es 0 ?G = Inr gcs"
    by (cases "group_clusters fos uuid4 es 0 ?G") auto
  then show ?thesis by (simp add: cluster_entities_def Let_def)
qed

lemma source_of_fused:
  "map source_entities (map (fuse_entity_cluster cf) cs) = map ec_entities cs"
  by (simp add: fuse_entity_cluster_def comp_def Let_def if_distrib cong: if_cong)

lemma sqrt4: "sqrt 4 = 2"
  using real_sqrt_abs [of 2] by simp

lemmas string_eval = string_similarity_default_def combined_string_similarity_def
      levenshtein_similarity_def jaccard_similarity_def jaccard_similarity_n_def get_ngrams_def
      lower_def lower_char_def cosine_similarity_def dot_product_def norm_sq_def
      lcs_similarity_def lcs_length_def Let_def sqrt4 upt_rec numeral_eq_Suc card_insert_if

lemma name_sim_1: "string_similarity_default ''abce'' ''abcd'' = 27 / 40"
  by (simp add: string_eval)

lemma name_sim_2: "string_similarity_default ''abce'' ''xbcd'' = 41 / 100"
  by (simp add: string_eval)

lemma name_sim_3: "string_similarity_default ''abcd'' ''xbcd'' = 27 / 40"
  by (simp add: string_eval)

lemma name_sim_4: "string_similarity_default ''abcd'' ''abce'' = 27 / 40"
  by (simp add: string_eval)

lemma entity_similarity_named:
  "entity_similarity (named a) (named b) = string_similarity_default a b * (4 / 10) + 6 / 10"
  by (simp add: entity_similarity_def named_def structural_similarity_def)

lemma chain_groups: "identify_duplicate_entities (8 / 10) chain_entities = [[0, 1]]"
  by (simp add: identify_duplicate_entities_seed chain_entities_def upt_rec numeral_eq_Suc
      entity_similarity_named name_sim_1 name_sim_2 name_sim_3)

lemma star_groups: "identify_duplicate_entities (8 / 10) star_entities = [[0, 1, 2]]"
  by (simp add: identify_duplicate_entities_seed star_entities_def upt_rec numeral_eq_Suc
      entity_similarity_named name_sim_4 name_sim_3)

lemma chain_components:
  "clustering_by_similarity 4 (map e_name chain_entities) (1 / 2) = Some [[0, 1, 2]]"
  by (simp add: clustering_by_similarity_def chain_entities_def named_def similarity_matrix_def
      upt_rec numeral_eq_Suc name_sim_1 name_sim_2 name_sim_3)

lemma chain_components_default:
  "clustering_by_similarity 4 (map e_name chain_entities) (7 / 10) = Some [[0], [1], [2]]"
  by (simp add: clustering_by_similarity_def chain_entities_def named_def similarity_matrix_def
      upt_rec numeral_eq_Suc name_sim_1 name_sim_2 name_sim_3)

lemma chain_similarities:
  "entity_similarity (chain_entities ! 0) (chain_entities ! 1) = 87 / 100"
  "entity_similarity (chain_entities ! 0) (chain_entities ! 2) = 764 / 1000"
  "entity_similarity (chain_entities ! 1) (chain_entities ! 2) = 87 / 100"
  by (simp_all add: chain_entities_def entity_similarity_named name_sim_1 name_sim_2 name_sim_3)

lemma star_similarities:
  "entity_similarity (star_entities ! 0) (star_entities ! 1) = 87 / 100"
  "entity_similarity (star_entities ! 0) (star_entities ! 2) = 87 / 100"
  "entity_similarity (star_entities ! 1) (star_entities ! 2) = 764 / 1000"
  by (simp_all add: star_entities_def entity_similarity_named name_sim_4 name_sim_2 name_sim_3)

text \<open>
  C5. The dedup pass of the entity engine is seed-based grouping. The groups returned by
  \<^verbatim>\<open>identify_duplicate_entities\<close> are the clusters of more than one index of the procedure
  "take the first unclustered index as seed and add every later unclustered index whose
  similarity to the seed reaches the threshold". Every member of a cluster comes after its
  seed and is similar to the seed, and is not similar to the seed of any earlier cluster;
  similarity between two members is never consulted. The clusters of \<^verbatim>\<open>cluster_entities\<close>
  partition the input, \<^verbatim>\<open>cluster_entities\<close> returns for well-typed entities, and
  \<^verbatim>\<open>batch_fuse_entities\<close> yields one result per cluster, with that cluster's members as sources.
  On the chain example the pass returns the clusters \<open>{0, 1}\<close> and \<open>{2}\<close> although entities 1
  and 2 are similar, while \<^verbatim>\<open>clustering_by_similarity\<close> puts the three names into one
  component at threshold 0.5 (and into three at 0.7); on the star example members 1 and 2
  share a cluster although they are not similar to each other.
\<close>

theorem seed_based_grouping:
  "identify_duplicate_entities thr es
      = filter (\<lambda>g. 1 < length g)
          (seed_clusters (\<lambda>i j. thr \<le> entity_similarity (es ! i) (es ! j)) [0 ..< length es])
   \<and> (\<forall>g\<in>set (seed_clusters (\<lambda>i j. thr \<le> entity_similarity (es ! i) (es ! j)) [0 ..< length es]).
        g \<noteq> [] \<and> (\<forall>j\<in>set (tl g). hd g < j \<and> j < length es
                      \<and> thr \<le> entity_similarity (es ! hd g) (es ! j)))
   \<and> (seed_clusters (\<lambda>i j. thr \<le> entity_similarity (es ! i) (es ! j)) [0 ..< length es]
         = pre @ g # post
       \<longrightarrow> (\<forall>g'\<in>set pre. \<forall>j\<in>set g. \<not> thr \<le> entity_similarity (es ! hd g') (es ! j)))
   \<and> distinct (concat (cluster_index_groups thr es))
   \<and> set (concat (cluster_index_groups thr es)) = {0 ..< length es}
   \<and> (cluster_entities fos uuid4 thr es = Inr cs \<longrightarrow>
        map ec_entities cs = map (map ((!) es)) (cluster_index_groups thr es)
        \<and> batch_fuse_entities fos uuid4 cf thr es = Inr (map (fuse_entity_cluster cf) cs)
        \<and> length (map (fuse_entity_cluster cf) cs) = length cs
        \<and> map source_entities (map (fuse_entity_cluster cf) cs) = map ec_entities cs)
   \<and> ((\<forall>e\<in>set es. well_typed_entity e) \<longrightarrow> (\<exists>cs'. cluster_entities fos uuid4 thr es = Inr cs'))
   \<and> identify_duplicate_entities default_similarity_threshold chain_entities = [[0, 1]]
   \<and> cluster_index_groups default_similarity_threshold chain_entities = [[0, 1], [2]]
   \<and> default_similarity_threshold \<le> entity_similarity (chain_entities ! 1) (chain_entities ! 2)
   \<and> clustering_by_similarity 4 (map e_name chain_entities) (1 / 2) = Some [[0, 1, 2]]
   \<and> clustering_by_similarity 4 (map e_name chain_entities) (7 / 10) = Some [[0], [1], [2]]
   \<and> identify_duplicate_entities default_similarity_threshold star_entities = [[0, 1, 2]]
   \<and> entity_similarity (star_entities ! 1) (star_entities ! 2) < default_similarity_threshold"
proof -
  let ?S = "\<lambda>i j. thr \<le> entity_similarity (es ! i) (es ! j)"
  have sorted: "sorted_wrt (<) [0 ..< length es]" by (simp add: sorted_wrt_upt)
  have a: "\<forall>g\<in>set (seed_clusters ?S [0 ..< length es]).
        g \<noteq> [] \<and> (\<forall>j\<in>set (tl g). hd g < j \<and> j < length es
                      \<and> thr \<le> entity_similarity (es ! hd g) (es ! j))"
  proof
    fix g assume g: "g \<in> set (seed_clusters ?S [0 ..< length es])"
    from seed_clusters_members [OF g sorted]
    have m: "g \<noteq> []" "\<forall>j\<in>set (tl g). hd g < j \<and> ?S (hd g) j" "set g \<subseteq> set [0 ..< length es]"
      by simp_all
    have "\<forall>j\<in>set (tl g). j < length es"
    proof
      fix j assume "j \<in> set (tl g)"
      then have "j \<in> set g" using m(1) by (cases g) auto
      with m(3) show "j < length es" by auto
    qed
    with m show "g \<noteq> [] \<and> (\<forall>j\<in>set (tl g). hd g < j \<and> j < length es
                      \<and> thr \<le> entity_similarity (es ! hd g) (es ! j))" by simp
  qed
  have b: "seed_clusters ?S [0 ..< length es] = pre @ g # post
       \<longrightarrow> (\<forall>g'\<in>set pre. \<forall>j\<in>set g. \<not> thr \<le> entity_similarity (es ! hd g') (es ! j))"
    using seed_clusters_earliest [of ?S "[0 ..< length es]" pre g post] by blast
  have c: "cluster_entities fos uuid4 thr es = Inr cs \<longrightarrow>
        map ec_entities cs = map (map ((!) es)) (cluster_index_groups thr es)
        \<and> batch_fuse_entities fos uuid4 cf thr es = Inr (map (fuse_entity_cluster cf) cs)
        \<and> length (map (fuse_entity_cluster cf) cs) = length cs
        \<and> map source_entities (map (fuse_entity_cluster cf) cs) = map ec_entities cs"
  proof (intro impI conjI)
    assume cl: "cluster_entities fos uuid4 thr es = Inr cs"
    show "map ec_entities cs = map (map ((!) es)) (cluster_index_groups thr es)"
      using cl by (rule cluster_entities_members)
    show "batch_fuse_entities fos uuid4 cf thr es = Inr (map (fuse_entity_cluster cf) cs)"
      using cl by (simp add: batch_fuse_entities_def)
    show "length (map (fuse_entity_cluster cf) cs) = length cs" by simp
    show "map source_entities (map (fuse_entity_cluster cf) cs) = map ec_entities cs"
      by (rule source_of_fused)
  qed
  have d: "(\<forall>e\<in>set es. well_typed_entity e) \<longrightarrow> (\<exists>cs'. cluster_entities fos uuid4 thr es = Inr cs')"
    using cluster_entities_total [of es fos uuid4 thr] by blast
  have e: "cluster_index_groups default_similarity_threshold chain_entities = [[0, 1], [2]]"
    using chain_groups
    by (simp add: cluster_index_groups_def default_similarity_threshold_def Let_def)
       (simp add: chain_entities_def upt_rec numeral_eq_Suc)
  have p: "distinct (concat (cluster_index_groups thr es))"
    "set (concat (cluster_index_groups thr es)) = {0 ..< length es}"
    using cluster_index_groups_partition [of thr es] by blast+
  have x1: "identify_duplicate_entities default_similarity_threshold chain_entities = [[0, 1]]"
    using chain_groups by (simp add: default_similarity_threshold_def)
  have x2: "default_similarity_threshold \<le> entity_similarity (chain_entities ! 1) (chain_entities ! 2)"
    using chain_similarities(3) by (simp add: default_similarity_threshold_def)
  have x3: "identify_duplicate_entities default_similarity_threshold star_entities = [[0, 1, 2]]"
    using star_groups by (simp add: default_similarity_threshold_def)
  have x4: "entity_similarity (star_entities ! 1) (star_entities ! 2) < default_similarity_threshold"
    using star_similarities(3) by (simp add: default_similarity_threshold_def)
  note r = identify_duplicate_entities_seed [of thr es]
  show ?thesis
    by (intro conjI) (rule r a b p c d e x1 x2 x3 x4 chain_components chain_components_default)+
qed

lemma chain_well_typed: "list_all well_typed_entity chain_entities"
  by (simp add: chain_entities_def named_def well_typed_entity_def)

lemma chain_seed_clusters:
  "seed_clusters (\<lambda>i j. default_similarity_threshold
      \<le> entity_similarity (chain_entities ! i) (chain_entities ! j)) [0 ..< length chain_entities]
   = [[0, 1], [2]]"
  by (simp add: chain_entities_def upt_rec numeral_eq_Suc default_similarity_threshold_def
      entity_similarity_named name_sim_1 name_sim_2 name_sim_3)

theorem seed_based_grouping_witness:
  "list_all well_typed_entity chain_entities
   \<and> seed_clusters (\<lambda>i j. default_similarity_threshold
        \<le> entity_similarity (chain_entities ! i) (chain_entities ! j)) [0 ..< length chain_entities]
       = [[0, 1]] @ [2] # []
   \<and> \<not> default_similarity_threshold \<le> entity_similarity (chain_entities ! 0) (chain_entities ! 2)
   \<and> default_similarity_threshold \<le> entity_similarity (chain_entities ! 0) (chain_entities ! 1)
   \<and> (\<exists>cs. cluster_entities (\<lambda>_. None) (\<lambda>_. ''c'') default_similarity_threshold chain_entities = Inr cs
        \<and> map ec_entities cs = [[named ''abce'', named ''abcd''], [named ''xbcd'']]
        \<and> batch_fuse_entities (\<lambda>_. None) (\<lambda>_. ''c'') (\<lambda>_. ent_new) default_similarity_threshold
             chain_entities = Inr (map (fuse_entity_cluster (\<lambda>_. ent_new)) cs)
        \<and> length (map (fuse_entity_cluster (\<lambda>_. ent_new)) cs) = 2)
   \<and> identify_duplicate_entities default_similarity_threshold chain_entities = [[0, 1]]
   \<and> clustering_by_similarity 4 (map e_name chain_entities) (1 / 2) = Some [[0, 1, 2]]"
proof -
  note t = seed_based_grouping [where thr = default_similarity_threshold and es = chain_entities
      and fos = "\<lambda>_. None" and ?uuid4.0 = "\<lambda>_. ''c''" and cf = "\<lambda>_. ent_new"
      and pre = "[[0, 1]]" and g = "[2]" and post = "[]"]
  have w: "\<forall>e\<in>set chain_entities. well_typed_entity e"
    using chain_well_typed by (simp add: list_all_iff)
  from t w obtain cs where cs: "cluster_entities (\<lambda>_. None) (\<lambda>_. ''c'') default_similarity_threshold
      chain_entities = Inr cs" by blast
  have g: "cluster_index_groups default_similarity_threshold chain_entities = [[0, 1], [2]]"
    using t by blast
  have m: "map ec_entities cs = map (map ((!) chain_entities)) [[0, 1], [2]]"
    using t [where cs = cs] cs g by simp
  then have m': "map ec_entities cs = [[named ''abce'', named ''abcd''], [named ''xbcd'']]"
    by (simp add: chain_entities_def)
  then have "length (map ec_entities cs) = 2" by simp
  then have l: "length cs = 2" by simp
  have b: "batch_fuse_entities (\<lambda>_. None) (\<lambda>_. ''c'') (\<lambda>_. ent_new) default_similarity_threshold
             chain_entities = Inr (map (fuse_entity_cluster (\<lambda>_. ent_new)) cs)"
    using t [where cs = cs] cs by blast
  have far: "\<not> default_similarity_threshold \<le> entity_similarity (chain_entities ! 0) (chain_entities ! 2)"
    using t chain_seed_clusters by simp
  have near: "default_similarity_threshold \<le> entity_similarity (chain_entities ! 0) (chain_entities ! 1)"
    using chain_similarities(1) by (simp add: default_similarity_threshold_def)
  have i: "identify_duplicate_entities default_similarity_threshold chain_entities = [[0, 1]]"
    "clustering_by_similarity 4 (map e_name chain_entities) (1 / 2) = Some [[0, 1, 2]]"
    using t by blast+
  from chain_well_typed chain_seed_clusters far near cs m' b l i show ?thesis by auto
qed

section \<open>Verified properties: bounds in exact arithmetic\<close>

text \<open>
  With real numbers for floats, every similarity and every confidence of entity fusion and
  relation fusion lies between 0 and 1, the relation confidences provided the confidences of
  the fused relations do. The string similarities are bounded by the lemmas of the section on
  string similarity.
\<close>

lemma string_similarity_default_bounds:
  "0 \<le> string_similarity_default a b \<and> string_similarity_default a b \<le> 1"
  using combined_string_similarity_bounds [of a b] by (simp add: string_similarity_default_def)

lemma string_similarity_bounds:
  assumes "string_similarity a b m = Inr x"
  shows "0 \<le> x \<and> x \<le> 1"
  using assms levenshtein_similarity_bounds [of a b] jaccard_similarity_n_bounds [of a b 2]
    cosine_similarity_bounds [of a b] lcs_similarity_bounds [of a b]
    combined_string_similarity_bounds [of a b]
  by (auto simp add: string_similarity_def jaccard_similarity_def split: if_splits)

lemma jaccard_ratio_bounds:
  assumes "finite A" "finite B"
  shows "0 \<le> real (card (A \<inter> B)) / real (card (A \<union> B))
    \<and> real (card (A \<inter> B)) / real (card (A \<union> B)) \<le> 1"
proof -
  have "card (A \<inter> B) \<le> card (A \<union> B)" using assms by (intro card_mono) auto
  then show ?thesis by (simp add: divide_le_eq)
qed

lemma list_similarity_bounds: "0 \<le> list_similarity a b \<and> list_similarity a b \<le> 1"
  using jaccard_ratio_bounds [of "set (map norm_scalar a)" "set (map norm_scalar b)"]
  by (simp add: list_similarity_def Let_def)

lemma value_similarity_bounds: "0 \<le> value_similarity v w \<and> value_similarity v w \<le> 1"
proof (cases v)
  case (PStr a)
  then show ?thesis
    using string_similarity_default_bounds by (cases w) (simp_all add: value_similarity_def)
next
  case (PList a)
  then show ?thesis
    using list_similarity_bounds by (cases w) (simp_all add: value_similarity_def)
next
  case (PNum a)
  then show ?thesis by (cases w) (simp_all add: value_similarity_def)
next
  case (PBool a)
  then show ?thesis by (cases w) (simp_all add: value_similarity_def)
next
  case PNone
  then show ?thesis by (cases w) (simp_all add: value_similarity_def)
qed

lemma sum_list_unit:
  "\<forall>x\<in>set xs. 0 \<le> x \<and> x \<le> (1::real) \<Longrightarrow> 0 \<le> sum_list xs \<and> sum_list xs \<le> real (length xs)"
  by (induction xs) auto

lemma average_unit:
  assumes "\<forall>x\<in>set xs. 0 \<le> x \<and> x \<le> (1::real)"
  shows "0 \<le> sum_list xs / real (length xs) \<and> sum_list xs / real (length xs) \<le> 1"
proof (cases "xs = []")
  case True
  then show ?thesis by simp
next
  case False
  then have "0 < real (length xs)" by simp
  with sum_list_unit [OF assms] show ?thesis by (simp add: divide_le_eq)
qed

lemma structural_similarity_bounds:
  "0 \<le> structural_similarity p q \<and> structural_similarity p q \<le> 1"
proof (cases "p = [] \<or> q = []")
  case True
  then show ?thesis by (auto simp add: structural_similarity_def)
next
  case False
  let ?k1 = "set (map fst p)" and ?k2 = "set (map fst q)"
  let ?vs = "map (\<lambda>k. value_similarity (the (map_of p k)) (the (map_of q k)))
      (filter (\<lambda>k. k \<in> ?k2) (remdups (map fst p)))"
  have k: "0 \<le> real (card (?k1 \<inter> ?k2)) / real (card (?k1 \<union> ?k2))
      \<and> real (card (?k1 \<inter> ?k2)) / real (card (?k1 \<union> ?k2)) \<le> 1"
    by (rule jaccard_ratio_bounds) simp_all
  have "\<forall>x\<in>set ?vs. 0 \<le> x \<and> x \<le> 1" using value_similarity_bounds by auto
  from average_unit [OF this] have a: "0 \<le> sum_list ?vs / real (length ?vs)
      \<and> sum_list ?vs / real (length ?vs) \<le> 1" .
  have u: "0 < card (?k1 \<union> ?k2)" using False by (auto simp add: card_gt_0_iff)
  define ks where "ks = real (card (?k1 \<inter> ?k2)) / real (card (?k1 \<union> ?k2))"
  define av where "av = (if ?vs \<noteq> [] then sum_list ?vs / real (length ?vs) else 0)"
  have ks: "0 \<le> ks" "ks \<le> 1" using k by (simp_all add: ks_def)
  have av: "0 \<le> av" "av \<le> 1" using a by (simp_all add: av_def)
  have "structural_similarity p q = ks * (5 / 10) + av * (5 / 10)"
    using False u unfolding structural_similarity_def Let_def ks_def av_def by simp
  with ks av show ?thesis by simp
qed

lemma entity_similarity_bounds:
  "0 \<le> entity_similarity e1 e2 \<and> entity_similarity e1 e2 \<le> 1"
proof -
  define al where "al = (if set (e_aliases e1) \<union> set (e_aliases e2) \<noteq> {}
      then real (card (set (e_aliases e1) \<inter> set (e_aliases e2)))
           / real (card (set (e_aliases e1) \<union> set (e_aliases e2))) else 0)"
  define ty where "ty = (if e_type e1 = e_type e2 then 1 else 0 :: real)"
  have al: "0 \<le> al" "al \<le> 1"
    using jaccard_ratio_bounds [of "set (e_aliases e1)" "set (e_aliases e2)"]
    by (simp_all add: al_def)
  have ty: "0 \<le> ty" "ty \<le> 1" by (simp_all add: ty_def)
  note n = string_similarity_default_bounds [of "e_name e1" "e_name e2"]
  note p = structural_similarity_bounds [of "e_properties e1" "e_properties e2"]
  have "entity_similarity e1 e2 = string_similarity_default (e_name e1) (e_name e2) * (4 / 10)
      + ty * (3 / 10) + structural_similarity (e_properties e1) (e_properties e2) * (2 / 10)
      + al * (1 / 10)"
    unfolding entity_similarity_def Let_def al_def ty_def by simp
  with al ty n p show ?thesis by simp
qed

lemma entity_cluster_confidence_bounds:
  "0 \<le> entity_cluster_confidence es \<and> entity_cluster_confidence es \<le> 1"
proof (cases "length es = 1")
  case True
  then show ?thesis by (simp add: entity_cluster_confidence_def)
next
  case False
  let ?sims = "map (\<lambda>(i, j). entity_similarity (es ! i) (es ! j)) (index_pairs (length es))"
  have "\<forall>x\<in>set ?sims. 0 \<le> x \<and> x \<le> 1" using entity_similarity_bounds by auto
  from average_unit [OF this] False show ?thesis
    by (simp add: entity_cluster_confidence_def Let_def)
qed

lemma entity_fusion_confidence_bounds:
  "0 \<le> entity_fusion_confidence srcs fused \<and> entity_fusion_confidence srcs fused \<le> 1"
proof (cases "length srcs = 1")
  case True
  then show ?thesis by (simp add: entity_fusion_confidence_def)
next
  case False
  define sf where "sf = min 1 (real (length srcs) / 5)"
  define cf where "cf = (if sum_list (map (\<lambda>e. length (e_properties e)) srcs) > 0
      then real (length (e_properties fused))
           / real (sum_list (map (\<lambda>e. length (e_properties e)) srcs)) else 5 / 10)"
  define co where "co = ((if card (set (map e_name srcs)) = 1 then 1 else 0)
      + (if card (set (map e_type srcs)) = 1 then 1 else 0)) / (2 :: real)"
  have sf: "0 \<le> sf" by (simp add: sf_def)
  have cf: "0 \<le> cf" by (simp add: cf_def)
  have co: "0 \<le> co" by (simp add: co_def)
  have "entity_fusion_confidence srcs fused
      = min (sf * (3 / 10) + cf * (4 / 10) + co * (3 / 10)) 1"
    using False unfolding entity_fusion_confidence_def Let_def sf_def cf_def co_def by simp
  with sf cf co show ?thesis by simp
qed

lemma context_similarity_bounds:
  "0 \<le> context_similarity kw a b \<and> context_similarity kw a b \<le> 1"
  using jaccard_ratio_bounds [of "set (kw a)" "set (kw b)"]
  by (simp add: context_similarity_def Let_def)

lemma relation_context_similarity_bounds:
  assumes "relation_context_similarity kw r1 r2 = Inr x"
  shows "0 \<le> x \<and> x \<le> 1"
proof (cases "r_properties r1 \<noteq> [] \<and> r_properties r2 \<noteq> []
    \<and> map_of (r_properties r1) ''context'' \<noteq> None \<and> map_of (r_properties r2) ''context'' \<noteq> None")
  case True
  with assms have "(case (the (map_of (r_properties r1) ''context''),
                  the (map_of (r_properties r2) ''context'')) of
              (PStr c1, PStr c2) \<Rightarrow> Inr (context_similarity kw c1 c2)
            | _ \<Rightarrow> Inl AttributeError) = Inr x"
    by (simp add: relation_context_similarity_def)
  then obtain c1 c2 where "x = context_similarity kw c1 c2"
    by (auto split: prod.splits pval.splits)
  then show ?thesis using context_similarity_bounds by simp
next
  case False
  then have "relation_context_similarity kw r1 r2 = Inr 0"
    unfolding relation_context_similarity_def by (rule if_not_P)
  with assms show ?thesis by simp
qed

lemma calculate_relation_similarity_bounds:
  assumes "calculate_relation_similarity kw r1 r2 = Inr x"
  shows "0 \<le> x \<and> x \<le> 1"
proof -
  from assms obtain c where c: "relation_context_similarity kw r1 r2 = Inr c"
    and x: "x = (relation_type_similarity r1 r2 * (6 / 10) + relation_entity_similarity r1 r2 * (8 / 10)
                  + c * (4 / 10)) / (6 / 10 + 8 / 10 + 4 / 10)"
    by (auto simp add: calculate_relation_similarity_def Let_def split: sum.splits)
  have t: "0 \<le> relation_type_similarity r1 r2" "relation_type_similarity r1 r2 \<le> 1"
    by (simp_all add: relation_type_similarity_def)
  have e: "0 \<le> relation_entity_similarity r1 r2" "relation_entity_similarity r1 r2 \<le> 1"
    by (simp_all add: relation_entity_similarity_def)
  from relation_context_similarity_bounds [OF c] t e show ?thesis unfolding x by simp
qed

lemma collect_all:
  assumes "collect f xs = Inr ys" "\<And>x y. f x = Inr y \<Longrightarrow> P y"
  shows "\<forall>y\<in>set ys. P y"
  using assms
proof (induction xs arbitrary: ys)
  case Nil
  then show ?case by simp
next
  case (Cons x xs)
  from Cons.prems(1) obtain v rest where v: "f x = Inr v" and rest: "collect f xs = Inr rest"
    and ys: "ys = v # rest" by (auto split: sum.splits)
  from Cons.IH [OF rest Cons.prems(2)] Cons.prems(2) [OF v] ys show ?case by simp
qed

lemma relation_cluster_confidence_bounds:
  assumes "relation_cluster_confidence kw rs = Inr x"
    and "\<forall>r\<in>set rs. 0 \<le> confidence r \<and> confidence r \<le> 1"
  shows "0 \<le> x \<and> x \<le> 1"
proof (cases "length rs = 1")
  case True
  then obtain r where "rs = [r]" by (cases rs) auto
  with assms show ?thesis by (simp add: relation_cluster_confidence_def)
next
  case False
  from assms(1) False obtain sims where
    s: "collect (\<lambda>(i, j). calculate_relation_similarity kw (rs ! i) (rs ! j))
          (index_pairs (length rs)) = Inr sims"
    and ne: "rs \<noteq> []"
    and x: "x = (if length sims > 0 then sum_list sims / real (length sims) else 0) * (6 / 10)
          + sum_list (map confidence rs) / real (length rs) * (4 / 10)"
    by (auto simp add: relation_cluster_confidence_def Let_def split: sum.splits if_splits)
  have "\<forall>y\<in>set sims. 0 \<le> y \<and> y \<le> 1"
    using s by (rule collect_all) (auto dest: calculate_relation_similarity_bounds)
  from average_unit [OF this]
  have a: "0 \<le> (if length sims > 0 then sum_list sims / real (length sims) else 0)"
    "(if length sims > 0 then sum_list sims / real (length sims) else 0) \<le> 1" by simp_all
  have "\<forall>c\<in>set (map confidence rs). 0 \<le> c \<and> c \<le> 1" using assms(2) by simp
  from average_unit [OF this]
  have b: "0 \<le> sum_list (map confidence rs) / real (length rs)"
    "sum_list (map confidence rs) / real (length rs) \<le> 1" by simp_all
  from a b show ?thesis unfolding x by simp
qed

lemma average_bounds:
  assumes "average xs = Inr a" "\<forall>x\<in>set xs. 0 \<le> x \<and> x \<le> 1"
  shows "0 \<le> a \<and> a \<le> 1"
  using assms average_unit [of xs] by (auto simp add: average_def split: if_splits)

lemma relation_fusion_confidence_bounds:
  assumes "relation_fusion_confidence strategy rs = Inr x"
    and "\<forall>r\<in>set rs. 0 \<le> confidence r \<and> confidence r \<le> 1"
  shows "0 \<le> x \<and> x \<le> 1"
proof -
  have c: "\<forall>c\<in>set (map confidence rs). 0 \<le> c \<and> c \<le> 1" using assms(2) by simp
  consider (mx) "strategy = ''max''"
    | (wa) "strategy \<noteq> ''max''" "strategy \<noteq> ''average''" "strategy = ''weighted_average''"
    | (av) "strategy \<noteq> ''max''" "strategy = ''average'' \<or> strategy \<noteq> ''weighted_average''"
    by blast
  then show ?thesis
  proof cases
    case mx
    with assms(1) have ne: "map confidence rs \<noteq> []" and x: "x = Max (set (map confidence rs))"
      by (auto simp add: relation_fusion_confidence_def Let_def split: if_splits)
    from ne have "Max (set (map confidence rs)) \<in> set (map confidence rs)"
      by (intro Max_in) simp_all
    with c x show ?thesis by blast
  next
    case wa
    with assms(1) obtain a where a: "average (map confidence rs) = Inr a"
      and x: "x = min 1 (a * (1 + min 1 (real (length rs) / 5) * (2 / 10)))"
      by (auto simp add: relation_fusion_confidence_def Let_def split: sum.splits)
    from average_bounds [OF a c] have "0 \<le> a" by simp
    moreover have "0 \<le> 1 + min 1 (real (length rs) / 5) * (2 / 10)" by simp
    ultimately have "0 \<le> a * (1 + min 1 (real (length rs) / 5) * (2 / 10))"
      by (rule mult_nonneg_nonneg)
    then show ?thesis unfolding x by simp
  next
    case av
    with assms(1) have "average (map confidence rs) = Inr x"
      by (auto simp add: relation_fusion_confidence_def Let_def split: if_splits)
    from average_bounds [OF this c] show ?thesis .
  qed
qed

section \<open>Verified properties: cosine similarity in double precision\<close>

lemma round_half_even_near:
  assumes "of_int n - 1 / 2 < x" "x < of_int n + 1 / 2"
  shows "round_half_even x = n"
proof (cases "of_int n \<le> x")
  case True
  with assms have "\<lfloor>x\<rfloor> = n" by (intro floor_unique) simp_all
  with assms show ?thesis by (simp add: round_half_even_def Let_def)
next
  case False
  with assms have "\<lfloor>x\<rfloor> = n - 1" by (intro floor_unique) simp_all
  with assms False show ?thesis by (simp add: round_half_even_def Let_def)
qed

lemma binary64_near:
  assumes "2 ^ k \<le> x" "x < 2 ^ (k + 1)" "k \<le> 52"
    and "of_int n - 1 / 2 < x * 2 ^ (52 - k)" "x * 2 ^ (52 - k) < of_int n + 1 / 2"
  shows "binary64 x = of_int n / 2 ^ (52 - k)"
proof -
  have pos: "0 < x" using assms(1) by (rule less_le_trans [rotated]) simp
  have p: "(2::real) powr real k = 2 ^ k" "(2::real) powr (real k + 1) = 2 ^ (k + 1)"
    using powr_realpow [of "2::real" k] powr_realpow [of "2::real" "k + 1"]
    by (simp_all add: add.commute)
  have "2 powr real_of_int (int k) \<le> x \<and> x < 2 powr (real_of_int (int k) + 1)"
    using assms(1,2) by (simp only: p of_int_of_nat_eq)
  with pos have "\<lfloor>log 2 x\<rfloor> = int k" by (simp only: floor_log_eq_powr_iff) simp
  moreover have "(2::real) powi (int k - 52) = 1 / 2 ^ (52 - k)"
  proof -
    have "int k - 52 = - int (52 - k)" using assms(3) by simp
    then show ?thesis by (simp only: power_int_minus power_int_of_nat inverse_eq_divide)
  qed
  ultimately show ?thesis
    using pos round_half_even_near [OF assms(4,5)] by (simp add: binary64_def Let_def)
qed

lemma binary64_3: "binary64 3 = 3"
  using binary64_near [of 1 3 "3 * 2 ^ 51"] by simp

lemma binary64_sqrt_3: "binary64 (sqrt 3) = 7800463371553962 / 2 ^ 52"
proof -
  have lo: "(7800463371553962 - 1 / 2) / 2 ^ 52 < sqrt 3"
    by (rule real_less_rsqrt) (simp add: power2_eq_square)
  have hi: "sqrt 3 < (7800463371553962 + 1 / 2) / 2 ^ 52"
    by (rule real_less_lsqrt) (simp_all add: power2_eq_square)
  have one: "2 ^ 0 \<le> sqrt 3" by simp
  have two: "sqrt 3 < 2 ^ (0 + 1)" by (rule real_less_lsqrt) simp_all
  from lo have a: "of_int 7800463371553962 - 1 / 2 < sqrt 3 * 2 ^ (52 - 0)"
    by (simp add: field_simps)
  from hi have b: "sqrt 3 * 2 ^ (52 - 0) < of_int 7800463371553962 + 1 / 2"
    by (simp add: field_simps)
  from binary64_near [OF one two _ a b] show ?thesis by simp
qed

lemma binary64_square:
  "binary64 (7800463371553962 / 2 ^ 52 * (7800463371553962 / 2 ^ 52)) = 6755399441055743 / 2 ^ 51"
  using binary64_near [of 1 "7800463371553962 / 2 ^ 52 * (7800463371553962 / 2 ^ 52)" 6755399441055743]
  by simp

lemma binary64_quotient: "binary64 (3 / (6755399441055743 / 2 ^ 51)) = 1 + 1 / 2 ^ 52"
  using binary64_near [of 0 "3 / (6755399441055743 / 2 ^ 51)" "2 ^ 52 + 1"]
  by simp

lemma lower_abc: "lower ''abc'' = ''abc''" "lower ''cba'' = ''cba''"
  by (simp_all add: lower_def lower_char_def)

lemma counts_abc: "norm_sq ''abc'' = 3" "norm_sq ''cba'' = 3" "dot_product ''abc'' ''cba'' = 3"
  by (simp_all add: norm_sq_def dot_product_def)

text \<open>
  Claim C8: every string similarity (levenshtein, jaccard, cosine, lcs, combined) and every
  confidence produced by entity fusion and relation fusion lies in \<open>[0, 1]\<close>.
  In exact arithmetic that holds, by the lemmas of the previous section. In double
  precision the cosine similarity of \<^verbatim>\<open>"abc"\<close> and \<^verbatim>\<open>"cba"\<close>, whose exact value is
  \<open>3 / (sqrt 3 * sqrt 3) = 1\<close>, is \<open>1 + 1 / 2 ^ 52\<close>, printed
  \<^verbatim>\<open>1.0000000000000002\<close>: the root of 3 rounds down, its square rounds to the double
  below 3, and the quotient rounds to the double above 1. \<^verbatim>\<open>_cosine_similarity\<close>
  returns the quotient as it is, where the fusion confidences end in \<^verbatim>\<open>min(..., 1.0)\<close>.
\<close>

theorem cosine_similarity_binary64_exceeds_one:
  "cosine_similarity_binary64 ''abc'' ''cba'' = 1 + 1 / 2 ^ 52
   \<and> 1 < cosine_similarity_binary64 ''abc'' ''cba''
   \<and> cosine_similarity ''abc'' ''cba'' = 1"
proof -
  define s :: real where "s = 7800463371553962 / 2 ^ 52"
  define m :: real where "m = 6755399441055743 / 2 ^ 51"
  have three: "binary64 (real 3) = 3" using binary64_3 by simp
  have n: "binary64 (sqrt (binary64 (real 3))) = s"
    unfolding three s_def by (rule binary64_sqrt_3)
  have p: "binary64 (s * s) = m" unfolding s_def m_def by (rule binary64_square)
  have q: "binary64 (binary64 (real 3) / m) = 1 + 1 / 2 ^ 52"
    unfolding three m_def by (rule binary64_quotient)
  have s: "s \<noteq> 0" by (simp add: s_def)
  have b: "cosine_similarity_binary64 ''abc'' ''cba'' = 1 + 1 / 2 ^ 52"
    unfolding cosine_similarity_binary64_def Let_def lower_abc counts_abc n p q
    using s by simp
  have r: "cosine_similarity ''abc'' ''cba'' = 1"
    unfolding cosine_similarity_def Let_def lower_abc counts_abc by simp
  from b r show ?thesis by simp
qed

end
